theory Spec2Isabelle
  imports Main "HOL-Library.Sublist"
begin

section \<open>LogPatch: the recipe execution engine\<close>

text \<open>
  A shallow embedding of \<^verbatim>\<open>src/logpatch/logpatch.py\<close> and of its predecessor
  \<^verbatim>\<open>src/pkgptch.py\<close>. Both scripts run the commands of a recipe through a shell,
  echo every output line to the terminal and optionally to a log file.

  What lies outside Python is an explicit parameter or an explicit piece of state:
  \<^item> the host is a \<open>world\<close>: the text written to standard output, the regular files
    by path, the state \<open>sys\<close> of the machine that the commands read and change, the
    number of clock readings taken, and a \<open>trace\<close> of the calls the scripts make
    (process creation, pipe reads, prints, file opens, writes and closes, clock
    readings, logger calls), oldest first;
  \<^item> the environment \<open>env\<close> answers what the scripts cannot decide: what a shell
    command prints and returns in a given machine state, whether a path can be opened
    for writing, what the clocks show, and how library objects are rendered as text.

  Modelling assumptions: a command terminates after printing finitely much text; the
  text of the pipe is the decoded text that \<^verbatim>\<open>universal_newlines=True\<close> delivers; the
  commands do not touch the log files; writes reach the file when \<^verbatim>\<open>write\<close> returns
  (buffering is not modelled).
\<close>

subsection \<open>Text streams\<close>

abbreviation newline :: char where
  "newline \<equiv> CHR 0x0A"

text \<open>\<^verbatim>\<open>popen.stdout.readline()\<close> on the remaining text of the pipe: the text up to and
  including the first newline, or all of it when it holds none; the empty string at
  end of file. The second component is what stays in the pipe.\<close>

fun readline :: "string \<Rightarrow> string \<times> string" where
  "readline [] = ([], [])"
| "readline (c # cs) =
     (if c = newline then ([c], cs)
      else (case readline cs of (l, rest) \<Rightarrow> (c # l, rest)))"

text \<open>\<^verbatim>\<open>list(iter(popen.stdout.readline, ""))\<close>: the lines read until end of file.\<close>

function iter_readline :: "string \<Rightarrow> string list" where
  "iter_readline out =
     (case readline out of (stdout_line, rest) \<Rightarrow>
        if stdout_line = [] then [] else stdout_line # iter_readline rest)"
  by pat_completeness auto
termination
proof (relation "measure length", goal_cases)
  case 1
  show ?case by simp
next
  case (2 out stdout_line rest)
  have cat: "t = l @ r" if "readline t = (l, r)" for t l r
    using that by (induction t arbitrary: l r) (auto split: if_splits prod.splits)
  from 2 have "readline out = (stdout_line, rest)" and "stdout_line \<noteq> []"
    by simp_all
  then show ?case
    using cat [of out stdout_line rest] by simp
qed

text \<open>The lines a process emitted: every line is non-empty, a newline stands only at
  the end of a line, and every line but the last ends with one.\<close>

fun emitted_lines :: "string list \<Rightarrow> bool" where
  "emitted_lines [] = True"
| "emitted_lines [l] = (l \<noteq> [] \<and> newline \<notin> set (butlast l))"
| "emitted_lines (l # ls) =
     (l \<noteq> [] \<and> newline \<notin> set (butlast l) \<and> last l = newline \<and> emitted_lines ls)"

subsection \<open>Configuration documents and the schema validator\<close>

text \<open>What \<^verbatim>\<open>yaml.safe_load\<close> returns: \<^verbatim>\<open>None\<close>, booleans, integers, strings,
  lists and dictionaries; \<open>JOther\<close> stands for every other scalar (floats, dates,
  binary data), which the schema below treats alike. A dictionary is an association
  list read as Python reads a \<^verbatim>\<open>dict\<close>: a key has one value (the first binding),
  \<^verbatim>\<open>k in d\<close> is \<open>map_of kvs k \<noteq> None\<close>. Keys are strings.\<close>

datatype json =
    JNull
  | JBool bool
  | JInt int
  | JString string
  | JList "json list"
  | JDict "(string \<times> json) list"
  | JOther

fun getitem :: "json \<Rightarrow> string \<Rightarrow> json option" where
  "getitem (JDict kvs) k = map_of kvs k"
| "getitem v k = None"

text \<open>The items of a dictionary, each key once, in the order of first appearance.\<close>

fun dict_items :: "(string \<times> json) list \<Rightarrow> (string \<times> json) list" where
  "dict_items [] = []"
| "dict_items ((k, v) # kvs) = (k, v) # dict_items (filter (\<lambda>kv. fst kv \<noteq> k) kvs)"

text \<open>A JSON schema is a dictionary of keywords, kept in the order of the source. Only
  the keywords the schema of \<^verbatim>\<open>validate_schema_conf\<close> uses are modelled.\<close>

datatype schema_kw =
    Type string
  | AdditionalProperties "schema_kw list"
  | Properties "(string \<times> schema_kw list) list"
  | Required "string list"

text \<open>A \<^verbatim>\<open>jsonschema.ValidationError\<close>: the absolute path of the offending instance
  (the keys leading to it), the keyword that failed, and the keyword's value at fault
  (the expected type, or the missing property).\<close>

datatype validation_error = ValidationError (error_path: "string list") (keyword: string) (detail: string)

text \<open>Modelled from the spec: \<^verbatim>\<open>Draft7Validator.is_type\<close> of the \<^verbatim>\<open>jsonschema\<close>
  library, which \<^verbatim>\<open>logpatch.py\<close> imports and the repository does not contain. The
  type names are those of JSON Schema, draft 7; a Python \<^verbatim>\<open>bool\<close> is a boolean and
  not an integer.\<close>

fun is_type :: "json \<Rightarrow> string \<Rightarrow> bool" where
  "is_type JNull t = (t = ''null'')"
| "is_type (JBool b) t = (t = ''boolean'')"
| "is_type (JInt i) t = (t = ''integer'' \<or> t = ''number'')"
| "is_type (JString s) t = (t = ''string'')"
| "is_type (JList vs) t = (t = ''array'')"
| "is_type (JDict kvs) t = (t = ''object'')"
| "is_type JOther t = False"

definition property_names :: "schema_kw list \<Rightarrow> string list" where
  "property_names schema =
     concat (map (\<lambda>kw. case kw of Properties props \<Rightarrow> map fst props | _ \<Rightarrow> []) schema)"

text \<open>Modelled from the spec: \<^verbatim>\<open>Draft7Validator(schema).iter_errors\<close> of the
  \<^verbatim>\<open>jsonschema\<close> library, which \<^verbatim>\<open>logpatch.py\<close> imports and the repository does not
  contain; the keywords mean what JSON Schema, draft 7, and section 4.1 of the
  specification say. Every keyword of the schema is checked and reports its own errors.
  \<^verbatim>\<open>type\<close> reports an instance of another type. \<^verbatim>\<open>properties\<close>,
  \<^verbatim>\<open>additionalProperties\<close> and \<^verbatim>\<open>required\<close> ignore an instance that is not an
  object; \<^verbatim>\<open>properties\<close> descends into the listed properties that are present,
  \<^verbatim>\<open>additionalProperties\<close> (given a schema) into those that are not listed, and
  \<^verbatim>\<open>required\<close> reports every listed property that is absent. The library visits the
  additional properties in the order of a Python set; here they come in the order of
  the dictionary.\<close>

function iter_errors :: "schema_kw list \<Rightarrow> string list \<Rightarrow> json \<Rightarrow> validation_error list" where
  "iter_errors schema path inst =
     concat (map (\<lambda>kw. case kw of
         Type t \<Rightarrow> if is_type inst t then [] else [ValidationError path ''type'' t]
       | AdditionalProperties sub \<Rightarrow>
           (case inst of
              JDict kvs \<Rightarrow>
                concat (map (\<lambda>kv. iter_errors sub (path @ [fst kv]) (snd kv))
                  (filter (\<lambda>kv. fst kv \<notin> set (property_names schema)) (dict_items kvs)))
            | _ \<Rightarrow> [])
       | Properties props \<Rightarrow>
           (case inst of
              JDict kvs \<Rightarrow>
                concat (map (\<lambda>ps. case map_of kvs (fst ps) of
                                     Some v \<Rightarrow> iter_errors (snd ps) (path @ [fst ps]) v
                                   | None \<Rightarrow> []) props)
            | _ \<Rightarrow> [])
       | Required names \<Rightarrow>
           (case inst of
              JDict kvs \<Rightarrow>
                concat (map (\<lambda>p. if map_of kvs p \<noteq> None then []
                                  else [ValidationError path ''required'' p]) names)
            | _ \<Rightarrow> [])) schema)"
  by pat_completeness auto
termination
proof (relation "measure (\<lambda>(schema, path, inst). size_list size schema)", goal_cases)
  case 1
  show ?case by simp
next
  case (2 schema path inst kw sub kvs kv)
  then show ?case
    by (auto dest!: size_list_estimation' [where f = size and y = "size kw"])
next
  case (3 schema path inst kw props kvs ps v)
  have "size_list size (snd ps) \<le> size_prod (\<lambda>x. 0) (size_list size) ps"
    by (cases ps) simp
  moreover from 3 have "ps \<in> set props"
    by simp
  ultimately have "size_list size (snd ps) \<le> size_list (size_prod (\<lambda>x. 0) (size_list size)) props"
    by (rule size_list_estimation' [rotated])
  with 3 show ?case
    by (auto dest!: size_list_estimation' [where f = size and y = "size kw"])
qed

declare iter_errors.simps [simp del]

text \<open>\<^verbatim>\<open>logpatch.py\<close>, lines 46 to 79.\<close>

definition schema :: "schema_kw list" where
  "schema =
     [Type ''object'',
      AdditionalProperties
        [Type ''object'',
         Properties
           [(''log_directory'', [Type ''string'']),
            (''log_package_version_cmd'', [Type ''boolean'']),
            (''log_patch_cmd'', [Type ''boolean'']),
            (''name'', [Type ''string'']),
            (''patch_cmd'', [Type ''string'']),
            (''package_version_cmd'', [Type ''string''])],
         Required
           [''log_directory'', ''log_package_version_cmd'', ''log_patch_cmd'', ''name'',
            ''patch_cmd'', ''package_version_cmd'']]]"

subsection \<open>Errors, events, the world and its environment\<close>

text \<open>The exceptions the scripts can meet. \<^verbatim>\<open>CalledProcessError(return_code, cmd)\<close>
  keeps the argument order of the source.\<close>

datatype py_error =
    CalledProcessError int string
  | OSError string
  | KeyError string

datatype level = INFO | ERROR | CRITICAL

datatype event =
    Popen string
  | Readline string
  | StdoutClose
  | Wait int
  | Print string
  | Open string char bool
  | Write string string
  | Close string
  | Utcnow
  | Now
  | Log level string

record datetime =
  year :: nat
  month :: nat
  day :: nat
  hour :: nat
  minute :: nat
  second :: nat
  microsecond :: nat

record 's world =
  console :: string
  files :: "string \<rightharpoonup> string"
  trace :: "event list"
  clock_reads :: nat
  sys :: 's

text \<open>\<open>shell env cmd s\<close> is what \<^verbatim>\<open>cmd\<close> does when the shell runs it in machine state
  \<open>s\<close>: the merged text of its stdout and stderr, its return code, and the machine
  state it leaves. \<open>utc_clock env k\<close> and \<open>local_clock env k\<close> are what the two clocks
  show at the \<open>k\<close>-th reading. \<open>signal_repr\<close> renders \<^verbatim>\<open>signal.Signals(n)\<close> (\<open>None\<close>
  where Python raises \<^verbatim>\<open>ValueError\<close>), \<open>str_validation_error\<close> a validation error of
  the \<^verbatim>\<open>jsonschema\<close> library.\<close>

record 's env =
  shell :: "string \<Rightarrow> 's \<Rightarrow> string \<times> int \<times> 's"
  openable :: "string \<Rightarrow> bool"
  utc_clock :: "nat \<Rightarrow> datetime"
  local_clock :: "nat \<Rightarrow> datetime"
  signal_repr :: "nat \<Rightarrow> string option"
  str_validation_error :: "validation_error \<Rightarrow> string"

definition emit :: "event \<Rightarrow> 's world \<Rightarrow> 's world" where
  "emit e w = w\<lparr>trace := trace w @ [e]\<rparr>"

text \<open>\<^verbatim>\<open>print(line, end='')\<close>.\<close>

definition print_end :: "string \<Rightarrow> 's world \<Rightarrow> 's world" where
  "print_end line w = emit (Print line) (w\<lparr>console := console w @ line\<rparr>)"

text \<open>\<^verbatim>\<open>open(path, mode)\<close> for the modes \<^verbatim>\<open>'a'\<close> and \<^verbatim>\<open>'w'\<close>: both create a missing
  file; \<^verbatim>\<open>'w'\<close> truncates an existing one, \<^verbatim>\<open>'a'\<close> keeps its content.\<close>

definition py_open :: "'s env \<Rightarrow> string \<Rightarrow> char \<Rightarrow> 's world \<Rightarrow> (py_error + unit) \<times> 's world" where
  "py_open env path mode w =
     (if openable env path then
        (Inr (),
         emit (Open path mode True)
           (w\<lparr>files := (files w)(path \<mapsto>
                (if mode = CHR ''a'' then (case files w path of None \<Rightarrow> [] | Some old \<Rightarrow> old)
                 else []))\<rparr>))
      else (Inl (OSError path), emit (Open path mode False) w))"

text \<open>\<^verbatim>\<open>f_out.write(line)\<close> on the file opened at \<open>path\<close>: the text goes to its end.\<close>

definition f_write :: "string \<Rightarrow> string \<Rightarrow> 's world \<Rightarrow> 's world" where
  "f_write path line w =
     emit (Write path line)
       (w\<lparr>files := (files w)(path \<mapsto>
            (case files w path of None \<Rightarrow> line | Some content \<Rightarrow> content @ line))\<rparr>)"

text \<open>Leaving the \<^verbatim>\<open>with\<close> block, normally or by an exception, closes the file.\<close>

definition f_close :: "string \<Rightarrow> 's world \<Rightarrow> 's world" where
  "f_close path w = emit (Close path) w"

definition logger_log :: "level \<Rightarrow> string \<Rightarrow> 's world \<Rightarrow> 's world" where
  "logger_log lvl msg w = emit (Log lvl msg) w"

subsection \<open>\<^verbatim>\<open>subproc_Popen\<close>: the generator (identical in both scripts)\<close>

text \<open>
  A generator object is in one of three states: created and not yet started;
  suspended at \<^verbatim>\<open>yield\<close>, holding the command, the text still in the pipe and the
  code \<^verbatim>\<open>popen.wait()\<close> is going to return; or finished. \<open>gen_next\<close> is one call of
  \<^verbatim>\<open>next()\<close>: it runs the body up to the next \<^verbatim>\<open>yield\<close>, to its end
  (\<^verbatim>\<open>StopIteration\<close>) or to the \<^verbatim>\<open>raise\<close>.
\<close>

datatype gen = Created string | Suspended string string int | Finished

datatype step = Yielded string | StopIteration | Raised py_error

definition subproc_Popen :: "string \<Rightarrow> gen" where
  "subproc_Popen cmd = Created cmd"

definition resume :: "string \<Rightarrow> string \<Rightarrow> int \<Rightarrow> 's world \<Rightarrow> step \<times> gen \<times> 's world" where
  "resume cmd out return_code w =
     (case readline out of (stdout_line, rest) \<Rightarrow>
        if stdout_line \<noteq> [] then
          (Yielded stdout_line, Suspended cmd rest return_code, emit (Readline stdout_line) w)
        else
          (let w' = emit (Wait return_code) (emit StdoutClose (emit (Readline []) w))
           in if return_code \<noteq> 0
              then (Raised (CalledProcessError return_code cmd), Finished, w')
              else (StopIteration, Finished, w')))"

fun gen_next :: "'s env \<Rightarrow> gen \<Rightarrow> 's world \<Rightarrow> step \<times> gen \<times> 's world" where
  "gen_next env (Created cmd) w =
     (case shell env cmd (sys w) of (out, return_code, s') \<Rightarrow>
        resume cmd out return_code (emit (Popen cmd) (w\<lparr>sys := s'\<rparr>)))"
| "gen_next env (Suspended cmd out return_code) w = resume cmd out return_code w"
| "gen_next env Finished w = (StopIteration, Finished, w)"

text \<open>The first \<open>n\<close> calls of \<^verbatim>\<open>next()\<close> on a generator, with nothing done in between.\<close>

fun take_steps :: "'s env \<Rightarrow> nat \<Rightarrow> gen \<Rightarrow> 's world \<Rightarrow> step list \<times> gen \<times> 's world" where
  "take_steps env 0 g w = ([], g, w)"
| "take_steps env (Suc n) g w =
     (case gen_next env g w of (s, g', w') \<Rightarrow>
        (case take_steps env n g' w' of (ss, g'', w'') \<Rightarrow> (s # ss, g'', w'')))"

fun gen_rank :: "gen \<Rightarrow> nat" where
  "gen_rank (Created cmd) = 1"
| "gen_rank (Suspended cmd out rc) = 0"
| "gen_rank Finished = 0"

fun gen_left :: "gen \<Rightarrow> nat" where
  "gen_left (Created cmd) = 0"
| "gen_left (Suspended cmd out rc) = Suc (length out)"
| "gen_left Finished = 0"

text \<open>\<^verbatim>\<open>for line in g: body\<close>. The body runs between two calls of \<^verbatim>\<open>next()\<close>; an
  exception of the generator leaves the loop with the world as it is then.\<close>

function for_each ::
  "'s env \<Rightarrow> (string \<Rightarrow> 's world \<Rightarrow> 's world) \<Rightarrow> gen \<Rightarrow> 's world \<Rightarrow> (py_error + unit) \<times> 's world" where
  "for_each env body g w =
     (case gen_next env g w of
        (Yielded line, g', w') \<Rightarrow> for_each env body g' (body line w')
      | (StopIteration, g', w') \<Rightarrow> (Inr (), w')
      | (Raised e, g', w') \<Rightarrow> (Inl e, w'))"
  by pat_completeness auto
termination
proof (relation "inv_image (less_than <*lex*> less_than) (\<lambda>(env, body, g, w). (gen_rank g, gen_left g))", goal_cases)
  case 1
  show ?case by (intro wf_inv_image wf_lex_prod wf_less_than)
next
  case (2 env body g w)
  have cat: "out = l @ rest" if "readline out = (l, rest)" for out l rest
    using that by (induction out arbitrary: l rest) (auto split: if_splits prod.splits)
  have rl: "length rest < length out" if "readline out = (l, rest)" "l \<noteq> []" for out l rest
    using cat [OF that(1)] that(2) by simp
  show ?case
    using 2 rl by (cases g) (auto simp: resume_def Let_def split: prod.splits if_splits)
qed

declare for_each.simps [simp del]

subsection \<open>\<^verbatim>\<open>execute\<close>\<close>

text \<open>\<^verbatim>\<open>logpatch.py\<close>, lines 106 to 123. The file is opened before the generator is
  started, in mode \<^verbatim>\<open>'a'\<close>; the \<^verbatim>\<open>with\<close> statement closes it however the loop ends.
  The default of \<^verbatim>\<open>log_file\<close> is the empty string.\<close>

definition execute :: "'s env \<Rightarrow> string \<Rightarrow> string \<Rightarrow> 's world \<Rightarrow> (py_error + unit) \<times> 's world" where
  "execute env cmd log_file w =
     (if log_file \<noteq> [] then
        (case py_open env log_file (CHR ''a'') w of
           (Inl e, w1) \<Rightarrow> (Inl e, w1)
         | (Inr u, w1) \<Rightarrow>
             (case for_each env (\<lambda>line w. f_write log_file line (print_end line w))
                     (subproc_Popen cmd) w1 of
                (r, w2) \<Rightarrow> (r, f_close log_file w2)))
      else for_each env (\<lambda>line w. print_end line w) (subproc_Popen cmd) w)"

text \<open>\<^verbatim>\<open>pkgptch.py\<close>, lines 37 to 46: the same, but the file is opened in mode \<^verbatim>\<open>'w'\<close>.\<close>

definition pkgptch_execute :: "'s env \<Rightarrow> string \<Rightarrow> string \<Rightarrow> 's world \<Rightarrow> (py_error + unit) \<times> 's world" where
  "pkgptch_execute env cmd log_file w =
     (if log_file \<noteq> [] then
        (case py_open env log_file (CHR ''w'') w of
           (Inl e, w1) \<Rightarrow> (Inl e, w1)
         | (Inr u, w1) \<Rightarrow>
             (case for_each env (\<lambda>path w. f_write log_file path (print_end path w))
                     (subproc_Popen cmd) w1 of
                (r, w2) \<Rightarrow> (r, f_close log_file w2)))
      else for_each env (\<lambda>path w. print_end path w) (subproc_Popen cmd) w)"

subsection \<open>Timestamps and paths\<close>

text \<open>A field of a \<^verbatim>\<open>datetime\<close> as a zero-padded decimal number of the given width.
  Python keeps every field in range (month 1 to 12, ..., microsecond below 1000000,
  year 1 to 9999), where this is the text \<^verbatim>\<open>strftime\<close> produces; for years below 1000
  the C library decides whether \<^verbatim>\<open>%Y\<close> pads.\<close>

definition zero_padded :: "nat \<Rightarrow> nat \<Rightarrow> string" where
  "zero_padded width n = map (\<lambda>i. ''0123456789'' ! (n div 10 ^ i mod 10)) (rev [0..<width])"

definition directive :: "char \<Rightarrow> datetime \<Rightarrow> string" where
  "directive d dt =
     (if d = CHR ''Y'' then zero_padded 4 (year dt)
      else if d = CHR ''m'' then zero_padded 2 (month dt)
      else if d = CHR ''d'' then zero_padded 2 (day dt)
      else if d = CHR ''H'' then zero_padded 2 (hour dt)
      else if d = CHR ''M'' then zero_padded 2 (minute dt)
      else if d = CHR ''S'' then zero_padded 2 (second dt)
      else if d = CHR ''f'' then zero_padded 6 (microsecond dt)
      else [CHR ''%'', d])"

fun strftime :: "string \<Rightarrow> datetime \<Rightarrow> string" where
  "strftime [] dt = []"
| "strftime [c] dt = [c]"
| "strftime (c # d # fmt) dt =
     (if c = CHR ''%'' then directive d dt @ strftime fmt dt
      else c # strftime (d # fmt) dt)"

text \<open>\<^verbatim>\<open>logpatch.py\<close>, lines 28 to 34: \<^verbatim>\<open>datetime.utcnow().strftime('%Y%m%dT%H%M%S.%fZ')\<close>.\<close>

definition datetime_now_utc :: "'s env \<Rightarrow> 's world \<Rightarrow> string \<times> 's world" where
  "datetime_now_utc env w =
     (strftime ''%Y%m%dT%H%M%S.%fZ'' (utc_clock env (clock_reads w)),
      emit Utcnow (w\<lparr>clock_reads := Suc (clock_reads w)\<rparr>))"

text \<open>\<^verbatim>\<open>pkgptch.py\<close>, lines 52, 56 and 62: \<^verbatim>\<open>datetime.now().strftime('%Y%m%dT%H%M%SZ')\<close>,
  a reading of the local clock.\<close>

definition pkgptch_datetime_now :: "'s env \<Rightarrow> 's world \<Rightarrow> string \<times> 's world" where
  "pkgptch_datetime_now env w =
     (strftime ''%Y%m%dT%H%M%SZ'' (local_clock env (clock_reads w)),
      emit Now (w\<lparr>clock_reads := Suc (clock_reads w)\<rparr>))"

text \<open>\<^verbatim>\<open>os.path.join(a, b)\<close> of \<^verbatim>\<open>posixpath\<close>, for two arguments.\<close>

definition path_join :: "string \<Rightarrow> string \<Rightarrow> string" where
  "path_join a b =
     (if take 1 b = ''/'' then b
      else if a = [] \<or> last a = CHR ''/'' then a @ b
      else a @ ''/'' @ b)"

subsection \<open>\<^verbatim>\<open>exec_recipe\<close>\<close>

text \<open>A recipe as the schema of \<^verbatim>\<open>validate_schema_conf\<close> types it.\<close>

record recipe =
  log_directory :: string
  log_package_version_cmd :: bool
  log_patch_cmd :: bool
  name :: string
  patch_cmd :: string
  package_version_cmd :: string

text \<open>Statements in sequence: an exception of the first skips the second.\<close>

definition and_then ::
  "(py_error + unit) \<times> 'w \<Rightarrow> ('w \<Rightarrow> (py_error + unit) \<times> 'w) \<Rightarrow> (py_error + unit) \<times> 'w" where
  "and_then r f = (case r of (Inl e, w) \<Rightarrow> (Inl e, w) | (Inr u, w) \<Rightarrow> f w)"

text \<open>\<^verbatim>\<open>logpatch.py\<close>, lines 125 to 147.\<close>

definition exec_recipe :: "'s env \<Rightarrow> recipe \<Rightarrow> 's world \<Rightarrow> (py_error + unit) \<times> 's world" where
  "exec_recipe env recipe w =
     and_then
       (and_then
          (let w0 = logger_log INFO (''Executing recipe: '' @ name recipe) w in
           if log_package_version_cmd recipe then
             (case datetime_now_utc env w0 of (ts, w1) \<Rightarrow>
                execute env (package_version_cmd recipe)
                  (path_join (log_directory recipe) (ts @ ''_package_versions_pre-patch.log'')) w1)
           else (Inr (), w0))
          (\<lambda>w. if log_patch_cmd recipe then
                 (case datetime_now_utc env w of (ts, w1) \<Rightarrow>
                    execute env (patch_cmd recipe)
                      (path_join (log_directory recipe) (ts @ ''_'' @ name recipe @ ''.log'')) w1)
               else execute env (patch_cmd recipe) [] w))
       (\<lambda>w. if log_package_version_cmd recipe then
              (case datetime_now_utc env w of (ts, w1) \<Rightarrow>
                 execute env (package_version_cmd recipe)
                   (path_join (log_directory recipe) (ts @ ''_package_versions_post-patch.log'')) w1)
            else (Inr (), w))"

text \<open>\<^verbatim>\<open>pkgptch.py\<close>, lines 48 to 64: the log files are named without
  \<^verbatim>\<open>log_directory\<close>.\<close>

definition pkgptch_exec_recipe :: "'s env \<Rightarrow> recipe \<Rightarrow> 's world \<Rightarrow> (py_error + unit) \<times> 's world" where
  "pkgptch_exec_recipe env recipe w =
     and_then
       (and_then
          (let w0 = logger_log INFO (''Executing recipe: '' @ name recipe) w in
           if log_package_version_cmd recipe then
             (case pkgptch_datetime_now env w0 of (datetime_now, w1) \<Rightarrow>
                pkgptch_execute env (package_version_cmd recipe)
                  (datetime_now @ ''_package_versions_pre-patch.log'') w1)
           else (Inr (), w0))
          (\<lambda>w. if log_patch_cmd recipe then
                 (case pkgptch_datetime_now env w of (datetime_now, w1) \<Rightarrow>
                    pkgptch_execute env (patch_cmd recipe)
                      (datetime_now @ ''_'' @ name recipe @ ''.log'') w1)
               else pkgptch_execute env (patch_cmd recipe) [] w))
       (\<lambda>w. if log_package_version_cmd recipe then
              (case pkgptch_datetime_now env w of (datetime_now, w1) \<Rightarrow>
                 pkgptch_execute env (package_version_cmd recipe)
                   (datetime_now @ ''_package_versions_post-patch.log'') w1)
            else (Inr (), w))"

subsection \<open>\<^verbatim>\<open>validate_schema_conf\<close>\<close>

text \<open>\<^verbatim>\<open>logpatch.py\<close>, lines 36 to 87: the errors are logged, the result is 0 or 1.\<close>

definition validate_schema_conf :: "'s env \<Rightarrow> json \<Rightarrow> 's world \<Rightarrow> int \<times> 's world" where
  "validate_schema_conf env conf w =
     (let errors = iter_errors schema [] conf in
      if length errors = 0 then (0, w)
      else (1, foldl (\<lambda>w error. logger_log ERROR
                  (''Syntax error in supplied configuration file (see below for details)''
                     @ [newline] @ str_validation_error env error) w) w errors))"

subsection \<open>The top level\<close>

text \<open>The decimal numeral of a natural number (\<^verbatim>\<open>%d\<close>).\<close>

fun show_nat :: "nat \<Rightarrow> string" where
  "show_nat n =
     (if n < 10 then [''0123456789'' ! n]
      else show_nat (n div 10) @ [''0123456789'' ! (n mod 10)])"

declare show_nat.simps [simp del]

text \<open>\<^verbatim>\<open>str(excpt)\<close> for a \<^verbatim>\<open>subprocess.CalledProcessError\<close> (the standard library's
  \<^verbatim>\<open>__str__\<close>).\<close>

definition str_CalledProcessError :: "'s env \<Rightarrow> int \<Rightarrow> string \<Rightarrow> string" where
  "str_CalledProcessError env returncode cmd =
     (if returncode < 0 then
        (case signal_repr env (nat (- returncode)) of
           Some r \<Rightarrow> ''Command '' @ [CHR 0x27] @ cmd @ [CHR 0x27] @ '' died with '' @ r @ ''.''
         | None \<Rightarrow> ''Command '' @ [CHR 0x27] @ cmd @ [CHR 0x27] @ '' died with unknown signal ''
                     @ show_nat (nat (- returncode)) @ ''.'')
      else ''Command '' @ [CHR 0x27] @ cmd @ [CHR 0x27] @ '' returned non-zero exit status ''
             @ show_nat (nat returncode) @ ''.'')"

text \<open>How the program ends: \<^verbatim>\<open>exit(n)\<close>, or an exception nobody caught (the
  interpreter prints the traceback and the exit status is 1).\<close>

datatype program_end = SysExit int | Traceback py_error

fun exit_status :: "program_end \<Rightarrow> int" where
  "exit_status (SysExit n) = n"
| "exit_status (Traceback e) = 1"

text \<open>\<^verbatim>\<open>logpatch.py\<close>, lines 196 to 201, on a document whose entries are recipes:
  \<open>conf k\<close> is \<^verbatim>\<open>conf[k]\<close>, \<open>None\<close> where Python raises \<^verbatim>\<open>KeyError\<close>. Only
  \<^verbatim>\<open>CalledProcessError\<close> is caught.\<close>

definition main_run ::
  "'s env \<Rightarrow> (string \<rightharpoonup> recipe) \<Rightarrow> string \<Rightarrow> 's world \<Rightarrow> program_end \<times> 's world" where
  "main_run env conf selected_recipe w =
     (case conf selected_recipe of
        None \<Rightarrow> (Traceback (KeyError selected_recipe), w)
      | Some recipe \<Rightarrow>
          (case exec_recipe env recipe w of
             (Inr u, w') \<Rightarrow> (SysExit 0, w')
           | (Inl e, w') \<Rightarrow>
               (case e of
                  CalledProcessError returncode cmd \<Rightarrow>
                    (SysExit 0,
                     logger_log ERROR (''Caught subprocess.CalledProcessError:'' @ [newline]
                        @ str_CalledProcessError env returncode cmd) w')
                | _ \<Rightarrow> (Traceback e, w'))))"

text \<open>\<^verbatim>\<open>pkgptch.py\<close>, lines 105 to 110. The script does not validate the document;
  the model covers the documents whose entries are recipes.\<close>

definition pkgptch_main_run ::
  "'s env \<Rightarrow> (string \<rightharpoonup> recipe) \<Rightarrow> string \<Rightarrow> 's world \<Rightarrow> program_end \<times> 's world" where
  "pkgptch_main_run env conf selected_recipe w =
     (case conf selected_recipe of
        None \<Rightarrow> (Traceback (KeyError selected_recipe), w)
      | Some recipe \<Rightarrow>
          (case pkgptch_exec_recipe env recipe w of
             (Inr u, w') \<Rightarrow> (SysExit 0, w')
           | (Inl e, w') \<Rightarrow>
               (case e of
                  CalledProcessError returncode cmd \<Rightarrow>
                    (SysExit 0,
                     logger_log ERROR (''Caught subprocess.CalledProcessError:'' @ [newline]
                        @ str_CalledProcessError env returncode cmd) w')
                | _ \<Rightarrow> (Traceback e, w'))))"

text \<open>A validated entry read as a recipe. On an entry of another shape the result is
  \<open>None\<close>; validation excludes it.\<close>

definition as_string :: "json option \<Rightarrow> string option" where
  "as_string v = (case v of Some (JString s) \<Rightarrow> Some s | _ \<Rightarrow> None)"

definition as_bool :: "json option \<Rightarrow> bool option" where
  "as_bool v = (case v of Some (JBool b) \<Rightarrow> Some b | _ \<Rightarrow> None)"

definition recipe_of :: "json \<Rightarrow> recipe option" where
  "recipe_of entry =
     (case as_string (getitem entry ''log_directory'') of None \<Rightarrow> None | Some d \<Rightarrow>
      case as_bool (getitem entry ''log_package_version_cmd'') of None \<Rightarrow> None | Some lv \<Rightarrow>
      case as_bool (getitem entry ''log_patch_cmd'') of None \<Rightarrow> None | Some lp \<Rightarrow>
      case as_string (getitem entry ''name'') of None \<Rightarrow> None | Some n \<Rightarrow>
      case as_string (getitem entry ''patch_cmd'') of None \<Rightarrow> None | Some pc \<Rightarrow>
      case as_string (getitem entry ''package_version_cmd'') of None \<Rightarrow> None | Some vc \<Rightarrow>
        Some \<lparr>log_directory = d, log_package_version_cmd = lv, log_patch_cmd = lp,
              name = n, patch_cmd = pc, package_version_cmd = vc\<rparr>)"

text \<open>What lines 171 to 187 of \<^verbatim>\<open>logpatch.py\<close> find: no such path, a path that is
  not a file, a file that is not YAML, or a document.\<close>

datatype loaded = PathMissing | PathNotAFile | YamlError string | Document json

text \<open>\<^verbatim>\<open>logpatch.py\<close>, lines 171 to 201.\<close>

definition main ::
  "'s env \<Rightarrow> string \<Rightarrow> string \<Rightarrow> loaded \<Rightarrow> 's world \<Rightarrow> program_end \<times> 's world" where
  "main env config_path selected_recipe found w =
     (case found of
        PathMissing \<Rightarrow>
          (SysExit 1, logger_log CRITICAL (''Supplied path does not exist: '' @ config_path) w)
      | PathNotAFile \<Rightarrow>
          (SysExit 1, logger_log CRITICAL (''Supplied path is not a file: '' @ config_path) w)
      | YamlError excpt \<Rightarrow>
          (SysExit 1, logger_log CRITICAL (''Caught yaml.YAMLError:'' @ [newline] @ excpt) w)
      | Document conf \<Rightarrow>
          (case validate_schema_conf env conf w of (invalid, w1) \<Rightarrow>
             if invalid \<noteq> 0 then
               (SysExit 1,
                logger_log CRITICAL (''The supplied configuration file ('' @ config_path
                   @ '') does not match the expected schema so this program must exit.'') w1)
             else
               main_run env
                 (\<lambda>k. case getitem conf k of None \<Rightarrow> None | Some entry \<Rightarrow> recipe_of entry)
                 selected_recipe w1))"

subsection \<open>Reading results and traces\<close>

text \<open>How a command's loop ends: the exception for a non-zero return code.\<close>

definition outcome :: "int \<Rightarrow> string \<Rightarrow> py_error + unit" where
  "outcome return_code cmd =
     (if return_code \<noteq> 0 then Inl (CalledProcessError return_code cmd) else Inr ())"

definition last_step :: "int \<Rightarrow> string \<Rightarrow> step" where
  "last_step return_code cmd =
     (if return_code \<noteq> 0 then Raised (CalledProcessError return_code cmd) else StopIteration)"

text \<open>The calls the generator makes once \<^verbatim>\<open>readline\<close> has returned the empty string.\<close>

definition finish :: "int \<Rightarrow> 's world \<Rightarrow> 's world" where
  "finish return_code w = emit (Wait return_code) (emit StdoutClose (emit (Readline []) w))"

text \<open>The commands handed to \<^verbatim>\<open>subprocess.Popen\<close>, the calls of \<^verbatim>\<open>open\<close> (path, mode,
  success) and all events on files, each in the order of the trace.\<close>

definition spawned :: "event list \<Rightarrow> string list" where
  "spawned tr = concat (map (\<lambda>e. case e of Popen cmd \<Rightarrow> [cmd] | _ \<Rightarrow> []) tr)"

definition opens :: "event list \<Rightarrow> (string \<times> char \<times> bool) list" where
  "opens tr = concat (map (\<lambda>e. case e of Open p m ok \<Rightarrow> [(p, m, ok)] | _ \<Rightarrow> []) tr)"

definition file_events :: "event list \<Rightarrow> event list" where
  "file_events tr =
     filter (\<lambda>e. case e of Open p m ok \<Rightarrow> True | Write p l \<Rightarrow> True | Close p \<Rightarrow> True | _ \<Rightarrow> False) tr"

text \<open>The events of one command run by \<^verbatim>\<open>execute\<close>, without a log file and with
  the log file \<open>p\<close> opened in mode \<open>mode\<close>: the process is created; every line is read
  and printed (and written to the file) before the next one is read; the end of the
  pipe is read, the pipe is closed and the return code collected; the file is closed.\<close>

definition console_run :: "string \<Rightarrow> string \<Rightarrow> int \<Rightarrow> event list" where
  "console_run cmd out return_code =
     Popen cmd # concat (map (\<lambda>l. [Readline l, Print l]) (iter_readline out))
       @ [Readline [], StdoutClose, Wait return_code]"

definition logged_run :: "string \<Rightarrow> char \<Rightarrow> string \<Rightarrow> string \<Rightarrow> int \<Rightarrow> event list" where
  "logged_run p mode cmd out return_code =
     Open p mode True # Popen cmd
       # concat (map (\<lambda>l. [Readline l, Print l, Write p l]) (iter_readline out))
       @ [Readline [], StdoutClose, Wait return_code, Close p]"

text \<open>The two error reports of the scripts: the one of the top level for a
  \<^verbatim>\<open>CalledProcessError\<close> (line 199 of \<^verbatim>\<open>logpatch.py\<close>, line 108 of
  \<^verbatim>\<open>pkgptch.py\<close>), and the one of \<^verbatim>\<open>validate_schema_conf\<close> for a validation error
  (lines 85 and 86 of \<^verbatim>\<open>logpatch.py\<close>).\<close>

definition caught :: "'s env \<Rightarrow> int \<Rightarrow> string \<Rightarrow> event" where
  "caught env returncode cmd =
     Log ERROR (''Caught subprocess.CalledProcessError:'' @ [newline]
        @ str_CalledProcessError env returncode cmd)"

definition syntax_error :: "'s env \<Rightarrow> validation_error \<Rightarrow> event" where
  "syntax_error env error =
     Log ERROR (''Syntax error in supplied configuration file (see below for details)''
        @ [newline] @ str_validation_error env error)"

text \<open>The log file that \<^verbatim>\<open>logpatch.py\<close> names after the \<open>k\<close>-th reading of the UTC
  clock: the timestamp and the suffix \<open>sfx\<close>, joined to the directory. \<^verbatim>\<open>pkgptch.py\<close> names
  its log file after the local clock and without a directory.\<close>

definition log_path :: "'s env \<Rightarrow> string \<Rightarrow> nat \<Rightarrow> string \<Rightarrow> string" where
  "log_path env dir k sfx =
     path_join dir (strftime ''%Y%m%dT%H%M%S.%fZ'' (utc_clock env k) @ sfx)"

definition pkgptch_log_path :: "'s env \<Rightarrow> nat \<Rightarrow> string \<Rightarrow> string" where
  "pkgptch_log_path env k sfx = strftime ''%Y%m%dT%H%M%SZ'' (local_clock env k) @ sfx"

text \<open>The events that mark the steps of a recipe: clock readings, calls of
  \<^verbatim>\<open>open\<close> and process creations.\<close>

definition step_events :: "event list \<Rightarrow> event list" where
  "step_events tr =
     filter (\<lambda>e. case e of Utcnow \<Rightarrow> True | Now \<Rightarrow> True | Open p m ok \<Rightarrow> True
                  | Popen cmd \<Rightarrow> True | _ \<Rightarrow> False) tr"

text \<open>The fields of a \<^verbatim>\<open>datetime\<close> are in range; years of fewer than four digits
  are left out (see \<open>zero_padded\<close>).\<close>

definition valid_datetime :: "datetime \<Rightarrow> bool" where
  "valid_datetime dt \<longleftrightarrow>
     1000 \<le> year dt \<and> year dt \<le> 9999 \<and> 1 \<le> month dt \<and> month dt \<le> 12
     \<and> 1 \<le> day dt \<and> day dt \<le> 31 \<and> hour dt < 24 \<and> minute dt < 60 \<and> second dt < 60
     \<and> microsecond dt < 1000000"

text \<open>The number a string of decimal digits denotes, and the test for a digit.\<close>

definition read_nat :: "string \<Rightarrow> nat" where
  "read_nat s = foldl (\<lambda>a c. 10 * a + (of_char c - 48)) 0 s"

definition is_digit :: "char \<Rightarrow> bool" where
  "is_digit c \<longleftrightarrow> c \<in> set ''0123456789''"

subsection \<open>The data model of the specification\<close>

text \<open>In the words of the specification: an entry of a configuration document is "an
  object containing all six required properties with the exact types", strings for
  \<^verbatim>\<open>log_directory\<close>, \<^verbatim>\<open>name\<close>, \<^verbatim>\<open>patch_cmd\<close> and \<^verbatim>\<open>package_version_cmd\<close>,
  booleans for \<^verbatim>\<open>log_package_version_cmd\<close> and \<^verbatim>\<open>log_patch_cmd\<close>; a configuration
  document is a mapping all of whose entries are such objects.\<close>

definition has_string :: "(string \<times> json) list \<Rightarrow> string \<Rightarrow> bool" where
  "has_string kvs f = (case map_of kvs f of Some (JString s) \<Rightarrow> True | _ \<Rightarrow> False)"

definition has_bool :: "(string \<times> json) list \<Rightarrow> string \<Rightarrow> bool" where
  "has_bool kvs f = (case map_of kvs f of Some (JBool b) \<Rightarrow> True | _ \<Rightarrow> False)"

definition spec_entry_ok :: "json \<Rightarrow> bool" where
  "spec_entry_ok v =
     (case v of
        JDict kvs \<Rightarrow>
          has_string kvs ''log_directory'' \<and> has_string kvs ''name''
          \<and> has_string kvs ''patch_cmd'' \<and> has_string kvs ''package_version_cmd''
          \<and> has_bool kvs ''log_package_version_cmd'' \<and> has_bool kvs ''log_patch_cmd''
      | _ \<Rightarrow> False)"

definition spec_document_ok :: "json \<Rightarrow> bool" where
  "spec_document_ok conf =
     (case conf of
        JDict kvs \<Rightarrow> list_all (\<lambda>kv. spec_entry_ok (snd kv)) (dict_items kvs)
      | _ \<Rightarrow> False)"

text \<open>The schema of an entry: the value of \<^verbatim>\<open>additionalProperties\<close> in \<open>schema\<close>.\<close>

definition entry_schema :: "schema_kw list" where
  "entry_schema =
     [Type ''object'',
      Properties
        [(''log_directory'', [Type ''string'']),
         (''log_package_version_cmd'', [Type ''boolean'']),
         (''log_patch_cmd'', [Type ''boolean'']),
         (''name'', [Type ''string'']),
         (''patch_cmd'', [Type ''string'']),
         (''package_version_cmd'', [Type ''string''])],
      Required
        [''log_directory'', ''log_package_version_cmd'', ''log_patch_cmd'', ''name'',
         ''patch_cmd'', ''package_version_cmd'']]"

text \<open>The errors the schema of an entry reports for one property of an object: a
  value of another type, and an absent property.\<close>

definition field_errors ::
  "(string \<times> json) list \<Rightarrow> string list \<Rightarrow> string \<Rightarrow> string \<Rightarrow> validation_error list" where
  "field_errors kvs p f t =
     (case map_of kvs f of
        Some v \<Rightarrow> if is_type v t then [] else [ValidationError (p @ [f]) ''type'' t]
      | None \<Rightarrow> [])"

definition missing_errors ::
  "(string \<times> json) list \<Rightarrow> string list \<Rightarrow> string \<Rightarrow> validation_error list" where
  "missing_errors kvs p f =
     (if map_of kvs f \<noteq> None then [] else [ValidationError p ''required'' f])"

subsection \<open>A small host for concrete runs\<close>

text \<open>The example recipe of the specification, on a host where \<^verbatim>\<open>/tmp/logs\<close> and
  the working directory are writable, the UTC clock shows 2022-12-31 23:59:58 and the
  local clock is thirteen hours ahead.\<close>

definition demo_shell :: "string \<Rightarrow> nat \<Rightarrow> string \<times> int \<times> nat" where
  "demo_shell cmd s =
     (if cmd = ''echo patched'' then (concat [''patched'' @ [newline]], 0, Suc s)
      else if cmd = ''echo v1'' then (concat [''v1'' @ [newline]], 0, s)
      else if cmd = ''ls /nonexistent'' then
        (concat [''ls: cannot access'' @ [newline], ''No such file'' @ [newline]], 2, s)
      else ([], 127, s))"

definition demo_env :: "nat env" where
  "demo_env =
     \<lparr>shell = demo_shell,
      openable = (\<lambda>p. if CHR ''/'' \<in> set p
                      then take 10 p = ''/tmp/logs/'' \<and> CHR ''/'' \<notin> set (drop 10 p)
                      else p \<noteq> []),
      utc_clock = (\<lambda>k. \<lparr>year = 2022, month = 12, day = 31, hour = 23, minute = 59,
                         second = 58, microsecond = 100 + k\<rparr>),
      local_clock = (\<lambda>k. \<lparr>year = 2023, month = 1, day = 1, hour = 12, minute = 59,
                           second = 58, microsecond = 100 + k\<rparr>),
      signal_repr = (\<lambda>n. None),
      str_validation_error = (\<lambda>e. detail e)\<rparr>"

definition demo_world :: "nat world" where
  "demo_world = \<lparr>console = [], files = Map.empty, trace = [], clock_reads = 0, sys = 0\<rparr>"

definition demo_conf :: json where
  "demo_conf =
     JDict [(''demo'',
       JDict [(''name'', JString ''demo''),
              (''log_directory'', JString ''/tmp/logs''),
              (''log_package_version_cmd'', JBool True),
              (''log_patch_cmd'', JBool True),
              (''patch_cmd'', JString ''echo patched''),
              (''package_version_cmd'', JString ''echo v1'')])]"

text \<open>A document whose only recipe logs nothing and has a patch command that fails.\<close>

definition demo_failing_conf :: json where
  "demo_failing_conf =
     JDict [(''broken'',
       JDict [(''name'', JString ''broken''),
              (''log_directory'', JString ''/tmp/logs''),
              (''log_package_version_cmd'', JBool False),
              (''log_patch_cmd'', JBool False),
              (''patch_cmd'', JString ''ls /nonexistent''),
              (''package_version_cmd'', JString ''echo v1'')])]"

definition demo_recipe :: recipe where
  "demo_recipe =
     \<lparr>log_directory = ''/tmp/logs'', log_package_version_cmd = True, log_patch_cmd = True,
      name = ''demo'', patch_cmd = ''echo patched'', package_version_cmd = ''echo v1''\<rparr>"

text \<open>A host on which the package database is locked once a patch has run: the
  inventory command \<^verbatim>\<open>apt list\<close> succeeds before the patch and exits with 100 after
  it; and a command that is killed by signal 9.\<close>

definition flaky_shell :: "string \<Rightarrow> nat \<Rightarrow> string \<times> int \<times> nat" where
  "flaky_shell cmd s =
     (if cmd = ''apt list'' then
        (if s = 0 then (concat [''pkg 1.0'' @ [newline]], 0, s)
         else (concat [''E: database locked'' @ [newline]], 100, s))
      else if cmd = ''sleep 60'' then ([], - 9, s)
      else demo_shell cmd s)"

definition flaky_env :: "nat env" where
  "flaky_env =
     demo_env\<lparr>shell := flaky_shell,
       signal_repr := (\<lambda>n. if n = 9 then Some ''<Signals.SIGKILL: 9>'' else None)\<rparr>"

section \<open>Properties\<close>

subsection \<open>Lines of a text stream\<close>

declare iter_readline.simps [simp del]

lemma readline_cat: "readline t = (l, r) \<Longrightarrow> t = l @ r"
  by (induction t arbitrary: l r) (auto split: if_splits prod.splits)

lemma readline_Nil_iff: "fst (readline t) = [] \<longleftrightarrow> t = []"
  by (cases t) (auto split: prod.splits)

lemma iter_readline_step:
  "readline out = (l, r) \<Longrightarrow> l \<noteq> [] \<Longrightarrow> iter_readline out = l # iter_readline r"
  by (subst iter_readline.simps) simp

lemma iter_readline_stop:
  "readline out = ([], r) \<Longrightarrow> iter_readline out = []"
  by (subst iter_readline.simps) simp

lemma concat_iter_readline: "concat (iter_readline out) = out"
proof (induction out rule: iter_readline.induct)
  case (1 out)
  obtain l r where lr: "readline out = (l, r)" by (cases "readline out")
  show ?case
  proof (cases "l = []")
    case True
    with lr readline_cat [OF lr] readline_Nil_iff [of out] show ?thesis
      by (simp add: iter_readline_stop)
  next
    case False
    with 1 lr have "concat (iter_readline r) = r" by simp
    moreover have "iter_readline out = l # iter_readline r"
      using lr False by (rule iter_readline_step)
    moreover have "out = l @ r"
      using lr by (rule readline_cat)
    ultimately show ?thesis by simp
  qed
qed

lemma readline_whole_line:
  "l \<noteq> [] \<Longrightarrow> newline \<notin> set (butlast l) \<Longrightarrow> last l = newline \<Longrightarrow> readline (l @ rest) = (l, rest)"
  by (induction l) (auto split: if_splits)

lemma readline_last_line: "newline \<notin> set (butlast l) \<Longrightarrow> readline l = (l, [])"
  by (induction l) (auto split: if_splits)

lemma iter_readline_Nil: "iter_readline [] = []"
  by (simp add: iter_readline.simps [of "[]"])

lemma iter_readline_emitted: "emitted_lines ls \<Longrightarrow> iter_readline (concat ls) = ls"
proof (induction ls rule: emitted_lines.induct)
  case 1
  show ?case by (simp add: iter_readline_Nil)
next
  case (2 l)
  then show ?case
    by (simp add: iter_readline.simps [of l] readline_last_line iter_readline_Nil)
next
  case (3 l v va)
  then show ?case
    by (simp add: iter_readline.simps [of "l @ _"] readline_whole_line)
qed

subsection \<open>The generator and the loop over it\<close>

lemma take_steps_suspended:
  "fst (take_steps env (Suc (length (iter_readline out))) (Suspended cmd out rc) w)
     = map Yielded (iter_readline out) @ [last_step rc cmd]"
proof (induction out arbitrary: w rule: iter_readline.induct)
  case (1 out)
  obtain l r where lr: "readline out = (l, r)" by (cases "readline out")
  show ?case
  proof (cases "l = []")
    case True
    with lr show ?thesis
      by (simp add: iter_readline_stop resume_def last_step_def Let_def)
  next
    case False
    let ?w1 = "emit (Readline l) w"
    have n: "gen_next env (Suspended cmd out rc) w = (Yielded l, Suspended cmd r rc, ?w1)"
      using lr False by (simp add: resume_def)
    have ih: "fst (take_steps env (Suc (length (iter_readline r))) (Suspended cmd r rc) ?w1)
        = map Yielded (iter_readline r) @ [last_step rc cmd]"
      using 1 [OF lr [symmetric] False] .
    have "take_steps env (Suc (Suc (length (iter_readline r)))) (Suspended cmd out rc) w
        = (case take_steps env (Suc (length (iter_readline r))) (Suspended cmd r rc) ?w1 of
             (ss, g'', w'') \<Rightarrow> (Yielded l # ss, g'', w''))"
      by (subst take_steps.simps) (simp only: n prod.case)
    then show ?thesis
      using ih by (simp add: iter_readline_step [OF lr False] split: prod.splits)
  qed
qed

lemma take_steps_created:
  "shell env cmd (sys w) = (out, rc, s') \<Longrightarrow>
   take_steps env (Suc n) (Created cmd) w
     = take_steps env (Suc n) (Suspended cmd out rc) (emit (Popen cmd) (w\<lparr>sys := s'\<rparr>))"
  by simp

lemma for_each_created:
  "shell env cmd (sys w) = (out, rc, s') \<Longrightarrow>
   for_each env body (Created cmd) w
     = for_each env body (Suspended cmd out rc) (emit (Popen cmd) (w\<lparr>sys := s'\<rparr>))"
  by (simp add: for_each.simps [of _ _ "Created cmd"] for_each.simps [of _ _ "Suspended cmd out rc"])

lemma for_each_suspended:
  "for_each env body (Suspended cmd out rc) w
     = (outcome rc cmd,
        finish rc (foldl (\<lambda>w l. body l (emit (Readline l) w)) w (iter_readline out)))"
proof (induction out arbitrary: w rule: iter_readline.induct)
  case (1 out)
  obtain l r where lr: "readline out = (l, r)" by (cases "readline out")
  show ?case
  proof (cases "l = []")
    case True
    with lr show ?thesis
      by (simp add: for_each.simps [of _ _ "Suspended cmd out rc"] iter_readline_stop
          resume_def outcome_def finish_def Let_def)
  next
    case False
    have "for_each env body (Suspended cmd out rc) w
        = for_each env body (Suspended cmd r rc) (body l (emit (Readline l) w))"
      using lr False by (simp add: for_each.simps [of _ _ "Suspended cmd out rc"] resume_def)
    also have "\<dots> = (outcome rc cmd,
        finish rc (foldl (\<lambda>w l. body l (emit (Readline l) w)) (body l (emit (Readline l) w)) (iter_readline r)))"
      using 1 [OF lr [symmetric] False] .
    finally show ?thesis
      by (simp add: iter_readline_step [OF lr False])
  qed
qed

lemma foldl_print:
  "foldl (\<lambda>w l. print_end l (emit (Readline l) w)) w ls
     = w\<lparr>console := console w @ concat ls,
         trace := trace w @ concat (map (\<lambda>l. [Readline l, Print l]) ls)\<rparr>"
  by (induction ls arbitrary: w) (simp_all add: print_end_def emit_def)

lemma foldl_print_write:
  "files w p = Some content \<Longrightarrow>
   foldl (\<lambda>w l. f_write p l (print_end l (emit (Readline l) w))) w ls
     = w\<lparr>console := console w @ concat ls,
         files := (files w)(p \<mapsto> content @ concat ls),
         trace := trace w @ concat (map (\<lambda>l. [Readline l, Print l, Write p l]) ls)\<rparr>"
proof (induction ls arbitrary: w content)
  case Nil
  then show ?case by (simp add: map_upd_triv)
next
  case (Cons l ls)
  let ?F = "\<lambda>w l. f_write p l (print_end l (emit (Readline l) w))"
  let ?w1 = "w\<lparr>console := console w @ l, files := (files w)(p \<mapsto> content @ l),
      trace := trace w @ [Readline l, Print l, Write p l]\<rparr>"
  have w1: "?F w l = ?w1"
    using Cons.prems by (simp add: f_write_def print_end_def emit_def)
  have "files ?w1 p = Some (content @ l)"
    by simp
  from Cons.IH [OF this] have "foldl ?F ?w1 ls = ?w1\<lparr>console := console ?w1 @ concat ls,
         files := (files ?w1)(p \<mapsto> (content @ l) @ concat ls),
         trace := trace ?w1 @ concat (map (\<lambda>l. [Readline l, Print l, Write p l]) ls)\<rparr>" .
  also have "\<dots> = w\<lparr>console := console w @ concat (l # ls),
         files := (files w)(p \<mapsto> content @ concat (l # ls)),
         trace := trace w @ concat (map (\<lambda>l. [Readline l, Print l, Write p l]) (l # ls))\<rparr>"
    by simp
  finally show ?case
    by (simp only: foldl_Cons w1)
qed


lemma for_each_print:
  assumes "shell env cmd (sys w) = (out, rc, s')"
  shows "for_each env (\<lambda>line w. print_end line w) (subproc_Popen cmd) w
     = (outcome rc cmd,
        w\<lparr>console := console w @ out,
          trace := trace w @ Popen cmd # concat (map (\<lambda>l. [Readline l, Print l]) (iter_readline out))
                     @ [Readline [], StdoutClose, Wait rc],
          sys := s'\<rparr>)"
  unfolding subproc_Popen_def for_each_created [OF assms] for_each_suspended foldl_print
  by (simp add: finish_def emit_def concat_iter_readline)

lemma for_each_print_write:
  assumes "shell env cmd (sys w) = (out, rc, s')" and "files w p = Some content"
  shows "for_each env (\<lambda>line w. f_write p line (print_end line w)) (subproc_Popen cmd) w
     = (outcome rc cmd,
        w\<lparr>console := console w @ out,
          files := (files w)(p \<mapsto> content @ out),
          trace := trace w @ Popen cmd # concat (map (\<lambda>l. [Readline l, Print l, Write p l]) (iter_readline out))
                     @ [Readline [], StdoutClose, Wait rc],
          sys := s'\<rparr>)"
proof -
  let ?w1 = "emit (Popen cmd) (w\<lparr>sys := s'\<rparr>)"
  have f: "files ?w1 p = Some content"
    using assms(2) by (simp add: emit_def)
  show ?thesis
    unfolding subproc_Popen_def for_each_created [OF assms(1)] for_each_suspended
      foldl_print_write [OF f]
    by (simp add: finish_def emit_def concat_iter_readline)
qed


text \<open>
  C2. A process emits the lines \<open>ls\<close> and exits with code \<open>rc\<close>. Then the first
  \<open>N + 1\<close> calls of \<^verbatim>\<open>next()\<close> on the generator of \<^verbatim>\<open>subproc_Popen\<close> return
  exactly these \<open>N\<close> lines in their order and then, for \<open>rc = 0\<close>,
  \<^verbatim>\<open>StopIteration\<close> (the sequence ends normally), and for \<open>rc \<noteq> 0\<close> the exception
  \<^verbatim>\<open>CalledProcessError\<close> with that code and the command string. A \<^verbatim>\<open>for\<close> loop over
  the generator has run its body on every one of the lines, in order, when it ends or
  when the exception surfaces.
\<close>

theorem subproc_Popen_yields_all_lines_then_ends:
  assumes "emitted_lines ls" and "shell env cmd (sys w) = (concat ls, rc, s')"
  shows "fst (take_steps env (Suc (length ls)) (subproc_Popen cmd) w)
           = map Yielded ls
             @ [if rc = 0 then StopIteration else Raised (CalledProcessError rc cmd)]
         \<and> for_each env body (subproc_Popen cmd) w
           = (if rc = 0 then Inr () else Inl (CalledProcessError rc cmd),
              finish rc (foldl (\<lambda>w l. body l (emit (Readline l) w))
                           (emit (Popen cmd) (w\<lparr>sys := s'\<rparr>)) ls))"
proof -
  have ls: "iter_readline (concat ls) = ls"
    using assms(1) by (rule iter_readline_emitted)
  have "fst (take_steps env (Suc (length ls)) (subproc_Popen cmd) w)
      = fst (take_steps env (Suc (length (iter_readline (concat ls))))
               (Suspended cmd (concat ls) rc) (emit (Popen cmd) (w\<lparr>sys := s'\<rparr>)))"
    unfolding subproc_Popen_def ls by (simp only: take_steps_created [OF assms(2)])
  also have "\<dots> = map Yielded ls @ [last_step rc cmd]"
    using take_steps_suspended [of env "concat ls" cmd rc] by (simp only: ls)
  finally have steps: "fst (take_steps env (Suc (length ls)) (subproc_Popen cmd) w)
      = map Yielded ls @ [last_step rc cmd]" .
  have "for_each env body (subproc_Popen cmd) w
      = (outcome rc cmd,
         finish rc (foldl (\<lambda>w l. body l (emit (Readline l) w))
                      (emit (Popen cmd) (w\<lparr>sys := s'\<rparr>)) ls))"
    using for_each_suspended [of env body cmd "concat ls" rc]
    by (simp only: subproc_Popen_def for_each_created [OF assms(2)] ls)
  with steps show ?thesis
    by (simp add: last_step_def outcome_def)
qed

theorem subproc_Popen_yields_all_lines_then_ends_witness:
  "emitted_lines [''ls: cannot access'' @ [newline], ''No such file'' @ [newline]]
   \<and> fst (take_steps demo_env 3 (subproc_Popen ''ls /nonexistent'') demo_world)
       = [Yielded (''ls: cannot access'' @ [newline]), Yielded (''No such file'' @ [newline]),
          Raised (CalledProcessError 2 ''ls /nonexistent'')]"
proof -
  have e: "emitted_lines [''ls: cannot access'' @ [newline], ''No such file'' @ [newline]]"
    by simp
  have s: "shell demo_env ''ls /nonexistent'' (sys demo_world)
      = (concat [''ls: cannot access'' @ [newline], ''No such file'' @ [newline]], 2, 0)"
    by (simp add: demo_env_def demo_shell_def demo_world_def)
  from subproc_Popen_yields_all_lines_then_ends [OF e s] e show ?thesis
    by (simp add: numeral_3_eq_3)
qed

subsection \<open>\<^verbatim>\<open>execute\<close>: what one command leaves behind\<close>

lemma spawned_append: "spawned (xs @ ys) = spawned xs @ spawned ys"
  by (simp add: spawned_def)

lemma opens_append: "opens (xs @ ys) = opens xs @ opens ys"
  by (simp add: opens_def)

lemma file_events_append: "file_events (xs @ ys) = file_events xs @ file_events ys"
  by (simp add: file_events_def)

lemma spawned_lines: "spawned (concat (map (\<lambda>l. [Readline l, Print l]) ls)) = []"
  "spawned (concat (map (\<lambda>l. [Readline l, Print l, Write p l]) ls)) = []"
  by (induction ls) (simp_all add: spawned_def)

lemma opens_lines: "opens (concat (map (\<lambda>l. [Readline l, Print l]) ls)) = []"
  "opens (concat (map (\<lambda>l. [Readline l, Print l, Write p l]) ls)) = []"
  by (induction ls) (simp_all add: opens_def)

lemma file_events_lines: "file_events (concat (map (\<lambda>l. [Readline l, Print l]) ls)) = []"
  by (induction ls) (simp_all add: file_events_def)

lemma spawned_Cons: "spawned (e # es) = (case e of Popen cmd \<Rightarrow> [cmd] | _ \<Rightarrow> []) @ spawned es"
  by (simp add: spawned_def)

lemma opens_Cons: "opens (e # es) = (case e of Open p m ok \<Rightarrow> [(p, m, ok)] | _ \<Rightarrow> []) @ opens es"
  by (simp add: opens_def)

lemma spawned_Nil: "spawned [] = []"
  by (simp add: spawned_def)

lemma opens_Nil: "opens [] = []"
  by (simp add: opens_def)

lemma logged_loop:
  assumes "shell env cmd (sys w) = (out, rc, s')" and "openable env p"
  shows "(case py_open env p mode w of
            (Inl e, w1) \<Rightarrow> (Inl e, w1)
          | (Inr u, w1) \<Rightarrow>
              (case for_each env (\<lambda>line w. f_write p line (print_end line w)) (subproc_Popen cmd) w1 of
                 (r, w2) \<Rightarrow> (r, f_close p w2)))
     = (outcome rc cmd,
        w\<lparr>console := console w @ out,
          files := (files w)(p \<mapsto>
             (if mode = CHR ''a'' then (case files w p of None \<Rightarrow> [] | Some old \<Rightarrow> old) else []) @ out),
          trace := trace w @ Open p mode True # Popen cmd
                     # concat (map (\<lambda>l. [Readline l, Print l, Write p l]) (iter_readline out))
                     @ [Readline [], StdoutClose, Wait rc, Close p],
          sys := s'\<rparr>)"
proof -
  let ?old = "if mode = CHR ''a'' then (case files w p of None \<Rightarrow> [] | Some old \<Rightarrow> old) else []"
  let ?w1 = "emit (Open p mode True) (w\<lparr>files := (files w)(p \<mapsto> ?old)\<rparr>)"
  have o: "py_open env p mode w = (Inr (), ?w1)"
    using assms(2) by (simp add: py_open_def)
  have s: "shell env cmd (sys ?w1) = (out, rc, s')"
    using assms(1) by (simp add: emit_def)
  have f: "files ?w1 p = Some ?old"
    by (simp add: emit_def)
  have "(case py_open env p mode w of
            (Inl e, w1) \<Rightarrow> (Inl e, w1)
          | (Inr u, w1) \<Rightarrow>
              (case for_each env (\<lambda>line w. f_write p line (print_end line w)) (subproc_Popen cmd) w1 of
                 (r, w2) \<Rightarrow> (r, f_close p w2)))
      = (case for_each env (\<lambda>line w. f_write p line (print_end line w)) (subproc_Popen cmd) ?w1 of
           (r, w2) \<Rightarrow> (r, f_close p w2))"
    by (simp add: o)
  also have "\<dots> = (outcome rc cmd, f_close p
        (?w1\<lparr>console := console ?w1 @ out,
          files := (files ?w1)(p \<mapsto> ?old @ out),
          trace := trace ?w1 @ Popen cmd # concat (map (\<lambda>l. [Readline l, Print l, Write p l]) (iter_readline out))
                     @ [Readline [], StdoutClose, Wait rc],
          sys := s'\<rparr>))"
    by (simp only: for_each_print_write [OF s f] prod.case)
  finally show ?thesis
    by (simp add: f_close_def emit_def)
qed

lemma execute_console:
  assumes "shell env cmd (sys w) = (out, rc, s')"
  shows "execute env cmd [] w
     = (outcome rc cmd,
        w\<lparr>console := console w @ out,
          trace := trace w @ Popen cmd # concat (map (\<lambda>l. [Readline l, Print l]) (iter_readline out))
                     @ [Readline [], StdoutClose, Wait rc],
          sys := s'\<rparr>)"
  by (simp add: execute_def for_each_print [OF assms])

lemma execute_file:
  assumes "shell env cmd (sys w) = (out, rc, s')" and "log_file \<noteq> []" and "openable env log_file"
  shows "execute env cmd log_file w
     = (outcome rc cmd,
        w\<lparr>console := console w @ out,
          files := (files w)(log_file \<mapsto> (case files w log_file of None \<Rightarrow> [] | Some old \<Rightarrow> old) @ out),
          trace := trace w @ Open log_file (CHR ''a'') True # Popen cmd
                     # concat (map (\<lambda>l. [Readline l, Print l, Write log_file l]) (iter_readline out))
                     @ [Readline [], StdoutClose, Wait rc, Close log_file],
          sys := s'\<rparr>)"
  using assms(2) logged_loop [OF assms(1, 3), of "CHR ''a''"] by (simp add: execute_def)

lemma execute_unopenable:
  assumes "log_file \<noteq> []" and "\<not> openable env log_file"
  shows "execute env cmd log_file w
     = (Inl (OSError log_file), w\<lparr>trace := trace w @ [Open log_file (CHR ''a'') False]\<rparr>)"
  using assms by (simp add: execute_def py_open_def emit_def)

lemma pkgptch_execute_console:
  assumes "shell env cmd (sys w) = (out, rc, s')"
  shows "pkgptch_execute env cmd [] w
     = (outcome rc cmd,
        w\<lparr>console := console w @ out,
          trace := trace w @ Popen cmd # concat (map (\<lambda>l. [Readline l, Print l]) (iter_readline out))
                     @ [Readline [], StdoutClose, Wait rc],
          sys := s'\<rparr>)"
  by (simp add: pkgptch_execute_def for_each_print [OF assms])

lemma pkgptch_execute_file:
  assumes "shell env cmd (sys w) = (out, rc, s')" and "log_file \<noteq> []" and "openable env log_file"
  shows "pkgptch_execute env cmd log_file w
     = (outcome rc cmd,
        w\<lparr>console := console w @ out,
          files := (files w)(log_file \<mapsto> out),
          trace := trace w @ Open log_file (CHR ''w'') True # Popen cmd
                     # concat (map (\<lambda>l. [Readline l, Print l, Write log_file l]) (iter_readline out))
                     @ [Readline [], StdoutClose, Wait rc, Close log_file],
          sys := s'\<rparr>)"
  using assms(2) logged_loop [OF assms(1, 3), of "CHR ''w''"] by (simp add: pkgptch_execute_def)

lemma pkgptch_execute_unopenable:
  assumes "log_file \<noteq> []" and "\<not> openable env log_file"
  shows "pkgptch_execute env cmd log_file w
     = (Inl (OSError log_file), w\<lparr>trace := trace w @ [Open log_file (CHR ''w'') False]\<rparr>)"
  using assms by (simp add: pkgptch_execute_def py_open_def emit_def)


lemma file_events_console_run:
  "file_events (Popen cmd # concat (map (\<lambda>l. [Readline l, Print l]) ls) @ [Readline [], StdoutClose, Wait rc]) = []"
  unfolding file_events_def by (induction ls) simp_all

lemma opens_console_run:
  "opens (Popen cmd # concat (map (\<lambda>l. [Readline l, Print l]) ls) @ [Readline [], StdoutClose, Wait rc]) = []"
  by (simp add: opens_lines opens_append opens_Cons opens_Nil)

lemma opens_file_run:
  "opens (Open p m ok # Popen cmd # concat (map (\<lambda>l. [Readline l, Print l, Write p l]) ls)
           @ [Readline [], StdoutClose, Wait rc, Close p]) = [(p, m, ok)]"
  by (simp add: opens_lines opens_append opens_Cons opens_Nil)

text \<open>
  C4. \<^verbatim>\<open>execute\<close> with a log file that can be opened: every line read from the
  command is printed and then written to the file before the next line is read (the
  trace), the text added to the console and the text added to the file are both the
  command's output, which is the concatenation of its lines. The same holds for
  \<^verbatim>\<open>pkgptch.py\<close>, whose file then holds the output alone. Without a log file the
  output goes to the console, the files stay as they are and the trace holds no new
  event on a file.
\<close>

theorem execute_file_equals_console:
  assumes "shell env cmd (sys w) = (out, rc, s')"
  shows "(log_file \<noteq> [] \<and> openable env log_file \<longrightarrow>
            console (snd (execute env cmd log_file w)) = console w @ out
          \<and> files (snd (execute env cmd log_file w)) log_file
              = Some ((case files w log_file of None \<Rightarrow> [] | Some old \<Rightarrow> old) @ out)
          \<and> trace (snd (execute env cmd log_file w))
              = trace w @ Open log_file (CHR ''a'') True # Popen cmd
                  # concat (map (\<lambda>l. [Readline l, Print l, Write log_file l]) (iter_readline out))
                  @ [Readline [], StdoutClose, Wait rc, Close log_file]
          \<and> console (snd (pkgptch_execute env cmd log_file w)) = console w @ out
          \<and> files (snd (pkgptch_execute env cmd log_file w)) log_file = Some out
          \<and> trace (snd (pkgptch_execute env cmd log_file w))
              = trace w @ Open log_file (CHR ''w'') True # Popen cmd
                  # concat (map (\<lambda>l. [Readline l, Print l, Write log_file l]) (iter_readline out))
                  @ [Readline [], StdoutClose, Wait rc, Close log_file])
       \<and> concat (iter_readline out) = out
       \<and> console (snd (execute env cmd [] w)) = console w @ out
       \<and> files (snd (execute env cmd [] w)) = files w
       \<and> file_events (trace (snd (execute env cmd [] w))) = file_events (trace w)
       \<and> console (snd (pkgptch_execute env cmd [] w)) = console w @ out
       \<and> files (snd (pkgptch_execute env cmd [] w)) = files w
       \<and> file_events (trace (snd (pkgptch_execute env cmd [] w))) = file_events (trace w)"
  by (simp add: execute_file [OF assms] pkgptch_execute_file [OF assms]
      execute_console [OF assms] pkgptch_execute_console [OF assms]
      concat_iter_readline file_events_append file_events_console_run)

theorem execute_file_equals_console_witness:
  "shell demo_env ''echo v1'' (sys demo_world) = (''v1'' @ [newline], 0, 0)
   \<and> console (snd (execute demo_env ''echo v1'' ''/tmp/logs/x.log'' demo_world)) = ''v1'' @ [newline]
   \<and> files (snd (execute demo_env ''echo v1'' ''/tmp/logs/x.log'' demo_world)) ''/tmp/logs/x.log''
       = Some (''v1'' @ [newline])
   \<and> files (snd (pkgptch_execute demo_env ''echo v1'' ''x.log'' demo_world)) ''x.log''
       = Some (''v1'' @ [newline])"
proof -
  have s: "shell demo_env ''echo v1'' (sys demo_world) = (''v1'' @ [newline], 0, 0)"
    by (simp add: demo_env_def demo_shell_def demo_world_def)
  have o: "openable demo_env ''/tmp/logs/x.log''" "openable demo_env ''x.log''"
    by (simp_all add: demo_env_def)
  from execute_file_equals_console [OF s, of "''/tmp/logs/x.log''"]
    execute_file_equals_console [OF s, of "''x.log''"] s o
  show ?thesis
    by (simp add: demo_world_def)
qed


subsection \<open>\<^verbatim>\<open>exec_recipe\<close>: the steps of a recipe\<close>

lemma and_then_Inr: "and_then (Inr u, w) f = f w"
  by (simp add: and_then_def)

lemma and_then_Inl: "and_then (Inl e, w) f = (Inl e, w)"
  by (simp add: and_then_def)

lemma outcome_0: "outcome 0 cmd = Inr ()"
  by (simp add: outcome_def)

lemma outcome_fail: "rc \<noteq> 0 \<Longrightarrow> outcome rc cmd = Inl (CalledProcessError rc cmd)"
  by (simp add: outcome_def)

lemma path_join_nonempty: "b \<noteq> [] \<Longrightarrow> path_join a b \<noteq> []"
  by (simp add: path_join_def)

lemma spawned_file_run:
  "spawned (Open p m ok # Popen cmd # concat (map (\<lambda>l. [Readline l, Print l, Write p l]) ls)
           @ [Readline [], StdoutClose, Wait rc, Close p]) = [cmd]"
  by (simp add: spawned_lines spawned_append spawned_Cons spawned_Nil)

lemma spawned_console_run:
  "spawned (Popen cmd # concat (map (\<lambda>l. [Readline l, Print l]) ls) @ [Readline [], StdoutClose, Wait rc]) = [cmd]"
  by (simp add: spawned_lines spawned_append spawned_Cons spawned_Nil)

lemma logged_step:
  assumes "shell env cmd (sys w) = (out, rc, s')"
    and "openable env (log_path env dir (clock_reads w) sfx)"
    and "sfx \<noteq> []"
  shows "\<exists>w'. (case datetime_now_utc env w of (ts, w1) \<Rightarrow>
                 execute env cmd (path_join dir (ts @ sfx)) w1) = (outcome rc cmd, w')
          \<and> sys w' = s' \<and> clock_reads w' = Suc (clock_reads w)
          \<and> console w' = console w @ out
          \<and> files w' = (files w)(log_path env dir (clock_reads w) sfx \<mapsto>
                (case files w (log_path env dir (clock_reads w) sfx) of None \<Rightarrow> [] | Some old \<Rightarrow> old) @ out)
          \<and> trace w' = trace w @ Utcnow # Open (log_path env dir (clock_reads w) sfx) (CHR ''a'') True
                # Popen cmd
                # concat (map (\<lambda>l. [Readline l, Print l, Write (log_path env dir (clock_reads w) sfx) l])
                     (iter_readline out))
                @ [Readline [], StdoutClose, Wait rc, Close (log_path env dir (clock_reads w) sfx)]"
proof -
  let ?p = "log_path env dir (clock_reads w) sfx"
  let ?w1 = "emit Utcnow (w\<lparr>clock_reads := Suc (clock_reads w)\<rparr>)"
  have ne: "?p \<noteq> []"
    using assms(3) by (simp add: log_path_def path_join_nonempty)
  have s: "shell env cmd (sys ?w1) = (out, rc, s')"
    using assms(1) by (simp add: emit_def)
  have "(case datetime_now_utc env w of (ts, w1) \<Rightarrow> execute env cmd (path_join dir (ts @ sfx)) w1)
      = execute env cmd ?p ?w1"
    by (simp add: datetime_now_utc_def log_path_def)
  also note execute_file [OF s ne assms(2)]
  finally show ?thesis
    by (simp add: emit_def)
qed

lemma exec_recipe_pre_patch_fails:
  assumes "log_package_version_cmd r"
    and "shell env (package_version_cmd r) (sys w) = (out, rc, s')"
    and "rc \<noteq> 0"
    and "openable env (log_path env (log_directory r) (clock_reads w) ''_package_versions_pre-patch.log'')"
  shows "fst (exec_recipe env r w) = Inl (CalledProcessError rc (package_version_cmd r))
       \<and> spawned (trace (snd (exec_recipe env r w))) = spawned (trace w) @ [package_version_cmd r]"
proof -
  let ?w0 = "logger_log INFO (''Executing recipe: '' @ name r) w"
  have w0: "sys ?w0 = sys w" "clock_reads ?w0 = clock_reads w" "trace ?w0 = trace w @ [Log INFO (''Executing recipe: '' @ name r)]"
    by (simp_all add: logger_log_def emit_def)
  from logged_step [of env "package_version_cmd r" ?w0 out rc s' "log_directory r" "''_package_versions_pre-patch.log''"]
    assms w0
  obtain w1 where 1: "(case datetime_now_utc env ?w0 of (ts, w1) \<Rightarrow>
        execute env (package_version_cmd r)
          (path_join (log_directory r) (ts @ ''_package_versions_pre-patch.log'')) w1)
      = (Inl (CalledProcessError rc (package_version_cmd r)), w1)"
    and t1: "spawned (trace w1) = spawned (trace w) @ [package_version_cmd r]"
    by (auto simp: outcome_fail spawned_append spawned_Cons spawned_Nil spawned_lines)
  have "exec_recipe env r w = (Inl (CalledProcessError rc (package_version_cmd r)), w1)"
    unfolding exec_recipe_def Let_def using assms(1)
    by (simp only: 1 if_True and_then_Inl)
  with t1 show ?thesis by simp
qed


lemma pkgptch_logged_step:
  assumes "shell env cmd (sys w) = (out, rc, s')"
    and "openable env (pkgptch_log_path env (clock_reads w) sfx)"
    and "sfx \<noteq> []"
  shows "\<exists>w'. (case pkgptch_datetime_now env w of (datetime_now, w1) \<Rightarrow>
                 pkgptch_execute env cmd (datetime_now @ sfx) w1) = (outcome rc cmd, w')
          \<and> sys w' = s' \<and> clock_reads w' = Suc (clock_reads w)
          \<and> console w' = console w @ out
          \<and> files w' = (files w)(pkgptch_log_path env (clock_reads w) sfx \<mapsto> out)
          \<and> trace w' = trace w @ Now # Open (pkgptch_log_path env (clock_reads w) sfx) (CHR ''w'') True
                # Popen cmd
                # concat (map (\<lambda>l. [Readline l, Print l, Write (pkgptch_log_path env (clock_reads w) sfx) l])
                     (iter_readline out))
                @ [Readline [], StdoutClose, Wait rc, Close (pkgptch_log_path env (clock_reads w) sfx)]"
proof -
  let ?p = "pkgptch_log_path env (clock_reads w) sfx"
  let ?w1 = "emit Now (w\<lparr>clock_reads := Suc (clock_reads w)\<rparr>)"
  have ne: "?p \<noteq> []"
    using assms(3) by (simp add: pkgptch_log_path_def)
  have s: "shell env cmd (sys ?w1) = (out, rc, s')"
    using assms(1) by (simp add: emit_def)
  have "(case pkgptch_datetime_now env w of (datetime_now, w1) \<Rightarrow>
           pkgptch_execute env cmd (datetime_now @ sfx) w1)
      = pkgptch_execute env cmd ?p ?w1"
    by (simp add: pkgptch_datetime_now_def pkgptch_log_path_def)
  also note pkgptch_execute_file [OF s ne assms(2)]
  finally show ?thesis
    by (simp add: emit_def)
qed

lemma patch_step:
  assumes "shell env (patch_cmd r) (sys w) = (out, rc, s')"
    and "log_patch_cmd r \<longrightarrow> openable env (log_path env (log_directory r) (clock_reads w) (''_'' @ name r @ ''.log''))"
  shows "\<exists>w'. (if log_patch_cmd r then
                 (case datetime_now_utc env w of (ts, w1) \<Rightarrow>
                    execute env (patch_cmd r)
                      (path_join (log_directory r) (ts @ ''_'' @ name r @ ''.log'')) w1)
               else execute env (patch_cmd r) [] w) = (outcome rc (patch_cmd r), w')
          \<and> sys w' = s'
          \<and> clock_reads w' = (if log_patch_cmd r then Suc (clock_reads w) else clock_reads w)
          \<and> console w' = console w @ out
          \<and> spawned (trace w') = spawned (trace w) @ [patch_cmd r]
          \<and> opens (trace w') = opens (trace w)
               @ (if log_patch_cmd r
                  then [(log_path env (log_directory r) (clock_reads w) (''_'' @ name r @ ''.log''), CHR ''a'', True)]
                  else [])"
proof (cases "log_patch_cmd r")
  case True
  with assms(2) have o: "openable env (log_path env (log_directory r) (clock_reads w) (''_'' @ name r @ ''.log''))"
    by simp
  have ne: "''_'' @ name r @ ''.log'' \<noteq> []"
    by simp
  from logged_step [OF assms(1) o ne] True show ?thesis
    by (auto simp: spawned_append spawned_Cons spawned_Nil spawned_lines
        opens_append opens_Cons opens_Nil opens_lines)
next
  case False
  then show ?thesis
    by (simp add: execute_console [OF assms(1)] spawned_append spawned_console_run
        opens_append opens_console_run)
qed

lemma pkgptch_patch_step:
  assumes "shell env (patch_cmd r) (sys w) = (out, rc, s')"
    and "log_patch_cmd r \<longrightarrow> openable env (pkgptch_log_path env (clock_reads w) (''_'' @ name r @ ''.log''))"
  shows "\<exists>w'. (if log_patch_cmd r then
                 (case pkgptch_datetime_now env w of (datetime_now, w1) \<Rightarrow>
                    pkgptch_execute env (patch_cmd r) (datetime_now @ ''_'' @ name r @ ''.log'') w1)
               else pkgptch_execute env (patch_cmd r) [] w) = (outcome rc (patch_cmd r), w')
          \<and> sys w' = s'
          \<and> clock_reads w' = (if log_patch_cmd r then Suc (clock_reads w) else clock_reads w)
          \<and> console w' = console w @ out
          \<and> spawned (trace w') = spawned (trace w) @ [patch_cmd r]
          \<and> opens (trace w') = opens (trace w)
               @ (if log_patch_cmd r
                  then [(pkgptch_log_path env (clock_reads w) (''_'' @ name r @ ''.log''), CHR ''w'', True)]
                  else [])"
proof (cases "log_patch_cmd r")
  case True
  with assms(2) have o: "openable env (pkgptch_log_path env (clock_reads w) (''_'' @ name r @ ''.log''))"
    by simp
  have ne: "''_'' @ name r @ ''.log'' \<noteq> []"
    by simp
  from pkgptch_logged_step [OF assms(1) o ne] True show ?thesis
    by (auto simp: spawned_append spawned_Cons spawned_Nil spawned_lines
        opens_append opens_Cons opens_Nil opens_lines)
next
  case False
  then show ?thesis
    by (simp add: pkgptch_execute_console [OF assms(1)] spawned_append spawned_console_run
        opens_append opens_console_run)
qed

lemma pkgptch_exec_recipe_pre_patch_fails:
  assumes "log_package_version_cmd r"
    and "shell env (package_version_cmd r) (sys w) = (out, rc, s')"
    and "rc \<noteq> 0"
    and "openable env (pkgptch_log_path env (clock_reads w) ''_package_versions_pre-patch.log'')"
  shows "fst (pkgptch_exec_recipe env r w) = Inl (CalledProcessError rc (package_version_cmd r))
       \<and> spawned (trace (snd (pkgptch_exec_recipe env r w))) = spawned (trace w) @ [package_version_cmd r]"
proof -
  let ?w0 = "logger_log INFO (''Executing recipe: '' @ name r) w"
  have w0: "sys ?w0 = sys w" "clock_reads ?w0 = clock_reads w"
    "trace ?w0 = trace w @ [Log INFO (''Executing recipe: '' @ name r)]"
    by (simp_all add: logger_log_def emit_def)
  from pkgptch_logged_step [of env "package_version_cmd r" ?w0 out rc s' "''_package_versions_pre-patch.log''"]
    assms w0
  obtain w1 where 1: "(case pkgptch_datetime_now env ?w0 of (datetime_now, w1) \<Rightarrow>
        pkgptch_execute env (package_version_cmd r)
          (datetime_now @ ''_package_versions_pre-patch.log'') w1)
      = (Inl (CalledProcessError rc (package_version_cmd r)), w1)"
    and t1: "spawned (trace w1) = spawned (trace w) @ [package_version_cmd r]"
    by (auto simp: outcome_fail spawned_append spawned_Cons spawned_Nil spawned_lines)
  have "pkgptch_exec_recipe env r w = (Inl (CalledProcessError rc (package_version_cmd r)), w1)"
    unfolding pkgptch_exec_recipe_def Let_def using assms(1)
    by (simp only: 1 if_True and_then_Inl)
  with t1 show ?thesis by simp
qed

lemma exec_recipe_patch_fails:
  assumes "log_package_version_cmd r"
    and "shell env (package_version_cmd r) (sys w) = (out1, 0, s1)"
    and "openable env (log_path env (log_directory r) (clock_reads w) ''_package_versions_pre-patch.log'')"
    and "shell env (patch_cmd r) s1 = (out2, rc, s2)"
    and "rc \<noteq> 0"
    and "log_patch_cmd r \<longrightarrow>
         openable env (log_path env (log_directory r) (Suc (clock_reads w)) (''_'' @ name r @ ''.log''))"
  shows "fst (exec_recipe env r w) = Inl (CalledProcessError rc (patch_cmd r))
       \<and> spawned (trace (snd (exec_recipe env r w)))
           = spawned (trace w) @ [package_version_cmd r, patch_cmd r]"
proof -
  let ?w0 = "logger_log INFO (''Executing recipe: '' @ name r) w"
  have w0: "sys ?w0 = sys w" "clock_reads ?w0 = clock_reads w"
    "trace ?w0 = trace w @ [Log INFO (''Executing recipe: '' @ name r)]"
    by (simp_all add: logger_log_def emit_def)
  from logged_step [of env "package_version_cmd r" ?w0 out1 0 s1 "log_directory r" "''_package_versions_pre-patch.log''"]
    assms(2,3) w0
  obtain w1 where 1: "(case datetime_now_utc env ?w0 of (ts, w1) \<Rightarrow>
        execute env (package_version_cmd r)
          (path_join (log_directory r) (ts @ ''_package_versions_pre-patch.log'')) w1)
      = (Inr (), w1)"
    and f1: "sys w1 = s1" "clock_reads w1 = Suc (clock_reads w)"
      "spawned (trace w1) = spawned (trace w) @ [package_version_cmd r]"
    by (auto simp: outcome_0 spawned_append spawned_Cons spawned_Nil spawned_lines)
  from patch_step [of env r w1 out2 rc s2] assms(4,5,6) f1
  obtain w2 where 2: "(if log_patch_cmd r then
                 (case datetime_now_utc env w1 of (ts, w1) \<Rightarrow>
                    execute env (patch_cmd r)
                      (path_join (log_directory r) (ts @ ''_'' @ name r @ ''.log'')) w1)
               else execute env (patch_cmd r) [] w1) = (Inl (CalledProcessError rc (patch_cmd r)), w2)"
    and f2: "spawned (trace w2) = spawned (trace w) @ [package_version_cmd r, patch_cmd r]"
    by (auto simp: outcome_fail)
  have "exec_recipe env r w = (Inl (CalledProcessError rc (patch_cmd r)), w2)"
    unfolding exec_recipe_def Let_def using assms(1)
    by (simp only: 1 2 if_True and_then_Inl and_then_Inr)
  with f2 show ?thesis by simp
qed

lemma pkgptch_exec_recipe_patch_fails:
  assumes "log_package_version_cmd r"
    and "shell env (package_version_cmd r) (sys w) = (out1, 0, s1)"
    and "openable env (pkgptch_log_path env (clock_reads w) ''_package_versions_pre-patch.log'')"
    and "shell env (patch_cmd r) s1 = (out2, rc, s2)"
    and "rc \<noteq> 0"
    and "log_patch_cmd r \<longrightarrow>
         openable env (pkgptch_log_path env (Suc (clock_reads w)) (''_'' @ name r @ ''.log''))"
  shows "fst (pkgptch_exec_recipe env r w) = Inl (CalledProcessError rc (patch_cmd r))
       \<and> spawned (trace (snd (pkgptch_exec_recipe env r w)))
           = spawned (trace w) @ [package_version_cmd r, patch_cmd r]"
proof -
  let ?w0 = "logger_log INFO (''Executing recipe: '' @ name r) w"
  have w0: "sys ?w0 = sys w" "clock_reads ?w0 = clock_reads w"
    "trace ?w0 = trace w @ [Log INFO (''Executing recipe: '' @ name r)]"
    by (simp_all add: logger_log_def emit_def)
  from pkgptch_logged_step [of env "package_version_cmd r" ?w0 out1 0 s1 "''_package_versions_pre-patch.log''"]
    assms(2,3) w0
  obtain w1 where 1: "(case pkgptch_datetime_now env ?w0 of (datetime_now, w1) \<Rightarrow>
        pkgptch_execute env (package_version_cmd r)
          (datetime_now @ ''_package_versions_pre-patch.log'') w1)
      = (Inr (), w1)"
    and f1: "sys w1 = s1" "clock_reads w1 = Suc (clock_reads w)"
      "spawned (trace w1) = spawned (trace w) @ [package_version_cmd r]"
    by (auto simp: outcome_0 spawned_append spawned_Cons spawned_Nil spawned_lines)
  from pkgptch_patch_step [of env r w1 out2 rc s2] assms(4,5,6) f1
  obtain w2 where 2: "(if log_patch_cmd r then
                 (case pkgptch_datetime_now env w1 of (datetime_now, w1) \<Rightarrow>
                    pkgptch_execute env (patch_cmd r) (datetime_now @ ''_'' @ name r @ ''.log'') w1)
               else pkgptch_execute env (patch_cmd r) [] w1) = (Inl (CalledProcessError rc (patch_cmd r)), w2)"
    and f2: "spawned (trace w2) = spawned (trace w) @ [package_version_cmd r, patch_cmd r]"
    by (auto simp: outcome_fail)
  have "pkgptch_exec_recipe env r w = (Inl (CalledProcessError rc (patch_cmd r)), w2)"
    unfolding pkgptch_exec_recipe_def Let_def using assms(1)
    by (simp only: 1 2 if_True and_then_Inl and_then_Inr)
  with f2 show ?thesis by simp
qed


subsection \<open>Timestamps on the small host\<close>

lemma zero_padded_2: "zero_padded 2 n = [''0123456789'' ! (n div 10 mod 10), ''0123456789'' ! (n mod 10)]"
  by (simp add: zero_padded_def numeral_2_eq_2)

lemma zero_padded_4:
  "zero_padded 4 n = [''0123456789'' ! (n div 1000 mod 10), ''0123456789'' ! (n div 100 mod 10),
                      ''0123456789'' ! (n div 10 mod 10), ''0123456789'' ! (n mod 10)]"
  by (simp add: zero_padded_def upt_rec)

lemma zero_padded_6:
  "zero_padded 6 n = [''0123456789'' ! (n div 100000 mod 10), ''0123456789'' ! (n div 10000 mod 10),
                      ''0123456789'' ! (n div 1000 mod 10), ''0123456789'' ! (n div 100 mod 10),
                      ''0123456789'' ! (n div 10 mod 10), ''0123456789'' ! (n mod 10)]"
  by (simp add: zero_padded_def upt_rec)

lemma strftime_logpatch:
  "strftime ''%Y%m%dT%H%M%S.%fZ'' dt
     = zero_padded 4 (year dt) @ zero_padded 2 (month dt) @ zero_padded 2 (day dt) @ ''T''
       @ zero_padded 2 (hour dt) @ zero_padded 2 (minute dt) @ zero_padded 2 (second dt) @ ''.''
       @ zero_padded 6 (microsecond dt) @ ''Z''"
  by (simp add: directive_def)

lemma strftime_pkgptch:
  "strftime ''%Y%m%dT%H%M%SZ'' dt
     = zero_padded 4 (year dt) @ zero_padded 2 (month dt) @ zero_padded 2 (day dt) @ ''T''
       @ zero_padded 2 (hour dt) @ zero_padded 2 (minute dt) @ zero_padded 2 (second dt) @ ''Z''"
  by (simp add: directive_def)

lemma demo_log_path:
  "log_path demo_env ''/tmp/logs'' 0 sfx = ''/tmp/logs/20221231T235958.000100Z'' @ sfx"
  "log_path demo_env ''/tmp/logs'' (Suc 0) sfx = ''/tmp/logs/20221231T235958.000101Z'' @ sfx"
  "log_path demo_env ''/tmp/logs'' (Suc (Suc 0)) sfx = ''/tmp/logs/20221231T235958.000102Z'' @ sfx"
  by (simp_all add: log_path_def path_join_def demo_env_def directive_def
      zero_padded_2 zero_padded_4 zero_padded_6)

lemma demo_pkgptch_log_path:
  "pkgptch_log_path demo_env k sfx = ''20230101T125958Z'' @ sfx"
  by (simp add: pkgptch_log_path_def demo_env_def directive_def zero_padded_2 zero_padded_4)


subsection \<open>Fail-fast\<close>

text \<open>
  C1. Fail-fast. If the recipe logs package versions and the pre-patch inventory
  command exits with a non-zero code, \<^verbatim>\<open>exec_recipe\<close> raises that
  \<^verbatim>\<open>CalledProcessError\<close> and the only process it has started is the inventory: the
  patch command is never started. If the inventory succeeds and the patch command
  exits with a non-zero code, \<^verbatim>\<open>exec_recipe\<close> raises that error and has started the
  inventory and the patch, and no third process: the post-patch inventory never
  runs. Both hold for \<^verbatim>\<open>logpatch.py\<close> and for \<^verbatim>\<open>pkgptch.py\<close>.
\<close>

theorem exec_recipe_fails_fast:
  "(log_package_version_cmd r
      \<and> shell env (package_version_cmd r) (sys w) = (out, rc, s') \<and> rc \<noteq> 0
      \<and> openable env (log_path env (log_directory r) (clock_reads w) ''_package_versions_pre-patch.log'')
    \<longrightarrow> fst (exec_recipe env r w) = Inl (CalledProcessError rc (package_version_cmd r))
      \<and> spawned (trace (snd (exec_recipe env r w))) = spawned (trace w) @ [package_version_cmd r])
 \<and> (log_package_version_cmd r
      \<and> shell env (package_version_cmd r) (sys w) = (out1, 0, s1)
      \<and> openable env (log_path env (log_directory r) (clock_reads w) ''_package_versions_pre-patch.log'')
      \<and> shell env (patch_cmd r) s1 = (out2, rc2, s2) \<and> rc2 \<noteq> 0
      \<and> (log_patch_cmd r \<longrightarrow>
           openable env (log_path env (log_directory r) (Suc (clock_reads w)) (''_'' @ name r @ ''.log'')))
    \<longrightarrow> fst (exec_recipe env r w) = Inl (CalledProcessError rc2 (patch_cmd r))
      \<and> spawned (trace (snd (exec_recipe env r w)))
          = spawned (trace w) @ [package_version_cmd r, patch_cmd r])
 \<and> (log_package_version_cmd r
      \<and> shell env (package_version_cmd r) (sys w) = (out, rc, s') \<and> rc \<noteq> 0
      \<and> openable env (pkgptch_log_path env (clock_reads w) ''_package_versions_pre-patch.log'')
    \<longrightarrow> fst (pkgptch_exec_recipe env r w) = Inl (CalledProcessError rc (package_version_cmd r))
      \<and> spawned (trace (snd (pkgptch_exec_recipe env r w))) = spawned (trace w) @ [package_version_cmd r])
 \<and> (log_package_version_cmd r
      \<and> shell env (package_version_cmd r) (sys w) = (out1, 0, s1)
      \<and> openable env (pkgptch_log_path env (clock_reads w) ''_package_versions_pre-patch.log'')
      \<and> shell env (patch_cmd r) s1 = (out2, rc2, s2) \<and> rc2 \<noteq> 0
      \<and> (log_patch_cmd r \<longrightarrow>
           openable env (pkgptch_log_path env (Suc (clock_reads w)) (''_'' @ name r @ ''.log'')))
    \<longrightarrow> fst (pkgptch_exec_recipe env r w) = Inl (CalledProcessError rc2 (patch_cmd r))
      \<and> spawned (trace (snd (pkgptch_exec_recipe env r w)))
          = spawned (trace w) @ [package_version_cmd r, patch_cmd r])"
  using exec_recipe_pre_patch_fails [of r env w out rc s']
    exec_recipe_patch_fails [of r env w out1 s1 out2 rc2 s2]
    pkgptch_exec_recipe_pre_patch_fails [of r env w out rc s']
    pkgptch_exec_recipe_patch_fails [of r env w out1 s1 out2 rc2 s2]
  by blast

theorem exec_recipe_fails_fast_witness:
  "fst (exec_recipe demo_env (demo_recipe\<lparr>package_version_cmd := ''ls /nonexistent''\<rparr>) demo_world)
     = Inl (CalledProcessError 2 ''ls /nonexistent'')
   \<and> spawned (trace (snd (exec_recipe demo_env
         (demo_recipe\<lparr>package_version_cmd := ''ls /nonexistent''\<rparr>) demo_world)))
     = [''ls /nonexistent'']
   \<and> fst (exec_recipe demo_env (demo_recipe\<lparr>patch_cmd := ''ls /nonexistent''\<rparr>) demo_world)
     = Inl (CalledProcessError 2 ''ls /nonexistent'')
   \<and> spawned (trace (snd (exec_recipe demo_env
         (demo_recipe\<lparr>patch_cmd := ''ls /nonexistent''\<rparr>) demo_world)))
     = [''echo v1'', ''ls /nonexistent'']
   \<and> spawned (trace (snd (pkgptch_exec_recipe demo_env
         (demo_recipe\<lparr>package_version_cmd := ''ls /nonexistent''\<rparr>) demo_world)))
     = [''ls /nonexistent'']
   \<and> spawned (trace (snd (pkgptch_exec_recipe demo_env
         (demo_recipe\<lparr>patch_cmd := ''ls /nonexistent''\<rparr>) demo_world)))
     = [''echo v1'', ''ls /nonexistent'']"
proof -
  let ?r1 = "demo_recipe\<lparr>package_version_cmd := ''ls /nonexistent''\<rparr>"
  let ?r2 = "demo_recipe\<lparr>patch_cmd := ''ls /nonexistent''\<rparr>"
  have w: "sys demo_world = 0" "clock_reads demo_world = 0" "trace demo_world = []"
    by (simp_all add: demo_world_def)
  have r1: "log_package_version_cmd ?r1" "package_version_cmd ?r1 = ''ls /nonexistent''"
    "log_directory ?r1 = ''/tmp/logs''"
    by (simp_all add: demo_recipe_def)
  have r2: "log_package_version_cmd ?r2" "package_version_cmd ?r2 = ''echo v1''"
    "patch_cmd ?r2 = ''ls /nonexistent''" "log_directory ?r2 = ''/tmp/logs''"
    "log_patch_cmd ?r2" "name ?r2 = ''demo''"
    by (simp_all add: demo_recipe_def)
  have sh: "shell demo_env ''ls /nonexistent'' 0
      = (concat [''ls: cannot access'' @ [newline], ''No such file'' @ [newline]], 2, 0)"
    "shell demo_env ''echo v1'' 0 = (concat [''v1'' @ [newline]], 0, 0)"
    by (simp_all add: demo_env_def demo_shell_def)
  have o: "openable demo_env (log_path demo_env ''/tmp/logs'' 0 ''_package_versions_pre-patch.log'')"
    "openable demo_env (log_path demo_env ''/tmp/logs'' (Suc 0) (''_'' @ ''demo'' @ ''.log''))"
    "openable demo_env (pkgptch_log_path demo_env 0 ''_package_versions_pre-patch.log'')"
    "openable demo_env (pkgptch_log_path demo_env (Suc 0) (''_'' @ ''demo'' @ ''.log''))"
    unfolding demo_log_path demo_pkgptch_log_path by (simp_all add: demo_env_def)
  note a = exec_recipe_fails_fast [of ?r1 demo_env demo_world
      "concat [''ls: cannot access'' @ [newline], ''No such file'' @ [newline]]" 2 0]
  note b = exec_recipe_fails_fast [of ?r2 demo_env demo_world _ _ _
      "concat [''v1'' @ [newline]]" 0
      "concat [''ls: cannot access'' @ [newline], ''No such file'' @ [newline]]" 2 0]
  have a1: "fst (exec_recipe demo_env ?r1 demo_world) = Inl (CalledProcessError 2 ''ls /nonexistent'')
      \<and> spawned (trace (snd (exec_recipe demo_env ?r1 demo_world))) = [''ls /nonexistent'']"
    using a [THEN conjunct1] r1 sh o w by (simp add: spawned_def)
  have a3: "spawned (trace (snd (pkgptch_exec_recipe demo_env ?r1 demo_world))) = [''ls /nonexistent'']"
    using a [THEN conjunct2, THEN conjunct2, THEN conjunct1] r1 sh o w by (simp add: spawned_def)
  have b2: "fst (exec_recipe demo_env ?r2 demo_world) = Inl (CalledProcessError 2 ''ls /nonexistent'')
      \<and> spawned (trace (snd (exec_recipe demo_env ?r2 demo_world))) = [''echo v1'', ''ls /nonexistent'']"
    using b [THEN conjunct2, THEN conjunct1] r2 sh o w by (simp add: spawned_def)
  have b4: "spawned (trace (snd (pkgptch_exec_recipe demo_env ?r2 demo_world)))
      = [''echo v1'', ''ls /nonexistent'']"
    using b [THEN conjunct2, THEN conjunct2, THEN conjunct2] r2 sh o w by (simp add: spawned_def)
  from a1 a3 b2 b4 show ?thesis by simp
qed

subsection \<open>The log file of one command\<close>

text \<open>
  C10. The empty string stands for "no log file": \<^verbatim>\<open>execute\<close> with \<^verbatim>\<open>log_file = ''\<close>
  prints the command's output, leaves the files as they are and calls \<^verbatim>\<open>open\<close> on
  nothing. Any other string is a path that \<^verbatim>\<open>execute\<close> opens in append mode, first
  of all; when it cannot be opened (a directory that does not exist), the
  \<^verbatim>\<open>OSError\<close> leaves \<^verbatim>\<open>execute\<close> before the command is started.
\<close>

theorem execute_empty_log_file_is_console_only:
  assumes "shell env cmd (sys w) = (out, rc, s')"
  shows "console (snd (execute env cmd [] w)) = console w @ out
       \<and> files (snd (execute env cmd [] w)) = files w
       \<and> opens (trace (snd (execute env cmd [] w))) = opens (trace w)
       \<and> (log_file \<noteq> [] \<longrightarrow>
            opens (trace (snd (execute env cmd log_file w)))
              = opens (trace w) @ [(log_file, CHR ''a'', openable env log_file)])
       \<and> (log_file \<noteq> [] \<and> \<not> openable env log_file \<longrightarrow>
            execute env cmd log_file w
              = (Inl (OSError log_file), emit (Open log_file (CHR ''a'') False) w))"
proof -
  have "opens (trace (snd (execute env cmd log_file w)))
      = opens (trace w) @ [(log_file, CHR ''a'', openable env log_file)]" if "log_file \<noteq> []"
  proof (cases "openable env log_file")
    case True
    with that show ?thesis
      by (simp add: execute_file [OF assms] opens_append opens_file_run)
  next
    case False
    with that show ?thesis
      by (simp add: execute_unopenable opens_append opens_Cons opens_Nil)
  qed
  then show ?thesis
    by (simp add: execute_console [OF assms] opens_append opens_console_run
        execute_unopenable emit_def)
qed

theorem execute_empty_log_file_is_console_only_witness:
  "console (snd (execute demo_env ''echo v1'' [] demo_world)) = ''v1'' @ [newline]
   \<and> files (snd (execute demo_env ''echo v1'' [] demo_world)) = Map.empty
   \<and> opens (trace (snd (execute demo_env ''echo v1'' ''/no/such/dir/x.log'' demo_world)))
       = [(''/no/such/dir/x.log'', CHR ''a'', False)]
   \<and> execute demo_env ''echo v1'' ''/no/such/dir/x.log'' demo_world
       = (Inl (OSError ''/no/such/dir/x.log''),
          emit (Open ''/no/such/dir/x.log'' (CHR ''a'') False) demo_world)"
proof -
  have s: "shell demo_env ''echo v1'' (sys demo_world) = (''v1'' @ [newline], 0, 0)"
    by (simp add: demo_env_def demo_shell_def demo_world_def)
  have o: "\<not> openable demo_env ''/no/such/dir/x.log''"
    by (simp add: demo_env_def)
  have w: "console demo_world = []" "files demo_world = Map.empty" "opens (trace demo_world) = []"
    by (simp_all add: demo_world_def opens_Nil)
  from execute_empty_log_file_is_console_only [OF s, of "''/no/such/dir/x.log''"] o w
  show ?thesis
    by (simp add: emit_def opens_append opens_Cons opens_Nil)
qed

text \<open>
  C7, for \<^verbatim>\<open>logpatch.py\<close>: the log file is opened in append mode before the command
  starts and closed after its last line, also when the command fails; what the file
  held before stays in front of the new output.
\<close>

theorem execute_appends_and_closes:
  assumes "shell env cmd (sys w) = (out, rc, s')"
    and "log_file \<noteq> []" and "openable env log_file" and "files w log_file = Some old"
  shows "fst (execute env cmd log_file w)
           = (if rc = 0 then Inr () else Inl (CalledProcessError rc cmd))
       \<and> files (snd (execute env cmd log_file w)) log_file = Some (old @ out)
       \<and> trace (snd (execute env cmd log_file w))
           = trace w @ Open log_file (CHR ''a'') True # Popen cmd
               # concat (map (\<lambda>l. [Readline l, Print l, Write log_file l]) (iter_readline out))
               @ [Readline [], StdoutClose, Wait rc, Close log_file]"
  using assms(4) by (simp add: execute_file [OF assms(1,2,3)] outcome_def)

theorem execute_appends_and_closes_witness:
  "fst (execute demo_env ''ls /nonexistent'' ''run.log''
          (demo_world\<lparr>files := [''run.log'' \<mapsto> ''earlier'' @ [newline]]\<rparr>))
     = Inl (CalledProcessError 2 ''ls /nonexistent'')
   \<and> files (snd (execute demo_env ''ls /nonexistent'' ''run.log''
          (demo_world\<lparr>files := [''run.log'' \<mapsto> ''earlier'' @ [newline]]\<rparr>))) ''run.log''
     = Some ((''earlier'' @ [newline]) @ ''ls: cannot access'' @ [newline] @ ''No such file'' @ [newline])"
proof -
  let ?w = "demo_world\<lparr>files := [''run.log'' \<mapsto> ''earlier'' @ [newline]]\<rparr>"
  have s: "shell demo_env ''ls /nonexistent'' (sys ?w)
      = (''ls: cannot access'' @ [newline] @ ''No such file'' @ [newline], 2, 0)"
    by (simp add: demo_env_def demo_shell_def demo_world_def)
  have o: "openable demo_env ''run.log''" "''run.log'' \<noteq> []"
    by (simp_all add: demo_env_def)
  have f: "files ?w ''run.log'' = Some (''earlier'' @ [newline])"
    by simp
  from execute_appends_and_closes [OF s o(2) o(1) f] show ?thesis
    by simp
qed

text \<open>
  C7, for \<^verbatim>\<open>pkgptch.py\<close>: its \<^verbatim>\<open>execute\<close> opens the log file in mode \<^verbatim>\<open>'w'\<close>. A
  file of that name loses what it held.
\<close>

theorem pkgptch_execute_truncates:
  "opens (trace (snd (pkgptch_execute demo_env ''echo v1'' ''run.log''
          (demo_world\<lparr>files := [''run.log'' \<mapsto> ''earlier'' @ [newline]]\<rparr>))))
     = [(''run.log'', CHR ''w'', True)]
   \<and> files (snd (pkgptch_execute demo_env ''echo v1'' ''run.log''
          (demo_world\<lparr>files := [''run.log'' \<mapsto> ''earlier'' @ [newline]]\<rparr>))) ''run.log''
     = Some (''v1'' @ [newline])"
proof -
  let ?w = "demo_world\<lparr>files := [''run.log'' \<mapsto> ''earlier'' @ [newline]]\<rparr>"
  have s: "shell demo_env ''echo v1'' (sys ?w) = (''v1'' @ [newline], 0, 0)"
    by (simp add: demo_env_def demo_shell_def demo_world_def)
  have o: "''run.log'' \<noteq> []" "openable demo_env ''run.log''"
    by (simp_all add: demo_env_def)
  have w: "opens (trace ?w) = []"
    by (simp add: demo_world_def opens_Nil)
  from pkgptch_execute_file [OF s o] w show ?thesis
    by (simp add: opens_append opens_file_run)
qed

subsection \<open>The log files of a recipe\<close>

lemma step_events_append: "step_events (xs @ ys) = step_events xs @ step_events ys"
  by (simp add: step_events_def)

lemma step_events_file_run:
  "step_events (Open p m ok # Popen cmd # concat (map (\<lambda>l. [Readline l, Print l, Write p l]) ls)
           @ [Readline [], StdoutClose, Wait rc, Close p]) = [Open p m ok, Popen cmd]"
  unfolding step_events_def by (induction ls) simp_all

lemma step_events_console_run:
  "step_events (Popen cmd # concat (map (\<lambda>l. [Readline l, Print l]) ls)
           @ [Readline [], StdoutClose, Wait rc]) = [Popen cmd]"
  unfolding step_events_def by (induction ls) simp_all

lemma logged_step_views:
  assumes "shell env cmd (sys w) = (out, rc, s')"
    and "openable env (log_path env dir (clock_reads w) sfx)"
    and "sfx \<noteq> []"
  shows "\<exists>w'. (case datetime_now_utc env w of (ts, w1) \<Rightarrow>
                 execute env cmd (path_join dir (ts @ sfx)) w1) = (outcome rc cmd, w')
          \<and> sys w' = s' \<and> clock_reads w' = Suc (clock_reads w)
          \<and> console w' = console w @ out
          \<and> dom (files w') = insert (log_path env dir (clock_reads w) sfx) (dom (files w))
          \<and> spawned (trace w') = spawned (trace w) @ [cmd]
          \<and> opens (trace w') = opens (trace w) @ [(log_path env dir (clock_reads w) sfx, CHR ''a'', True)]
          \<and> step_events (trace w') = step_events (trace w)
               @ [Utcnow, Open (log_path env dir (clock_reads w) sfx) (CHR ''a'') True, Popen cmd]"
proof -
  from logged_step [OF assms] obtain w' where
    "(case datetime_now_utc env w of (ts, w1) \<Rightarrow>
         execute env cmd (path_join dir (ts @ sfx)) w1) = (outcome rc cmd, w')"
    "sys w' = s'" "clock_reads w' = Suc (clock_reads w)" "console w' = console w @ out"
    "files w' = (files w)(log_path env dir (clock_reads w) sfx \<mapsto>
       (case files w (log_path env dir (clock_reads w) sfx) of None \<Rightarrow> [] | Some old \<Rightarrow> old) @ out)"
    "trace w' = trace w @ Utcnow # Open (log_path env dir (clock_reads w) sfx) (CHR ''a'') True
        # Popen cmd
        # concat (map (\<lambda>l. [Readline l, Print l, Write (log_path env dir (clock_reads w) sfx) l])
             (iter_readline out))
        @ [Readline [], StdoutClose, Wait rc, Close (log_path env dir (clock_reads w) sfx)]"
    by blast
  moreover have "step_events [Utcnow] = [Utcnow]" "spawned [Utcnow] = []" "opens [Utcnow] = []"
    by (simp_all add: step_events_def spawned_def opens_def)
  ultimately show ?thesis
    using spawned_append [of "[Utcnow]"] opens_append [of "[Utcnow]"] step_events_append [of "[Utcnow]"]
    by (intro exI [of _ w'])
      (simp add: spawned_append spawned_file_run opens_append opens_file_run
        step_events_append step_events_file_run)
qed

lemma exec_recipe_all_logged:
  assumes "log_package_version_cmd r" and "log_patch_cmd r"
    and "shell env (package_version_cmd r) (sys w) = (out1, 0, s1)"
    and "shell env (patch_cmd r) s1 = (out2, 0, s2)"
    and "shell env (package_version_cmd r) s2 = (out3, 0, s3)"
    and "openable env (log_path env (log_directory r) (clock_reads w) ''_package_versions_pre-patch.log'')"
    and "openable env (log_path env (log_directory r) (Suc (clock_reads w)) (''_'' @ name r @ ''.log''))"
    and "openable env (log_path env (log_directory r) (Suc (Suc (clock_reads w))) ''_package_versions_post-patch.log'')"
  shows "fst (exec_recipe env r w) = Inr ()
       \<and> console (snd (exec_recipe env r w)) = console w @ out1 @ out2 @ out3
       \<and> dom (files (snd (exec_recipe env r w))) = dom (files w) \<union>
           {log_path env (log_directory r) (clock_reads w) ''_package_versions_pre-patch.log'',
            log_path env (log_directory r) (Suc (clock_reads w)) (''_'' @ name r @ ''.log''),
            log_path env (log_directory r) (Suc (Suc (clock_reads w))) ''_package_versions_post-patch.log''}
       \<and> spawned (trace (snd (exec_recipe env r w)))
           = spawned (trace w) @ [package_version_cmd r, patch_cmd r, package_version_cmd r]
       \<and> opens (trace (snd (exec_recipe env r w)))
           = opens (trace w) @
             [(log_path env (log_directory r) (clock_reads w) ''_package_versions_pre-patch.log'', CHR ''a'', True),
              (log_path env (log_directory r) (Suc (clock_reads w)) (''_'' @ name r @ ''.log''), CHR ''a'', True),
              (log_path env (log_directory r) (Suc (Suc (clock_reads w))) ''_package_versions_post-patch.log'', CHR ''a'', True)]
       \<and> step_events (trace (snd (exec_recipe env r w)))
           = step_events (trace w) @
             [Utcnow,
              Open (log_path env (log_directory r) (clock_reads w) ''_package_versions_pre-patch.log'') (CHR ''a'') True,
              Popen (package_version_cmd r),
              Utcnow,
              Open (log_path env (log_directory r) (Suc (clock_reads w)) (''_'' @ name r @ ''.log'')) (CHR ''a'') True,
              Popen (patch_cmd r),
              Utcnow,
              Open (log_path env (log_directory r) (Suc (Suc (clock_reads w))) ''_package_versions_post-patch.log'') (CHR ''a'') True,
              Popen (package_version_cmd r)]"
proof -
  let ?w0 = "logger_log INFO (''Executing recipe: '' @ name r) w"
  have w0: "sys ?w0 = sys w" "clock_reads ?w0 = clock_reads w" "console ?w0 = console w"
    "files ?w0 = files w" "spawned (trace ?w0) = spawned (trace w)"
    "opens (trace ?w0) = opens (trace w)" "step_events (trace ?w0) = step_events (trace w)"
    by (simp_all add: logger_log_def emit_def spawned_def opens_def step_events_def)
  from logged_step_views [of env "package_version_cmd r" ?w0 out1 0 s1 "log_directory r"
      "''_package_versions_pre-patch.log''"] assms(3,6) w0
  obtain w1 where 1: "(case datetime_now_utc env ?w0 of (ts, w1) \<Rightarrow>
        execute env (package_version_cmd r)
          (path_join (log_directory r) (ts @ ''_package_versions_pre-patch.log'')) w1)
      = (Inr (), w1)"
    and f1: "sys w1 = s1" "clock_reads w1 = Suc (clock_reads w)" "console w1 = console w @ out1"
      "dom (files w1) = insert (log_path env (log_directory r) (clock_reads w) ''_package_versions_pre-patch.log'') (dom (files w))"
      "spawned (trace w1) = spawned (trace w) @ [package_version_cmd r]"
      "opens (trace w1) = opens (trace w)
         @ [(log_path env (log_directory r) (clock_reads w) ''_package_versions_pre-patch.log'', CHR ''a'', True)]"
      "step_events (trace w1) = step_events (trace w)
         @ [Utcnow, Open (log_path env (log_directory r) (clock_reads w) ''_package_versions_pre-patch.log'') (CHR ''a'') True,
            Popen (package_version_cmd r)]"
    by (auto simp: outcome_0)
  have ne: "''_'' @ name r @ ''.log'' \<noteq> []"
    by simp
  from logged_step_views [of env "patch_cmd r" w1 out2 0 s2 "log_directory r" "''_'' @ name r @ ''.log''"]
    assms(4,7) f1 ne
  obtain w2 where 2: "(case datetime_now_utc env w1 of (ts, w1) \<Rightarrow>
        execute env (patch_cmd r)
          (path_join (log_directory r) (ts @ ''_'' @ name r @ ''.log'')) w1)
      = (Inr (), w2)"
    and f2: "sys w2 = s2" "clock_reads w2 = Suc (Suc (clock_reads w))" "console w2 = console w1 @ out2"
      "dom (files w2) = insert (log_path env (log_directory r) (Suc (clock_reads w)) (''_'' @ name r @ ''.log'')) (dom (files w1))"
      "spawned (trace w2) = spawned (trace w1) @ [patch_cmd r]"
      "opens (trace w2) = opens (trace w1)
         @ [(log_path env (log_directory r) (Suc (clock_reads w)) (''_'' @ name r @ ''.log''), CHR ''a'', True)]"
      "step_events (trace w2) = step_events (trace w1)
         @ [Utcnow, Open (log_path env (log_directory r) (Suc (clock_reads w)) (''_'' @ name r @ ''.log'')) (CHR ''a'') True,
            Popen (patch_cmd r)]"
    by (auto simp: outcome_0)
  from logged_step_views [of env "package_version_cmd r" w2 out3 0 s3 "log_directory r"
      "''_package_versions_post-patch.log''"] assms(5,8) f2
  obtain w3 where 3: "(case datetime_now_utc env w2 of (ts, w1) \<Rightarrow>
        execute env (package_version_cmd r)
          (path_join (log_directory r) (ts @ ''_package_versions_post-patch.log'')) w1)
      = (Inr (), w3)"
    and f3: "console w3 = console w2 @ out3"
      "dom (files w3) = insert (log_path env (log_directory r) (Suc (Suc (clock_reads w))) ''_package_versions_post-patch.log'') (dom (files w2))"
      "spawned (trace w3) = spawned (trace w2) @ [package_version_cmd r]"
      "opens (trace w3) = opens (trace w2)
         @ [(log_path env (log_directory r) (Suc (Suc (clock_reads w))) ''_package_versions_post-patch.log'', CHR ''a'', True)]"
      "step_events (trace w3) = step_events (trace w2)
         @ [Utcnow, Open (log_path env (log_directory r) (Suc (Suc (clock_reads w))) ''_package_versions_post-patch.log'') (CHR ''a'') True,
            Popen (package_version_cmd r)]"
    by (auto simp: outcome_0)
  have "exec_recipe env r w = (Inr (), w3)"
    unfolding exec_recipe_def Let_def using assms(1,2)
    by (simp only: 1 2 3 if_True and_then_Inr)
  with f1 f2 f3 show ?thesis
    by auto
qed

lemma exec_recipe_nothing_logged:
  assumes "\<not> log_package_version_cmd r" and "\<not> log_patch_cmd r"
    and "shell env (patch_cmd r) (sys w) = (out, rc, s')"
  shows "fst (exec_recipe env r w) = outcome rc (patch_cmd r)
       \<and> console (snd (exec_recipe env r w)) = console w @ out
       \<and> files (snd (exec_recipe env r w)) = files w
       \<and> opens (trace (snd (exec_recipe env r w))) = opens (trace w)
       \<and> spawned (trace (snd (exec_recipe env r w))) = spawned (trace w) @ [patch_cmd r]"
proof -
  let ?w0 = "logger_log INFO (''Executing recipe: '' @ name r) w"
  have w0: "sys ?w0 = sys w" "console ?w0 = console w"
    "files ?w0 = files w" "spawned (trace ?w0) = spawned (trace w)"
    "opens (trace ?w0) = opens (trace w)"
    by (simp_all add: logger_log_def emit_def spawned_def opens_def)
  have s: "shell env (patch_cmd r) (sys ?w0) = (out, rc, s')"
    using assms(3) w0 by simp
  from execute_console [OF s] w0
  obtain w1 where 1: "execute env (patch_cmd r) [] ?w0 = (outcome rc (patch_cmd r), w1)"
    and f1: "console w1 = console w @ out" "files w1 = files w"
      "opens (trace w1) = opens (trace w)"
      "spawned (trace w1) = spawned (trace w) @ [patch_cmd r]"
    by (simp add: spawned_append spawned_console_run opens_append opens_console_run)
  have "exec_recipe env r w = and_then (outcome rc (patch_cmd r), w1) (\<lambda>w. (Inr (), w))"
    unfolding exec_recipe_def Let_def using assms(1,2)
    by (simp only: 1 if_False and_then_Inr)
  then have "exec_recipe env r w = (outcome rc (patch_cmd r), w1)"
    by (cases "rc = 0") (simp_all add: outcome_def and_then_Inr and_then_Inl)
  with f1 show ?thesis
    by simp
qed


lemma pkgptch_logged_step_views:
  assumes "shell env cmd (sys w) = (out, rc, s')"
    and "openable env (pkgptch_log_path env (clock_reads w) sfx)"
    and "sfx \<noteq> []"
  shows "\<exists>w'. (case pkgptch_datetime_now env w of (datetime_now, w1) \<Rightarrow>
                 pkgptch_execute env cmd (datetime_now @ sfx) w1) = (outcome rc cmd, w')
          \<and> sys w' = s' \<and> clock_reads w' = Suc (clock_reads w)
          \<and> opens (trace w') = opens (trace w) @ [(pkgptch_log_path env (clock_reads w) sfx, CHR ''w'', True)]
          \<and> step_events (trace w') = step_events (trace w)
               @ [Now, Open (pkgptch_log_path env (clock_reads w) sfx) (CHR ''w'') True, Popen cmd]"
proof -
  from pkgptch_logged_step [OF assms] obtain w' where
    "(case pkgptch_datetime_now env w of (datetime_now, w1) \<Rightarrow>
         pkgptch_execute env cmd (datetime_now @ sfx) w1) = (outcome rc cmd, w')"
    "sys w' = s'" "clock_reads w' = Suc (clock_reads w)"
    "trace w' = trace w @ Now # Open (pkgptch_log_path env (clock_reads w) sfx) (CHR ''w'') True
        # Popen cmd
        # concat (map (\<lambda>l. [Readline l, Print l, Write (pkgptch_log_path env (clock_reads w) sfx) l])
             (iter_readline out))
        @ [Readline [], StdoutClose, Wait rc, Close (pkgptch_log_path env (clock_reads w) sfx)]"
    by blast
  moreover have "step_events [Now] = [Now]" "opens [Now] = []"
    by (simp_all add: step_events_def opens_def)
  ultimately show ?thesis
    using opens_append [of "[Now]"] step_events_append [of "[Now]"]
    by (intro exI [of _ w'])
      (simp add: opens_append opens_file_run step_events_append step_events_file_run)
qed

lemma pkgptch_exec_recipe_all_logged:
  assumes "log_package_version_cmd r" and "log_patch_cmd r"
    and "shell env (package_version_cmd r) (sys w) = (out1, 0, s1)"
    and "shell env (patch_cmd r) s1 = (out2, 0, s2)"
    and "shell env (package_version_cmd r) s2 = (out3, 0, s3)"
    and "openable env (pkgptch_log_path env (clock_reads w) ''_package_versions_pre-patch.log'')"
    and "openable env (pkgptch_log_path env (Suc (clock_reads w)) (''_'' @ name r @ ''.log''))"
    and "openable env (pkgptch_log_path env (Suc (Suc (clock_reads w))) ''_package_versions_post-patch.log'')"
  shows "fst (pkgptch_exec_recipe env r w) = Inr ()
       \<and> opens (trace (snd (pkgptch_exec_recipe env r w)))
           = opens (trace w) @
             [(pkgptch_log_path env (clock_reads w) ''_package_versions_pre-patch.log'', CHR ''w'', True),
              (pkgptch_log_path env (Suc (clock_reads w)) (''_'' @ name r @ ''.log''), CHR ''w'', True),
              (pkgptch_log_path env (Suc (Suc (clock_reads w))) ''_package_versions_post-patch.log'', CHR ''w'', True)]
       \<and> step_events (trace (snd (pkgptch_exec_recipe env r w)))
           = step_events (trace w) @
             [Now,
              Open (pkgptch_log_path env (clock_reads w) ''_package_versions_pre-patch.log'') (CHR ''w'') True,
              Popen (package_version_cmd r),
              Now,
              Open (pkgptch_log_path env (Suc (clock_reads w)) (''_'' @ name r @ ''.log'')) (CHR ''w'') True,
              Popen (patch_cmd r),
              Now,
              Open (pkgptch_log_path env (Suc (Suc (clock_reads w))) ''_package_versions_post-patch.log'') (CHR ''w'') True,
              Popen (package_version_cmd r)]"
proof -
  let ?w0 = "logger_log INFO (''Executing recipe: '' @ name r) w"
  have w0: "sys ?w0 = sys w" "clock_reads ?w0 = clock_reads w"
    "opens (trace ?w0) = opens (trace w)" "step_events (trace ?w0) = step_events (trace w)"
    by (simp_all add: logger_log_def emit_def opens_def step_events_def)
  from pkgptch_logged_step_views [of env "package_version_cmd r" ?w0 out1 0 s1
      "''_package_versions_pre-patch.log''"] assms(3,6) w0
  obtain w1 where 1: "(case pkgptch_datetime_now env ?w0 of (datetime_now, w1) \<Rightarrow>
        pkgptch_execute env (package_version_cmd r)
          (datetime_now @ ''_package_versions_pre-patch.log'') w1)
      = (Inr (), w1)"
    and f1: "sys w1 = s1" "clock_reads w1 = Suc (clock_reads w)"
      "opens (trace w1) = opens (trace w)
         @ [(pkgptch_log_path env (clock_reads w) ''_package_versions_pre-patch.log'', CHR ''w'', True)]"
      "step_events (trace w1) = step_events (trace w)
         @ [Now, Open (pkgptch_log_path env (clock_reads w) ''_package_versions_pre-patch.log'') (CHR ''w'') True,
            Popen (package_version_cmd r)]"
    by (auto simp: outcome_0)
  have ne: "''_'' @ name r @ ''.log'' \<noteq> []"
    by simp
  from pkgptch_logged_step_views [of env "patch_cmd r" w1 out2 0 s2 "''_'' @ name r @ ''.log''"]
    assms(4,7) f1 ne
  obtain w2 where 2: "(case pkgptch_datetime_now env w1 of (datetime_now, w1) \<Rightarrow>
        pkgptch_execute env (patch_cmd r) (datetime_now @ ''_'' @ name r @ ''.log'') w1)
      = (Inr (), w2)"
    and f2: "sys w2 = s2" "clock_reads w2 = Suc (Suc (clock_reads w))"
      "opens (trace w2) = opens (trace w1)
         @ [(pkgptch_log_path env (Suc (clock_reads w)) (''_'' @ name r @ ''.log''), CHR ''w'', True)]"
      "step_events (trace w2) = step_events (trace w1)
         @ [Now, Open (pkgptch_log_path env (Suc (clock_reads w)) (''_'' @ name r @ ''.log'')) (CHR ''w'') True,
            Popen (patch_cmd r)]"
    by (auto simp: outcome_0)
  from pkgptch_logged_step_views [of env "package_version_cmd r" w2 out3 0 s3
      "''_package_versions_post-patch.log''"] assms(5,8) f2
  obtain w3 where 3: "(case pkgptch_datetime_now env w2 of (datetime_now, w1) \<Rightarrow>
        pkgptch_execute env (package_version_cmd r)
          (datetime_now @ ''_package_versions_post-patch.log'') w1)
      = (Inr (), w3)"
    and f3: "opens (trace w3) = opens (trace w2)
         @ [(pkgptch_log_path env (Suc (Suc (clock_reads w))) ''_package_versions_post-patch.log'', CHR ''w'', True)]"
      "step_events (trace w3) = step_events (trace w2)
         @ [Now, Open (pkgptch_log_path env (Suc (Suc (clock_reads w))) ''_package_versions_post-patch.log'') (CHR ''w'') True,
            Popen (package_version_cmd r)]"
    by (auto simp: outcome_0)
  have "pkgptch_exec_recipe env r w = (Inr (), w3)"
    unfolding pkgptch_exec_recipe_def Let_def using assms(1,2)
    by (simp only: 1 2 3 if_True and_then_Inr)
  with f1 f2 f3 show ?thesis
    by auto
qed

text \<open>
  C5, for \<^verbatim>\<open>logpatch.py\<close>. With both flags set and every command succeeding,
  \<^verbatim>\<open>exec_recipe\<close> opens exactly three log files, all joined to \<^verbatim>\<open>log_directory\<close>, with
  the suffixes \<^verbatim>\<open>package_versions_pre-patch\<close>, the recipe's name and
  \<^verbatim>\<open>package_versions_post-patch\<close>, in this order, and these are the files it adds.
  With both flags unset it opens no file, leaves the files as they are and starts
  exactly one process, the patch command.
\<close>

theorem exec_recipe_log_files:
  "(log_package_version_cmd r \<and> log_patch_cmd r
      \<and> shell env (package_version_cmd r) (sys w) = (out1, 0, s1)
      \<and> shell env (patch_cmd r) s1 = (out2, 0, s2)
      \<and> shell env (package_version_cmd r) s2 = (out3, 0, s3)
      \<and> openable env (log_path env (log_directory r) (clock_reads w) ''_package_versions_pre-patch.log'')
      \<and> openable env (log_path env (log_directory r) (Suc (clock_reads w)) (''_'' @ name r @ ''.log''))
      \<and> openable env (log_path env (log_directory r) (Suc (Suc (clock_reads w))) ''_package_versions_post-patch.log'')
    \<longrightarrow> fst (exec_recipe env r w) = Inr ()
      \<and> opens (trace (snd (exec_recipe env r w)))
          = opens (trace w) @
            [(log_path env (log_directory r) (clock_reads w) ''_package_versions_pre-patch.log'', CHR ''a'', True),
             (log_path env (log_directory r) (Suc (clock_reads w)) (''_'' @ name r @ ''.log''), CHR ''a'', True),
             (log_path env (log_directory r) (Suc (Suc (clock_reads w))) ''_package_versions_post-patch.log'', CHR ''a'', True)]
      \<and> dom (files (snd (exec_recipe env r w))) = dom (files w) \<union>
          {log_path env (log_directory r) (clock_reads w) ''_package_versions_pre-patch.log'',
           log_path env (log_directory r) (Suc (clock_reads w)) (''_'' @ name r @ ''.log''),
           log_path env (log_directory r) (Suc (Suc (clock_reads w))) ''_package_versions_post-patch.log''})
 \<and> (\<not> log_package_version_cmd r \<and> \<not> log_patch_cmd r
      \<and> shell env (patch_cmd r) (sys w) = (out, rc, s')
    \<longrightarrow> opens (trace (snd (exec_recipe env r w))) = opens (trace w)
      \<and> files (snd (exec_recipe env r w)) = files w
      \<and> spawned (trace (snd (exec_recipe env r w))) = spawned (trace w) @ [patch_cmd r])
 \<and> log_path env (log_directory r) k sfx
      = path_join (log_directory r) (strftime ''%Y%m%dT%H%M%S.%fZ'' (utc_clock env k) @ sfx)"
  using exec_recipe_all_logged [of r env w out1 s1 out2 s2 out3 s3]
    exec_recipe_nothing_logged [of r env w out rc s']
  by (simp add: log_path_def)

theorem exec_recipe_log_files_witness:
  "fst (exec_recipe demo_env demo_recipe demo_world) = Inr ()
   \<and> opens (trace (snd (exec_recipe demo_env demo_recipe demo_world)))
      = [(''/tmp/logs/20221231T235958.000100Z_package_versions_pre-patch.log'', CHR ''a'', True),
         (''/tmp/logs/20221231T235958.000101Z_demo.log'', CHR ''a'', True),
         (''/tmp/logs/20221231T235958.000102Z_package_versions_post-patch.log'', CHR ''a'', True)]
   \<and> spawned (trace (snd (exec_recipe demo_env
        (demo_recipe\<lparr>log_package_version_cmd := False, log_patch_cmd := False\<rparr>) demo_world)))
      = [''echo patched'']"
proof -
  let ?r2 = "demo_recipe\<lparr>log_package_version_cmd := False, log_patch_cmd := False\<rparr>"
  have w: "sys demo_world = 0" "clock_reads demo_world = 0" "opens (trace demo_world) = []"
    "spawned (trace demo_world) = []"
    by (simp_all add: demo_world_def opens_def spawned_def)
  have r: "log_package_version_cmd demo_recipe" "log_patch_cmd demo_recipe"
    "package_version_cmd demo_recipe = ''echo v1''" "patch_cmd demo_recipe = ''echo patched''"
    "log_directory demo_recipe = ''/tmp/logs''" "name demo_recipe = ''demo''"
    by (simp_all add: demo_recipe_def)
  have r2: "\<not> log_package_version_cmd ?r2" "\<not> log_patch_cmd ?r2" "patch_cmd ?r2 = ''echo patched''"
    by (simp_all add: demo_recipe_def)
  have sh: "shell demo_env ''echo v1'' 0 = (concat [''v1'' @ [newline]], 0, 0)"
    "shell demo_env ''echo patched'' 0 = (concat [''patched'' @ [newline]], 0, Suc 0)"
    "shell demo_env ''echo v1'' (Suc 0) = (concat [''v1'' @ [newline]], 0, Suc 0)"
    by (simp_all add: demo_env_def demo_shell_def)
  have o: "openable demo_env (log_path demo_env ''/tmp/logs'' 0 ''_package_versions_pre-patch.log'')"
    "openable demo_env (log_path demo_env ''/tmp/logs'' (Suc 0) (''_'' @ ''demo'' @ ''.log''))"
    "openable demo_env (log_path demo_env ''/tmp/logs'' (Suc (Suc 0)) ''_package_versions_post-patch.log'')"
    unfolding demo_log_path by (simp_all add: demo_env_def)
  note a = exec_recipe_log_files [of demo_recipe demo_env demo_world
      "concat [''v1'' @ [newline]]" 0 "concat [''patched'' @ [newline]]" "Suc 0"
      "concat [''v1'' @ [newline]]" "Suc 0"]
  note b = exec_recipe_log_files [of ?r2 demo_env demo_world _ _ _ _ _ _
      "concat [''patched'' @ [newline]]" 0 "Suc 0"]
  have a1: "fst (exec_recipe demo_env demo_recipe demo_world) = Inr ()
      \<and> opens (trace (snd (exec_recipe demo_env demo_recipe demo_world)))
         = [(log_path demo_env ''/tmp/logs'' 0 ''_package_versions_pre-patch.log'', CHR ''a'', True),
            (log_path demo_env ''/tmp/logs'' (Suc 0) (''_'' @ ''demo'' @ ''.log''), CHR ''a'', True),
            (log_path demo_env ''/tmp/logs'' (Suc (Suc 0)) ''_package_versions_post-patch.log'', CHR ''a'', True)]"
    using a [THEN conjunct1] r sh o w by simp
  have b1: "spawned (trace (snd (exec_recipe demo_env ?r2 demo_world))) = [''echo patched'']"
    using b [THEN conjunct2, THEN conjunct1] r2 sh w by simp
  from a1 b1 show ?thesis
    unfolding demo_log_path by simp
qed

text \<open>
  C5, for \<^verbatim>\<open>pkgptch.py\<close>: the three log files of the example recipe are opened in
  the working directory and not in its \<^verbatim>\<open>log_directory\<close>.
\<close>

theorem pkgptch_exec_recipe_ignores_log_directory:
  "log_directory demo_recipe = ''/tmp/logs''
   \<and> opens (trace (snd (pkgptch_exec_recipe demo_env demo_recipe demo_world)))
      = [(''20230101T125958Z_package_versions_pre-patch.log'', CHR ''w'', True),
         (''20230101T125958Z_demo.log'', CHR ''w'', True),
         (''20230101T125958Z_package_versions_post-patch.log'', CHR ''w'', True)]"
proof -
  have w: "sys demo_world = 0" "clock_reads demo_world = 0" "opens (trace demo_world) = []"
    by (simp_all add: demo_world_def opens_def)
  have r: "log_package_version_cmd demo_recipe" "log_patch_cmd demo_recipe"
    "package_version_cmd demo_recipe = ''echo v1''" "patch_cmd demo_recipe = ''echo patched''"
    "log_directory demo_recipe = ''/tmp/logs''" "name demo_recipe = ''demo''"
    by (simp_all add: demo_recipe_def)
  have sh: "shell demo_env ''echo v1'' 0 = (concat [''v1'' @ [newline]], 0, 0)"
    "shell demo_env ''echo patched'' 0 = (concat [''patched'' @ [newline]], 0, Suc 0)"
    "shell demo_env ''echo v1'' (Suc 0) = (concat [''v1'' @ [newline]], 0, Suc 0)"
    by (simp_all add: demo_env_def demo_shell_def)
  have o: "openable demo_env (pkgptch_log_path demo_env 0 ''_package_versions_pre-patch.log'')"
    "openable demo_env (pkgptch_log_path demo_env (Suc 0) (''_'' @ ''demo'' @ ''.log''))"
    "openable demo_env (pkgptch_log_path demo_env (Suc (Suc 0)) ''_package_versions_post-patch.log'')"
    unfolding demo_pkgptch_log_path by (simp_all add: demo_env_def)
  from pkgptch_exec_recipe_all_logged [of demo_recipe demo_env demo_world
      "concat [''v1'' @ [newline]]" 0 "concat [''patched'' @ [newline]]" "Suc 0"
      "concat [''v1'' @ [newline]]" "Suc 0"] r sh o w
  show ?thesis
    by (simp add: demo_pkgptch_log_path)
qed

subsection \<open>The timestamp of a log file\<close>

lemma length_zero_padded: "length (zero_padded k n) = k"
  by (simp add: zero_padded_def)

lemma zero_padded_Suc:
  "zero_padded (Suc k) n = (''0123456789'' ! (n div 10 ^ k mod 10)) # zero_padded k n"
  by (simp add: zero_padded_def)

lemma digit_cases:
  assumes "d < (10::nat)"
  shows "d = 0 \<or> d = 1 \<or> d = 2 \<or> d = 3 \<or> d = 4 \<or> d = 5 \<or> d = 6 \<or> d = 7 \<or> d = 8 \<or> d = 9"
  using assms by arith

lemma digit_value: "d < 10 \<Longrightarrow> of_char (''0123456789'' ! d) - 48 = (d::nat)"
  using digit_cases [of d] by auto

lemma digit_is_digit: "d < 10 \<Longrightarrow> is_digit (''0123456789'' ! d)"
  using digit_cases [of d] by (auto simp: is_digit_def)

lemma zero_padded_digits: "list_all is_digit (zero_padded k n)"
  by (induction k) (simp_all add: zero_padded_Suc digit_is_digit, simp add: zero_padded_def)

lemma foldl_decimal:
  "foldl (\<lambda>a c. 10 * a + v c) a s
     = a * 10 ^ length s + foldl (\<lambda>a c. 10 * a + v c) (0::nat) s"
proof (induction s arbitrary: a rule: rev_induct)
  case Nil
  show ?case by simp
next
  case (snoc x xs)
  have "foldl (\<lambda>a c. 10 * a + v c) a (xs @ [x])
      = 10 * foldl (\<lambda>a c. 10 * a + v c) a xs + v x"
    by simp
  also have "\<dots> = 10 * (a * 10 ^ length xs + foldl (\<lambda>a c. 10 * a + v c) 0 xs) + v x"
    by (simp only: snoc.IH [of a])
  also have "\<dots> = a * 10 ^ length (xs @ [x]) + foldl (\<lambda>a c. 10 * a + v c) 0 (xs @ [x])"
    by (simp add: distrib_left)
  finally show ?case .
qed

lemma read_nat_Cons: "read_nat (c # s) = (of_char c - 48) * 10 ^ length s + read_nat s"
  using foldl_decimal [of "\<lambda>c. of_char c - 48" "of_char c - 48" s]
  by (simp add: read_nat_def)

lemma read_nat_zero_padded: "read_nat (zero_padded k n) = n mod 10 ^ k"
proof (induction k)
  case 0
  show ?case by (simp add: zero_padded_def read_nat_def)
next
  case (Suc k)
  have d: "n div 10 ^ k mod 10 < 10"
    by simp
  have "read_nat (zero_padded (Suc k) n)
      = (n div 10 ^ k mod 10) * 10 ^ k + read_nat (zero_padded k n)"
    unfolding zero_padded_Suc read_nat_Cons length_zero_padded digit_value [OF d] ..
  also have "\<dots> = 10 ^ k * (n div 10 ^ k mod 10) + n mod 10 ^ k"
    by (simp only: Suc.IH mult.commute)
  also have "\<dots> = n mod (10 ^ k * 10)"
    by (rule mod_mult2_eq [symmetric])
  finally show ?case
    by (simp only: power_Suc mult.commute)
qed

lemma read_nat_zero_padded_id: "n < 10 ^ k \<Longrightarrow> read_nat (zero_padded k n) = n"
  by (simp add: read_nat_zero_padded)

lemma strftime_logpatch_format:
  assumes "valid_datetime dt"
  shows "length (strftime ''%Y%m%dT%H%M%S.%fZ'' dt) = 23
       \<and> list_all is_digit (take 8 (strftime ''%Y%m%dT%H%M%S.%fZ'' dt))
       \<and> strftime ''%Y%m%dT%H%M%S.%fZ'' dt ! 8 = CHR ''T''
       \<and> list_all is_digit (take 6 (drop 9 (strftime ''%Y%m%dT%H%M%S.%fZ'' dt)))
       \<and> strftime ''%Y%m%dT%H%M%S.%fZ'' dt ! 15 = CHR ''.''
       \<and> list_all is_digit (take 6 (drop 16 (strftime ''%Y%m%dT%H%M%S.%fZ'' dt)))
       \<and> strftime ''%Y%m%dT%H%M%S.%fZ'' dt ! 22 = CHR ''Z''
       \<and> read_nat (take 4 (strftime ''%Y%m%dT%H%M%S.%fZ'' dt)) = year dt
       \<and> read_nat (take 2 (drop 4 (strftime ''%Y%m%dT%H%M%S.%fZ'' dt))) = month dt
       \<and> read_nat (take 2 (drop 6 (strftime ''%Y%m%dT%H%M%S.%fZ'' dt))) = day dt
       \<and> read_nat (take 2 (drop 9 (strftime ''%Y%m%dT%H%M%S.%fZ'' dt))) = hour dt
       \<and> read_nat (take 2 (drop 11 (strftime ''%Y%m%dT%H%M%S.%fZ'' dt))) = minute dt
       \<and> read_nat (take 2 (drop 13 (strftime ''%Y%m%dT%H%M%S.%fZ'' dt))) = second dt
       \<and> read_nat (take 6 (drop 16 (strftime ''%Y%m%dT%H%M%S.%fZ'' dt))) = microsecond dt"
proof -
  have r: "read_nat (zero_padded 4 (year dt)) = year dt"
    "read_nat (zero_padded 2 (month dt)) = month dt"
    "read_nat (zero_padded 2 (day dt)) = day dt"
    "read_nat (zero_padded 2 (hour dt)) = hour dt"
    "read_nat (zero_padded 2 (minute dt)) = minute dt"
    "read_nat (zero_padded 2 (second dt)) = second dt"
    "read_nat (zero_padded 6 (microsecond dt)) = microsecond dt"
    using assms by (simp_all add: valid_datetime_def read_nat_zero_padded_id)
  show ?thesis
    unfolding strftime_logpatch
    by (simp add: length_zero_padded nth_append r zero_padded_digits)
qed


text \<open>
  C6, for \<^verbatim>\<open>logpatch.py\<close>. Every logged step reads the UTC clock anew, directly
  before it opens its log file and starts its command, and names the file after that
  reading. For a \<^verbatim>\<open>datetime\<close> with four-digit year the timestamp has 23 characters:
  eight digits (year, month, day), \<^verbatim>\<open>T\<close>, six digits (hour, minute, second), a dot,
  six digits (the microseconds) and \<^verbatim>\<open>Z\<close>; every field can be read back from it.
\<close>

theorem exec_recipe_timestamps:
  "(log_package_version_cmd r \<and> log_patch_cmd r
      \<and> shell env (package_version_cmd r) (sys w) = (out1, 0, s1)
      \<and> shell env (patch_cmd r) s1 = (out2, 0, s2)
      \<and> shell env (package_version_cmd r) s2 = (out3, 0, s3)
      \<and> openable env (log_path env (log_directory r) (clock_reads w) ''_package_versions_pre-patch.log'')
      \<and> openable env (log_path env (log_directory r) (Suc (clock_reads w)) (''_'' @ name r @ ''.log''))
      \<and> openable env (log_path env (log_directory r) (Suc (Suc (clock_reads w))) ''_package_versions_post-patch.log'')
    \<longrightarrow> step_events (trace (snd (exec_recipe env r w)))
          = step_events (trace w) @
            [Utcnow,
             Open (log_path env (log_directory r) (clock_reads w) ''_package_versions_pre-patch.log'') (CHR ''a'') True,
             Popen (package_version_cmd r),
             Utcnow,
             Open (log_path env (log_directory r) (Suc (clock_reads w)) (''_'' @ name r @ ''.log'')) (CHR ''a'') True,
             Popen (patch_cmd r),
             Utcnow,
             Open (log_path env (log_directory r) (Suc (Suc (clock_reads w))) ''_package_versions_post-patch.log'') (CHR ''a'') True,
             Popen (package_version_cmd r)])
 \<and> log_path env (log_directory r) k sfx
      = path_join (log_directory r) (strftime ''%Y%m%dT%H%M%S.%fZ'' (utc_clock env k) @ sfx)
 \<and> fst (datetime_now_utc env w) = strftime ''%Y%m%dT%H%M%S.%fZ'' (utc_clock env (clock_reads w))
 \<and> clock_reads (snd (datetime_now_utc env w)) = Suc (clock_reads w)
 \<and> (valid_datetime dt \<longrightarrow>
       length (strftime ''%Y%m%dT%H%M%S.%fZ'' dt) = 23
     \<and> list_all is_digit (take 8 (strftime ''%Y%m%dT%H%M%S.%fZ'' dt))
     \<and> strftime ''%Y%m%dT%H%M%S.%fZ'' dt ! 8 = CHR ''T''
     \<and> list_all is_digit (take 6 (drop 9 (strftime ''%Y%m%dT%H%M%S.%fZ'' dt)))
     \<and> strftime ''%Y%m%dT%H%M%S.%fZ'' dt ! 15 = CHR ''.''
     \<and> list_all is_digit (take 6 (drop 16 (strftime ''%Y%m%dT%H%M%S.%fZ'' dt)))
     \<and> strftime ''%Y%m%dT%H%M%S.%fZ'' dt ! 22 = CHR ''Z''
     \<and> read_nat (take 4 (strftime ''%Y%m%dT%H%M%S.%fZ'' dt)) = year dt
     \<and> read_nat (take 2 (drop 4 (strftime ''%Y%m%dT%H%M%S.%fZ'' dt))) = month dt
     \<and> read_nat (take 2 (drop 6 (strftime ''%Y%m%dT%H%M%S.%fZ'' dt))) = day dt
     \<and> read_nat (take 2 (drop 9 (strftime ''%Y%m%dT%H%M%S.%fZ'' dt))) = hour dt
     \<and> read_nat (take 2 (drop 11 (strftime ''%Y%m%dT%H%M%S.%fZ'' dt))) = minute dt
     \<and> read_nat (take 2 (drop 13 (strftime ''%Y%m%dT%H%M%S.%fZ'' dt))) = second dt
     \<and> read_nat (take 6 (drop 16 (strftime ''%Y%m%dT%H%M%S.%fZ'' dt))) = microsecond dt)"
proof -
  have a: "log_path env (log_directory r) k sfx
      = path_join (log_directory r) (strftime ''%Y%m%dT%H%M%S.%fZ'' (utc_clock env k) @ sfx)"
    by (simp only: log_path_def)
  have b: "fst (datetime_now_utc env w) = strftime ''%Y%m%dT%H%M%S.%fZ'' (utc_clock env (clock_reads w))"
    "clock_reads (snd (datetime_now_utc env w)) = Suc (clock_reads w)"
    by (simp_all add: datetime_now_utc_def emit_def)
  from exec_recipe_all_logged [of r env w out1 s1 out2 s2 out3 s3] a b
    strftime_logpatch_format [of dt]
  show ?thesis
    by blast
qed

theorem exec_recipe_timestamps_witness:
  "valid_datetime (utc_clock demo_env 0)
   \<and> strftime ''%Y%m%dT%H%M%S.%fZ'' (utc_clock demo_env 0) = ''20221231T235958.000100Z''
   \<and> read_nat (take 6 (drop 16 (strftime ''%Y%m%dT%H%M%S.%fZ'' (utc_clock demo_env 0)))) = 100
   \<and> step_events (trace (snd (exec_recipe demo_env demo_recipe demo_world)))
      = [Utcnow,
         Open ''/tmp/logs/20221231T235958.000100Z_package_versions_pre-patch.log'' (CHR ''a'') True,
         Popen ''echo v1'',
         Utcnow,
         Open ''/tmp/logs/20221231T235958.000101Z_demo.log'' (CHR ''a'') True,
         Popen ''echo patched'',
         Utcnow,
         Open ''/tmp/logs/20221231T235958.000102Z_package_versions_post-patch.log'' (CHR ''a'') True,
         Popen ''echo v1'']"
proof -
  have v: "valid_datetime (utc_clock demo_env 0)"
    by (simp add: valid_datetime_def demo_env_def)
  have t: "strftime ''%Y%m%dT%H%M%S.%fZ'' (utc_clock demo_env 0) = ''20221231T235958.000100Z''"
    by (simp add: demo_env_def directive_def zero_padded_2 zero_padded_4 zero_padded_6)
  have m: "microsecond (utc_clock demo_env 0) = 100"
    by (simp add: demo_env_def)
  have w: "sys demo_world = 0" "clock_reads demo_world = 0" "step_events (trace demo_world) = []"
    by (simp_all add: demo_world_def step_events_def)
  have r: "log_package_version_cmd demo_recipe" "log_patch_cmd demo_recipe"
    "package_version_cmd demo_recipe = ''echo v1''" "patch_cmd demo_recipe = ''echo patched''"
    "log_directory demo_recipe = ''/tmp/logs''" "name demo_recipe = ''demo''"
    by (simp_all add: demo_recipe_def)
  have sh: "shell demo_env ''echo v1'' 0 = (concat [''v1'' @ [newline]], 0, 0)"
    "shell demo_env ''echo patched'' 0 = (concat [''patched'' @ [newline]], 0, Suc 0)"
    "shell demo_env ''echo v1'' (Suc 0) = (concat [''v1'' @ [newline]], 0, Suc 0)"
    by (simp_all add: demo_env_def demo_shell_def)
  have o: "openable demo_env (log_path demo_env ''/tmp/logs'' 0 ''_package_versions_pre-patch.log'')"
    "openable demo_env (log_path demo_env ''/tmp/logs'' (Suc 0) (''_'' @ ''demo'' @ ''.log''))"
    "openable demo_env (log_path demo_env ''/tmp/logs'' (Suc (Suc 0)) ''_package_versions_post-patch.log'')"
    unfolding demo_log_path by (simp_all add: demo_env_def)
  note a = exec_recipe_timestamps [of demo_recipe demo_env demo_world
      "concat [''v1'' @ [newline]]" 0 "concat [''patched'' @ [newline]]" "Suc 0"
      "concat [''v1'' @ [newline]]" "Suc 0" _ _ "utc_clock demo_env 0"]
  have 1: "step_events (trace (snd (exec_recipe demo_env demo_recipe demo_world)))
      = [Utcnow,
         Open (log_path demo_env ''/tmp/logs'' 0 ''_package_versions_pre-patch.log'') (CHR ''a'') True,
         Popen ''echo v1'',
         Utcnow,
         Open (log_path demo_env ''/tmp/logs'' (Suc 0) (''_'' @ ''demo'' @ ''.log'')) (CHR ''a'') True,
         Popen ''echo patched'',
         Utcnow,
         Open (log_path demo_env ''/tmp/logs'' (Suc (Suc 0)) ''_package_versions_post-patch.log'') (CHR ''a'') True,
         Popen ''echo v1'']"
    using a [THEN conjunct1] r sh o w by simp
  have 2: "read_nat (take 6 (drop 16 (strftime ''%Y%m%dT%H%M%S.%fZ'' (utc_clock demo_env 0)))) = 100"
    using a [THEN conjunct2, THEN conjunct2, THEN conjunct2, THEN conjunct2] v m by simp
  from 1 2 v t show ?thesis
    unfolding demo_log_path by simp
qed

text \<open>
  C6, for \<^verbatim>\<open>pkgptch.py\<close>: the timestamp is a reading of the local clock, rendered to
  the second and followed by \<^verbatim>\<open>Z\<close>. On the small host, where the UTC clock shows
  2022-12-31 23:59:58.000100, the three log files of the example recipe all carry
  \<^verbatim>\<open>20230101T125958Z\<close>.
\<close>

theorem pkgptch_timestamp_is_local_to_the_second:
  "fst (datetime_now_utc demo_env demo_world) = ''20221231T235958.000100Z''
   \<and> fst (pkgptch_datetime_now demo_env demo_world) = ''20230101T125958Z''
   \<and> step_events (trace (snd (pkgptch_exec_recipe demo_env demo_recipe demo_world)))
      = [Now,
         Open ''20230101T125958Z_package_versions_pre-patch.log'' (CHR ''w'') True,
         Popen ''echo v1'',
         Now,
         Open ''20230101T125958Z_demo.log'' (CHR ''w'') True,
         Popen ''echo patched'',
         Now,
         Open ''20230101T125958Z_package_versions_post-patch.log'' (CHR ''w'') True,
         Popen ''echo v1'']"
proof -
  have t: "fst (datetime_now_utc demo_env demo_world) = ''20221231T235958.000100Z''"
    "fst (pkgptch_datetime_now demo_env demo_world) = ''20230101T125958Z''"
    by (simp_all add: datetime_now_utc_def pkgptch_datetime_now_def demo_env_def demo_world_def
        directive_def zero_padded_2 zero_padded_4 zero_padded_6)
  have w: "sys demo_world = 0" "clock_reads demo_world = 0" "step_events (trace demo_world) = []"
    by (simp_all add: demo_world_def step_events_def)
  have r: "log_package_version_cmd demo_recipe" "log_patch_cmd demo_recipe"
    "package_version_cmd demo_recipe = ''echo v1''" "patch_cmd demo_recipe = ''echo patched''"
    "name demo_recipe = ''demo''"
    by (simp_all add: demo_recipe_def)
  have sh: "shell demo_env ''echo v1'' 0 = (concat [''v1'' @ [newline]], 0, 0)"
    "shell demo_env ''echo patched'' 0 = (concat [''patched'' @ [newline]], 0, Suc 0)"
    "shell demo_env ''echo v1'' (Suc 0) = (concat [''v1'' @ [newline]], 0, Suc 0)"
    by (simp_all add: demo_env_def demo_shell_def)
  have o: "openable demo_env (pkgptch_log_path demo_env 0 ''_package_versions_pre-patch.log'')"
    "openable demo_env (pkgptch_log_path demo_env (Suc 0) (''_'' @ ''demo'' @ ''.log''))"
    "openable demo_env (pkgptch_log_path demo_env (Suc (Suc 0)) ''_package_versions_post-patch.log'')"
    unfolding demo_pkgptch_log_path by (simp_all add: demo_env_def)
  from pkgptch_exec_recipe_all_logged [of demo_recipe demo_env demo_world
      "concat [''v1'' @ [newline]]" 0 "concat [''patched'' @ [newline]]" "Suc 0"
      "concat [''v1'' @ [newline]]" "Suc 0"] r sh o w t
  show ?thesis
    by (simp add: demo_pkgptch_log_path)
qed

subsection \<open>The schema validator\<close>

lemma schema_entry_schema: "schema = [Type ''object'', AdditionalProperties entry_schema]"
  by (simp add: schema_def entry_schema_def)

lemma iter_errors_Type:
  "iter_errors [Type t] p v = (if is_type v t then [] else [ValidationError p ''type'' t])"
  by (simp add: iter_errors.simps [of "[Type t]"])

lemma iter_errors_schema:
  "iter_errors schema p conf
     = (if is_type conf ''object'' then [] else [ValidationError p ''type'' ''object''])
       @ (case conf of
            JDict kvs \<Rightarrow> concat (map (\<lambda>kv. iter_errors entry_schema (p @ [fst kv]) (snd kv)) (dict_items kvs))
          | _ \<Rightarrow> [])"
  unfolding schema_entry_schema
  by (simp add: iter_errors.simps [of "[Type ''object'', AdditionalProperties entry_schema]"]
      property_names_def split: json.splits)

lemma iter_errors_entry_dict:
  "iter_errors entry_schema p (JDict kvs)
     = field_errors kvs p ''log_directory'' ''string''
       @ field_errors kvs p ''log_package_version_cmd'' ''boolean''
       @ field_errors kvs p ''log_patch_cmd'' ''boolean''
       @ field_errors kvs p ''name'' ''string''
       @ field_errors kvs p ''patch_cmd'' ''string''
       @ field_errors kvs p ''package_version_cmd'' ''string''
       @ missing_errors kvs p ''log_directory''
       @ missing_errors kvs p ''log_package_version_cmd''
       @ missing_errors kvs p ''log_patch_cmd''
       @ missing_errors kvs p ''name''
       @ missing_errors kvs p ''patch_cmd''
       @ missing_errors kvs p ''package_version_cmd''"
  unfolding entry_schema_def
  by (subst iter_errors.simps)
    (simp add: iter_errors_Type field_errors_def missing_errors_def cong: option.case_cong)

lemma iter_errors_entry_other:
  "\<not> is_type v ''object'' \<Longrightarrow> iter_errors entry_schema p v = [ValidationError p ''type'' ''object'']"
  unfolding entry_schema_def
  by (subst iter_errors.simps) (cases v; simp)


lemma field_ok_iff:
  "field_errors kvs p f t = [] \<and> missing_errors kvs p f = []
     \<longleftrightarrow> (\<exists>v. map_of kvs f = Some v \<and> is_type v t)"
  by (auto simp: field_errors_def missing_errors_def split: option.splits)

lemma has_string_iff: "has_string kvs f \<longleftrightarrow> (\<exists>v. map_of kvs f = Some v \<and> is_type v ''string'')"
proof -
  have "is_type v ''string'' \<longleftrightarrow> (\<exists>s. v = JString s)" for v
    by (cases v) simp_all
  then show ?thesis
    by (auto simp: has_string_def split: option.splits json.splits)
qed

lemma has_bool_iff: "has_bool kvs f \<longleftrightarrow> (\<exists>v. map_of kvs f = Some v \<and> is_type v ''boolean'')"
proof -
  have "is_type v ''boolean'' \<longleftrightarrow> (\<exists>b. v = JBool b)" for v
    by (cases v) simp_all
  then show ?thesis
    by (auto simp: has_bool_def split: option.splits json.splits)
qed

lemma entry_errors_iff: "iter_errors entry_schema p v = [] \<longleftrightarrow> spec_entry_ok v"
proof (cases "is_type v ''object''")
  case True
  then obtain kvs where v: "v = JDict kvs"
    by (cases v) simp_all
  have "iter_errors entry_schema p (JDict kvs) = [] \<longleftrightarrow>
      (field_errors kvs p ''log_directory'' ''string'' = [] \<and> missing_errors kvs p ''log_directory'' = [])
    \<and> (field_errors kvs p ''log_package_version_cmd'' ''boolean'' = [] \<and> missing_errors kvs p ''log_package_version_cmd'' = [])
    \<and> (field_errors kvs p ''log_patch_cmd'' ''boolean'' = [] \<and> missing_errors kvs p ''log_patch_cmd'' = [])
    \<and> (field_errors kvs p ''name'' ''string'' = [] \<and> missing_errors kvs p ''name'' = [])
    \<and> (field_errors kvs p ''patch_cmd'' ''string'' = [] \<and> missing_errors kvs p ''patch_cmd'' = [])
    \<and> (field_errors kvs p ''package_version_cmd'' ''string'' = [] \<and> missing_errors kvs p ''package_version_cmd'' = [])"
    unfolding iter_errors_entry_dict append_is_Nil_conv by blast
  also have "\<dots> \<longleftrightarrow> spec_entry_ok (JDict kvs)"
    unfolding field_ok_iff spec_entry_ok_def has_string_iff has_bool_iff json.case
    by (simp only: conj_ac)
  finally show ?thesis
    by (simp only: v)
next
  case False
  then have "\<not> spec_entry_ok v"
    by (cases v) (simp_all add: spec_entry_ok_def)
  with False show ?thesis
    by (simp add: iter_errors_entry_other)
qed

lemma map_of_filter_other:
  "map_of (filter (\<lambda>kv. fst kv \<noteq> k) kvs) k' = (if k' = k then None else map_of kvs k')"
  by (induction kvs) auto

lemma set_dict_items: "(k, v) \<in> set (dict_items kvs) \<longleftrightarrow> map_of kvs k = Some v"
  by (induction kvs arbitrary: k v rule: dict_items.induct) (auto simp: map_of_filter_other)

lemma document_errors_iff: "iter_errors schema [] conf = [] \<longleftrightarrow> spec_document_ok conf"
proof (cases conf)
  case (JDict kvs)
  have "iter_errors schema [] (JDict kvs) = []
      \<longleftrightarrow> (\<forall>kv \<in> set (dict_items kvs). iter_errors entry_schema [fst kv] (snd kv) = [])"
    by (simp add: iter_errors_schema)
  also have "\<dots> \<longleftrightarrow> spec_document_ok (JDict kvs)"
    by (simp add: entry_errors_iff spec_document_ok_def list_all_iff)
  finally show ?thesis
    by (simp only: JDict)
qed (simp_all add: iter_errors_schema spec_document_ok_def)

lemma field_error_path:
  "e \<in> set (field_errors kvs [k] f t) \<Longrightarrow> take 1 (error_path e) = [k]"
  by (auto simp: field_errors_def split: option.splits if_splits)

lemma missing_error_path:
  "e \<in> set (missing_errors kvs [k] f) \<Longrightarrow> take 1 (error_path e) = [k]"
  by (auto simp: missing_errors_def split: if_splits)

lemma entry_error_paths:
  assumes "e \<in> set (iter_errors entry_schema [k] v)"
  shows "take 1 (error_path e) = [k]"
proof (cases "is_type v ''object''")
  case True
  then obtain kvs where v: "v = JDict kvs"
    by (cases v) simp_all
  from assms have "(\<exists>f t. e \<in> set (field_errors kvs [k] f t)) \<or> (\<exists>f. e \<in> set (missing_errors kvs [k] f))"
    unfolding v iter_errors_entry_dict set_append Un_iff by blast
  then show ?thesis
    using field_error_path missing_error_path by blast
next
  case False
  with assms show ?thesis
    by (simp add: iter_errors_entry_other)
qed

lemma bad_entry_is_reported:
  assumes "map_of kvs k = Some v" and "\<not> spec_entry_ok v"
  shows "\<exists>e \<in> set (iter_errors schema [] (JDict kvs)). take 1 (error_path e) = [k]"
proof -
  from assms(2) have "iter_errors entry_schema [k] v \<noteq> []"
    by (simp add: entry_errors_iff)
  then obtain e where e: "e \<in> set (iter_errors entry_schema [k] v)"
    by (cases "iter_errors entry_schema [k] v") auto
  from assms(1) have "(k, v) \<in> set (dict_items kvs)"
    by (simp add: set_dict_items)
  with e have "e \<in> set (iter_errors schema [] (JDict kvs))"
    by (force simp: iter_errors_schema)
  with entry_error_paths [OF e] show ?thesis
    by blast
qed

lemma spec_entry_ok_more:
  assumes "spec_entry_ok (JDict fs)"
  shows "spec_entry_ok (JDict (fs @ extras))"
proof -
  have "map_of (fs @ extras) f = Some v" if "map_of fs f = Some v" for f v
    using that by (simp add: map_add_Some_iff)
  with assms show ?thesis
    unfolding spec_entry_ok_def has_string_iff has_bool_iff json.case by blast
qed


lemma validate_schema_conf_result:
  "fst (validate_schema_conf env conf w) = (if iter_errors schema [] conf = [] then 0 else 1)"
  by (simp add: validate_schema_conf_def Let_def)

lemma validate_schema_conf_valid:
  "spec_document_ok conf \<Longrightarrow> validate_schema_conf env conf w = (0, w)"
  by (simp add: validate_schema_conf_def Let_def document_errors_iff)

lemma trace_foldl_log:
  "trace (foldl (\<lambda>w e. logger_log lvl (f e) w) w es) = trace w @ map (\<lambda>e. Log lvl (f e)) es"
  by (induction es arbitrary: w) (simp_all add: logger_log_def emit_def)

lemma rest_foldl_log:
  "console (foldl (\<lambda>w e. logger_log lvl (f e) w) w es) = console w
   \<and> files (foldl (\<lambda>w e. logger_log lvl (f e) w) w es) = files w"
  by (induction es arbitrary: w) (simp_all add: logger_log_def emit_def)

lemma validate_schema_conf_logs:
  "trace (snd (validate_schema_conf env conf w))
     = trace w @ map (syntax_error env) (iter_errors schema [] conf)"
proof -
  have "syntax_error env = (\<lambda>e. Log ERROR
      (''Syntax error in supplied configuration file (see below for details)''
         @ [newline] @ str_validation_error env e))"
    by (simp add: syntax_error_def fun_eq_iff)
  then show ?thesis
    by (simp add: validate_schema_conf_def Let_def trace_foldl_log)
qed

lemma validate_schema_conf_rest:
  "console (snd (validate_schema_conf env conf w)) = console w
   \<and> files (snd (validate_schema_conf env conf w)) = files w"
  by (simp add: validate_schema_conf_def Let_def rest_foldl_log)

lemma validate_schema_conf_silent_iff:
  "validate_schema_conf env conf w = (0, w) \<longleftrightarrow> spec_document_ok conf"
  using validate_schema_conf_valid [of conf env w] validate_schema_conf_result [of env conf w]
    document_errors_iff [of conf]
  by (cases "spec_document_ok conf") auto

lemma bad_entry_is_logged:
  assumes "map_of kvs k = Some v" and "\<not> spec_entry_ok v"
  shows "\<exists>e. take 1 (error_path e) = [k]
           \<and> syntax_error env e
               \<in> set (drop (length (trace w)) (trace (snd (validate_schema_conf env (JDict kvs) w))))"
  using bad_entry_is_reported [OF assms] by (auto simp: validate_schema_conf_logs)

lemma dict_items_subset: "(k, v) \<in> set (dict_items kvs) \<Longrightarrow> (k, v) \<in> set kvs"
  by (simp add: set_dict_items map_of_SomeD)

lemma extended_entries_ok:
  assumes "list_all (\<lambda>kf. spec_entry_ok (JDict (snd kf))) entries"
  shows "spec_document_ok (JDict (map (\<lambda>kf. (fst kf, JDict (snd kf @ extras (fst kf)))) entries))"
proof -
  have "spec_entry_ok v"
    if "(k, v) \<in> set (dict_items (map (\<lambda>kf. (fst kf, JDict (snd kf @ extras (fst kf)))) entries))"
    for k v
  proof -
    from dict_items_subset [OF that] obtain kf where "kf \<in> set entries"
      and "v = JDict (snd kf @ extras (fst kf))"
      by auto
    with assms spec_entry_ok_more [of "snd kf" "extras (fst kf)"] show ?thesis
      by (auto simp: list_all_iff)
  qed
  then show ?thesis
    by (auto simp: spec_document_ok_def list_all_iff)
qed

text \<open>
  C3. \<^verbatim>\<open>validate_schema_conf\<close> finds no error, returns 0 and logs nothing exactly for
  the documents that are mappings all of whose entries are objects with the six
  properties of the right types; for every other document it returns 1. It reports the
  errors it finds by logging them, one error message per validation error and in their
  order, and does nothing else. For an entry that is not such an object, one of the
  errors logged by the call is an error whose path starts with the entry's key. An entry
  that is such an object stays one whatever further properties it has, and a document
  of such entries has no error, is answered with 0 and nothing is logged.
\<close>

theorem validate_schema_conf_accepts_the_data_model:
  "(iter_errors schema [] conf = [] \<longleftrightarrow> spec_document_ok conf)
 \<and> (fst (validate_schema_conf env conf w) = 0 \<longleftrightarrow> spec_document_ok conf)
 \<and> (\<not> spec_document_ok conf \<longrightarrow> fst (validate_schema_conf env conf w) = 1)
 \<and> (validate_schema_conf env conf w = (0, w) \<longleftrightarrow> spec_document_ok conf)
 \<and> trace (snd (validate_schema_conf env conf w))
      = trace w @ map (syntax_error env) (iter_errors schema [] conf)
 \<and> console (snd (validate_schema_conf env conf w)) = console w
 \<and> files (snd (validate_schema_conf env conf w)) = files w
 \<and> (map_of kvs k = Some v \<and> \<not> spec_entry_ok v \<longrightarrow>
      (\<exists>e \<in> set (iter_errors schema [] (JDict kvs)). take 1 (error_path e) = [k])
    \<and> fst (validate_schema_conf env (JDict kvs) w) = 1
    \<and> (\<exists>e. take 1 (error_path e) = [k]
          \<and> syntax_error env e
              \<in> set (drop (length (trace w)) (trace (snd (validate_schema_conf env (JDict kvs) w))))))
 \<and> (spec_entry_ok (JDict fs) \<longrightarrow>
      spec_entry_ok (JDict (fs @ extras))
    \<and> iter_errors schema [] (JDict [(k, JDict (fs @ extras))]) = []
    \<and> validate_schema_conf env (JDict [(k, JDict (fs @ extras))]) w = (0, w))
 \<and> (list_all (\<lambda>kf. spec_entry_ok (JDict (snd kf))) entries \<longrightarrow>
      validate_schema_conf env
        (JDict (map (\<lambda>kf. (fst kf, JDict (snd kf @ further (fst kf)))) entries)) w = (0, w))"
proof -
  have 1: "iter_errors schema [] conf = [] \<longleftrightarrow> spec_document_ok conf"
    by (rule document_errors_iff)
  have 2: "fst (validate_schema_conf env conf w) = 0 \<longleftrightarrow> spec_document_ok conf"
    by (simp add: validate_schema_conf_result document_errors_iff)
  have 3: "\<not> spec_document_ok conf \<longrightarrow> fst (validate_schema_conf env conf w) = 1"
    by (simp add: validate_schema_conf_result document_errors_iff)
  have 4: "validate_schema_conf env conf w = (0, w) \<longleftrightarrow> spec_document_ok conf"
    by (rule validate_schema_conf_silent_iff)
  have 5: "trace (snd (validate_schema_conf env conf w))
      = trace w @ map (syntax_error env) (iter_errors schema [] conf)"
    by (rule validate_schema_conf_logs)
  have 6: "console (snd (validate_schema_conf env conf w)) = console w"
    "files (snd (validate_schema_conf env conf w)) = files w"
    by (simp_all add: validate_schema_conf_rest)
  have 7: "(\<exists>e \<in> set (iter_errors schema [] (JDict kvs)). take 1 (error_path e) = [k])
    \<and> fst (validate_schema_conf env (JDict kvs) w) = 1
    \<and> (\<exists>e. take 1 (error_path e) = [k]
          \<and> syntax_error env e
              \<in> set (drop (length (trace w)) (trace (snd (validate_schema_conf env (JDict kvs) w)))))"
    if "map_of kvs k = Some v" "\<not> spec_entry_ok v"
  proof -
    from bad_entry_is_reported [OF that]
    have a: "\<exists>e \<in> set (iter_errors schema [] (JDict kvs)). take 1 (error_path e) = [k]" .
    then have "iter_errors schema [] (JDict kvs) \<noteq> []"
      by auto
    then have b: "fst (validate_schema_conf env (JDict kvs) w) = 1"
      by (simp add: validate_schema_conf_result)
    from a b bad_entry_is_logged [OF that, of env w] show ?thesis
      by blast
  qed
  have 8: "spec_entry_ok (JDict (fs @ extras))
    \<and> iter_errors schema [] (JDict [(k, JDict (fs @ extras))]) = []
    \<and> validate_schema_conf env (JDict [(k, JDict (fs @ extras))]) w = (0, w)"
    if "spec_entry_ok (JDict fs)"
  proof -
    from spec_entry_ok_more [OF that, of extras]
    have a: "spec_entry_ok (JDict (fs @ extras))" .
    then have b: "spec_document_ok (JDict [(k, JDict (fs @ extras))])"
      by (simp add: spec_document_ok_def)
    from a b show ?thesis
      by (simp add: document_errors_iff validate_schema_conf_valid)
  qed
  have 9: "validate_schema_conf env
        (JDict (map (\<lambda>kf. (fst kf, JDict (snd kf @ further (fst kf)))) entries)) w = (0, w)"
    if "list_all (\<lambda>kf. spec_entry_ok (JDict (snd kf))) entries"
    using extended_entries_ok [OF that, of further] by (rule validate_schema_conf_valid)
  from 1 2 3 4 5 6 7 8 9 show ?thesis
    by blast
qed

theorem validate_schema_conf_accepts_the_data_model_witness:
  "spec_document_ok demo_conf
   \<and> validate_schema_conf demo_env demo_conf demo_world = (0, demo_world)
   \<and> map_of [(''bad'', JDict [(''name'', JInt 5)])] ''bad'' = Some (JDict [(''name'', JInt 5)])
   \<and> \<not> spec_entry_ok (JDict [(''name'', JInt 5)])
   \<and> \<not> spec_document_ok (JDict [(''bad'', JDict [(''name'', JInt 5)])])
   \<and> fst (validate_schema_conf demo_env (JDict [(''bad'', JDict [(''name'', JInt 5)])]) demo_world) = 1
   \<and> trace (snd (validate_schema_conf demo_env (JDict [(''bad'', JDict [(''name'', JInt 5)])]) demo_world))
       = map (syntax_error demo_env)
           [ValidationError [''bad'', ''name''] ''type'' ''string'',
            ValidationError [''bad''] ''required'' ''log_directory'',
            ValidationError [''bad''] ''required'' ''log_package_version_cmd'',
            ValidationError [''bad''] ''required'' ''log_patch_cmd'',
            ValidationError [''bad''] ''required'' ''patch_cmd'',
            ValidationError [''bad''] ''required'' ''package_version_cmd'']
   \<and> (\<exists>e. take 1 (error_path e) = [''bad'']
         \<and> syntax_error demo_env e
             \<in> set (trace (snd (validate_schema_conf demo_env
                   (JDict [(''bad'', JDict [(''name'', JInt 5)])]) demo_world))))"
proof -
  let ?bad = "JDict [(''bad'', JDict [(''name'', JInt 5)])]"
  have ok: "spec_document_ok demo_conf"
    by (simp add: demo_conf_def spec_document_ok_def spec_entry_ok_def has_string_def has_bool_def)
  have m: "map_of [(''bad'', JDict [(''name'', JInt 5)])] ''bad'' = Some (JDict [(''name'', JInt 5)])"
    by simp
  have e: "\<not> spec_entry_ok (JDict [(''name'', JInt 5)])"
    by (simp add: spec_entry_ok_def has_string_def has_bool_def)
  have bad: "\<not> spec_document_ok ?bad"
    by (simp add: spec_document_ok_def spec_entry_ok_def has_string_def has_bool_def)
  have t: "trace demo_world = []"
    by (simp add: demo_world_def)
  have errs: "iter_errors schema [] ?bad
      = [ValidationError [''bad'', ''name''] ''type'' ''string'',
         ValidationError [''bad''] ''required'' ''log_directory'',
         ValidationError [''bad''] ''required'' ''log_package_version_cmd'',
         ValidationError [''bad''] ''required'' ''log_patch_cmd'',
         ValidationError [''bad''] ''required'' ''patch_cmd'',
         ValidationError [''bad''] ''required'' ''package_version_cmd'']"
    by (simp add: iter_errors_schema iter_errors_entry_dict field_errors_def missing_errors_def)
  note a = validate_schema_conf_accepts_the_data_model [of demo_conf demo_env demo_world]
  note b = validate_schema_conf_accepts_the_data_model
      [of ?bad demo_env demo_world "[(''bad'', JDict [(''name'', JInt 5)])]" "''bad''"
          "JDict [(''name'', JInt 5)]"]
  have 1: "validate_schema_conf demo_env demo_conf demo_world = (0, demo_world)"
    using a ok by blast
  have 2: "fst (validate_schema_conf demo_env ?bad demo_world) = 1"
    using b bad by blast
  have 3: "trace (snd (validate_schema_conf demo_env ?bad demo_world))
      = map (syntax_error demo_env) (iter_errors schema [] ?bad)"
    using b t by simp
  have 4: "\<exists>e. take 1 (error_path e) = [''bad'']
         \<and> syntax_error demo_env e
             \<in> set (trace (snd (validate_schema_conf demo_env ?bad demo_world)))"
  proof -
    from b m e have "\<exists>e. take 1 (error_path e) = [''bad'']
         \<and> syntax_error demo_env e
             \<in> set (drop (length (trace demo_world))
                     (trace (snd (validate_schema_conf demo_env ?bad demo_world))))"
      by blast
    then show ?thesis
      by (simp add: t)
  qed
  from ok 1 m e bad 2 3 4 show ?thesis
    unfolding errs by blast
qed

subsection \<open>Valid documents and their recipes\<close>

lemma has_string_as_string: "has_string kvs f \<Longrightarrow> \<exists>s. as_string (map_of kvs f) = Some s"
  by (auto simp: has_string_def as_string_def split: option.splits json.splits)

lemma has_bool_as_bool: "has_bool kvs f \<Longrightarrow> \<exists>b. as_bool (map_of kvs f) = Some b"
  by (auto simp: has_bool_def as_bool_def split: option.splits json.splits)

lemma validated_entry_is_recipe:
  assumes "spec_entry_ok entry"
  shows "\<exists>r. recipe_of entry = Some r"
proof -
  from assms obtain kvs where e: "entry = JDict kvs"
    by (cases entry) (simp_all add: spec_entry_ok_def)
  from assms obtain d lv lp n pc vc where
    "as_string (map_of kvs ''log_directory'') = Some d"
    "as_bool (map_of kvs ''log_package_version_cmd'') = Some lv"
    "as_bool (map_of kvs ''log_patch_cmd'') = Some lp"
    "as_string (map_of kvs ''name'') = Some n"
    "as_string (map_of kvs ''patch_cmd'') = Some pc"
    "as_string (map_of kvs ''package_version_cmd'') = Some vc"
    unfolding e spec_entry_ok_def json.case
    using has_string_as_string has_bool_as_bool by metis
  then show ?thesis
    by (simp add: e recipe_of_def)
qed

lemma validated_document_entries:
  assumes "spec_document_ok conf" and "getitem conf k = Some entry"
  shows "spec_entry_ok entry"
proof -
  from assms(1) obtain kvs where c: "conf = JDict kvs"
    by (cases conf) (simp_all add: spec_document_ok_def)
  from assms(2) have "(k, entry) \<in> set (dict_items kvs)"
    by (simp add: c set_dict_items)
  with assms(1) show ?thesis
    by (auto simp: c spec_document_ok_def list_all_iff)
qed

lemma main_validated:
  assumes "spec_document_ok conf"
  shows "main env config_path selected_recipe (Document conf) w
     = main_run env (\<lambda>k. case getitem conf k of None \<Rightarrow> None | Some entry \<Rightarrow> recipe_of entry)
         selected_recipe w"
  by (simp add: main_def validate_schema_conf_valid [OF assms])

subsection \<open>A recipe from its first command to its last\<close>

lemma logged_step_run:
  assumes "shell env cmd (sys w) = (out, rc, s')"
    and "openable env (log_path env dir (clock_reads w) sfx)"
    and "sfx \<noteq> []"
  shows "\<exists>w'. (case datetime_now_utc env w of (ts, w1) \<Rightarrow>
                 execute env cmd (path_join dir (ts @ sfx)) w1) = (outcome rc cmd, w')
          \<and> sys w' = s' \<and> clock_reads w' = Suc (clock_reads w)
          \<and> console w' = console w @ out
          \<and> (\<exists>old. files w' (log_path env dir (clock_reads w) sfx) = Some (old @ out))
          \<and> trace w' = trace w @ Utcnow
                # logged_run (log_path env dir (clock_reads w) sfx) (CHR ''a'') cmd out rc"
proof -
  from logged_step [OF assms] obtain w' where
    "(case datetime_now_utc env w of (ts, w1) \<Rightarrow>
         execute env cmd (path_join dir (ts @ sfx)) w1) = (outcome rc cmd, w')"
    "sys w' = s'" "clock_reads w' = Suc (clock_reads w)" "console w' = console w @ out"
    "files w' = (files w)(log_path env dir (clock_reads w) sfx \<mapsto>
       (case files w (log_path env dir (clock_reads w) sfx) of None \<Rightarrow> [] | Some old \<Rightarrow> old) @ out)"
    "trace w' = trace w @ Utcnow # Open (log_path env dir (clock_reads w) sfx) (CHR ''a'') True
        # Popen cmd
        # concat (map (\<lambda>l. [Readline l, Print l, Write (log_path env dir (clock_reads w) sfx) l])
             (iter_readline out))
        @ [Readline [], StdoutClose, Wait rc, Close (log_path env dir (clock_reads w) sfx)]"
    by blast
  then show ?thesis
    by (intro exI [of _ w']) (simp add: logged_run_def)
qed

lemma patch_step_run:
  assumes "shell env (patch_cmd r) (sys w) = (out, rc, s')"
    and "log_patch_cmd r \<longrightarrow>
         openable env (log_path env (log_directory r) (clock_reads w) (''_'' @ name r @ ''.log''))"
  shows "\<exists>w'. (if log_patch_cmd r then
                 (case datetime_now_utc env w of (ts, w1) \<Rightarrow>
                    execute env (patch_cmd r)
                      (path_join (log_directory r) (ts @ ''_'' @ name r @ ''.log'')) w1)
               else execute env (patch_cmd r) [] w) = (outcome rc (patch_cmd r), w')
          \<and> sys w' = s'
          \<and> clock_reads w' = (if log_patch_cmd r then Suc (clock_reads w) else clock_reads w)
          \<and> console w' = console w @ out
          \<and> (log_patch_cmd r \<longrightarrow>
               (\<exists>old. files w' (log_path env (log_directory r) (clock_reads w) (''_'' @ name r @ ''.log''))
                        = Some (old @ out)))
          \<and> trace w' = trace w @
               (if log_patch_cmd r
                then Utcnow # logged_run (log_path env (log_directory r) (clock_reads w) (''_'' @ name r @ ''.log''))
                                (CHR ''a'') (patch_cmd r) out rc
                else console_run (patch_cmd r) out rc)"
proof (cases "log_patch_cmd r")
  case True
  with assms(2) have o: "openable env (log_path env (log_directory r) (clock_reads w) (''_'' @ name r @ ''.log''))"
    by simp
  have ne: "''_'' @ name r @ ''.log'' \<noteq> []"
    by simp
  from logged_step_run [OF assms(1) o ne] True show ?thesis
    by auto
next
  case False
  then show ?thesis
    by (simp add: execute_console [OF assms(1)] console_run_def)
qed

lemma exec_recipe_pre_patch_run:
  assumes "log_package_version_cmd r"
    and "shell env (package_version_cmd r) (sys w) = (out1, rc1, s1)"
    and "rc1 \<noteq> 0"
    and "openable env (log_path env (log_directory r) (clock_reads w) ''_package_versions_pre-patch.log'')"
  shows "\<exists>w'. exec_recipe env r w = (Inl (CalledProcessError rc1 (package_version_cmd r)), w')
          \<and> console w' = console w @ out1
          \<and> (\<exists>old. files w' (log_path env (log_directory r) (clock_reads w) ''_package_versions_pre-patch.log'')
                 = Some (old @ out1))
          \<and> trace w' = trace w @ Log INFO (''Executing recipe: '' @ name r) # Utcnow
               # logged_run (log_path env (log_directory r) (clock_reads w) ''_package_versions_pre-patch.log'')
                   (CHR ''a'') (package_version_cmd r) out1 rc1"
proof -
  let ?w0 = "logger_log INFO (''Executing recipe: '' @ name r) w"
  have w0: "sys ?w0 = sys w" "clock_reads ?w0 = clock_reads w" "console ?w0 = console w"
    "trace ?w0 = trace w @ [Log INFO (''Executing recipe: '' @ name r)]"
    by (simp_all add: logger_log_def emit_def)
  from logged_step_run [of env "package_version_cmd r" ?w0 out1 rc1 s1 "log_directory r"
      "''_package_versions_pre-patch.log''"] assms w0
  obtain w1 where 1: "(case datetime_now_utc env ?w0 of (ts, w1) \<Rightarrow>
        execute env (package_version_cmd r)
          (path_join (log_directory r) (ts @ ''_package_versions_pre-patch.log'')) w1)
      = (Inl (CalledProcessError rc1 (package_version_cmd r)), w1)"
    and f1: "console w1 = console w @ out1"
      "\<exists>old. files w1 (log_path env (log_directory r) (clock_reads w) ''_package_versions_pre-patch.log'')
                 = Some (old @ out1)"
      "trace w1 = trace w @ Log INFO (''Executing recipe: '' @ name r) # Utcnow
               # logged_run (log_path env (log_directory r) (clock_reads w) ''_package_versions_pre-patch.log'')
                   (CHR ''a'') (package_version_cmd r) out1 rc1"
    by (auto simp: outcome_fail)
  have "exec_recipe env r w = (Inl (CalledProcessError rc1 (package_version_cmd r)), w1)"
    unfolding exec_recipe_def Let_def using assms(1)
    by (simp only: 1 if_True and_then_Inl)
  with f1 show ?thesis
    by blast
qed

lemma exec_recipe_patch_run:
  assumes "log_package_version_cmd r"
    and "shell env (package_version_cmd r) (sys w) = (out1, 0, s1)"
    and "openable env (log_path env (log_directory r) (clock_reads w) ''_package_versions_pre-patch.log'')"
    and "shell env (patch_cmd r) s1 = (out2, rc2, s2)"
    and "rc2 \<noteq> 0"
    and "log_patch_cmd r \<longrightarrow>
         openable env (log_path env (log_directory r) (Suc (clock_reads w)) (''_'' @ name r @ ''.log''))"
  shows "\<exists>w'. exec_recipe env r w = (Inl (CalledProcessError rc2 (patch_cmd r)), w')
          \<and> console w' = console w @ out1 @ out2
          \<and> (log_patch_cmd r \<longrightarrow>
               (\<exists>old. files w' (log_path env (log_directory r) (Suc (clock_reads w)) (''_'' @ name r @ ''.log''))
                        = Some (old @ out2)))
          \<and> trace w' = trace w @ Log INFO (''Executing recipe: '' @ name r) # Utcnow
               # logged_run (log_path env (log_directory r) (clock_reads w) ''_package_versions_pre-patch.log'')
                   (CHR ''a'') (package_version_cmd r) out1 0
               @ (if log_patch_cmd r
                  then Utcnow # logged_run (log_path env (log_directory r) (Suc (clock_reads w)) (''_'' @ name r @ ''.log''))
                                  (CHR ''a'') (patch_cmd r) out2 rc2
                  else console_run (patch_cmd r) out2 rc2)"
proof -
  let ?w0 = "logger_log INFO (''Executing recipe: '' @ name r) w"
  have w0: "sys ?w0 = sys w" "clock_reads ?w0 = clock_reads w" "console ?w0 = console w"
    "trace ?w0 = trace w @ [Log INFO (''Executing recipe: '' @ name r)]"
    by (simp_all add: logger_log_def emit_def)
  from logged_step_run [of env "package_version_cmd r" ?w0 out1 0 s1 "log_directory r"
      "''_package_versions_pre-patch.log''"] assms(2,3) w0
  obtain w1 where 1: "(case datetime_now_utc env ?w0 of (ts, w1) \<Rightarrow>
        execute env (package_version_cmd r)
          (path_join (log_directory r) (ts @ ''_package_versions_pre-patch.log'')) w1)
      = (Inr (), w1)"
    and f1: "sys w1 = s1" "clock_reads w1 = Suc (clock_reads w)" "console w1 = console w @ out1"
      "trace w1 = trace w @ Log INFO (''Executing recipe: '' @ name r) # Utcnow
               # logged_run (log_path env (log_directory r) (clock_reads w) ''_package_versions_pre-patch.log'')
                   (CHR ''a'') (package_version_cmd r) out1 0"
    by (auto simp: outcome_0)
  from patch_step_run [of env r w1 out2 rc2 s2] assms(4,5,6) f1
  obtain w2 where 2: "(if log_patch_cmd r then
                 (case datetime_now_utc env w1 of (ts, w1) \<Rightarrow>
                    execute env (patch_cmd r)
                      (path_join (log_directory r) (ts @ ''_'' @ name r @ ''.log'')) w1)
               else execute env (patch_cmd r) [] w1) = (Inl (CalledProcessError rc2 (patch_cmd r)), w2)"
    and f2: "console w2 = console w @ out1 @ out2"
      "log_patch_cmd r \<longrightarrow>
         (\<exists>old. files w2 (log_path env (log_directory r) (Suc (clock_reads w)) (''_'' @ name r @ ''.log''))
                  = Some (old @ out2))"
      "trace w2 = trace w @ Log INFO (''Executing recipe: '' @ name r) # Utcnow
               # logged_run (log_path env (log_directory r) (clock_reads w) ''_package_versions_pre-patch.log'')
                   (CHR ''a'') (package_version_cmd r) out1 0
               @ (if log_patch_cmd r
                  then Utcnow # logged_run (log_path env (log_directory r) (Suc (clock_reads w)) (''_'' @ name r @ ''.log''))
                                  (CHR ''a'') (patch_cmd r) out2 rc2
                  else console_run (patch_cmd r) out2 rc2)"
    by (auto simp: outcome_fail)
  have "exec_recipe env r w = (Inl (CalledProcessError rc2 (patch_cmd r)), w2)"
    unfolding exec_recipe_def Let_def using assms(1)
    by (simp only: 1 2 if_True and_then_Inl and_then_Inr)
  with f2 show ?thesis
    by blast
qed

lemma exec_recipe_bare_patch_run:
  assumes "\<not> log_package_version_cmd r"
    and "shell env (patch_cmd r) (sys w) = (out, rc, s')"
    and "log_patch_cmd r \<longrightarrow>
         openable env (log_path env (log_directory r) (clock_reads w) (''_'' @ name r @ ''.log''))"
  shows "\<exists>w'. exec_recipe env r w = (outcome rc (patch_cmd r), w')
          \<and> console w' = console w @ out
          \<and> (log_patch_cmd r \<longrightarrow>
               (\<exists>old. files w' (log_path env (log_directory r) (clock_reads w) (''_'' @ name r @ ''.log''))
                        = Some (old @ out)))
          \<and> trace w' = trace w @ Log INFO (''Executing recipe: '' @ name r)
               # (if log_patch_cmd r
                  then Utcnow # logged_run (log_path env (log_directory r) (clock_reads w) (''_'' @ name r @ ''.log''))
                                  (CHR ''a'') (patch_cmd r) out rc
                  else console_run (patch_cmd r) out rc)"
proof -
  let ?w0 = "logger_log INFO (''Executing recipe: '' @ name r) w"
  have w0: "sys ?w0 = sys w" "clock_reads ?w0 = clock_reads w" "console ?w0 = console w"
    "trace ?w0 = trace w @ [Log INFO (''Executing recipe: '' @ name r)]"
    by (simp_all add: logger_log_def emit_def)
  from patch_step_run [of env r ?w0 out rc s'] assms(2,3) w0
  obtain w1 where 1: "(if log_patch_cmd r then
                 (case datetime_now_utc env ?w0 of (ts, w1) \<Rightarrow>
                    execute env (patch_cmd r)
                      (path_join (log_directory r) (ts @ ''_'' @ name r @ ''.log'')) w1)
               else execute env (patch_cmd r) [] ?w0) = (outcome rc (patch_cmd r), w1)"
    and f1: "console w1 = console w @ out"
      "log_patch_cmd r \<longrightarrow>
         (\<exists>old. files w1 (log_path env (log_directory r) (clock_reads w) (''_'' @ name r @ ''.log''))
                  = Some (old @ out))"
      "trace w1 = trace w @ Log INFO (''Executing recipe: '' @ name r)
               # (if log_patch_cmd r
                  then Utcnow # logged_run (log_path env (log_directory r) (clock_reads w) (''_'' @ name r @ ''.log''))
                                  (CHR ''a'') (patch_cmd r) out rc
                  else console_run (patch_cmd r) out rc)"
    by auto
  have "exec_recipe env r w = and_then (outcome rc (patch_cmd r), w1) (\<lambda>w. (Inr (), w))"
    unfolding exec_recipe_def Let_def using assms(1)
    by (simp only: 1 if_False and_then_Inr)
  then have "exec_recipe env r w = (outcome rc (patch_cmd r), w1)"
    by (cases "rc = 0") (simp_all add: outcome_def and_then_Inr and_then_Inl)
  with f1 show ?thesis
    by blast
qed

lemma exec_recipe_post_patch_run:
  assumes "log_package_version_cmd r"
    and "shell env (package_version_cmd r) (sys w) = (out1, 0, s1)"
    and "openable env (log_path env (log_directory r) (clock_reads w) ''_package_versions_pre-patch.log'')"
    and "shell env (patch_cmd r) s1 = (out2, 0, s2)"
    and "log_patch_cmd r \<longrightarrow>
         openable env (log_path env (log_directory r) (Suc (clock_reads w)) (''_'' @ name r @ ''.log''))"
    and "shell env (package_version_cmd r) s2 = (out3, rc3, s3)"
    and "openable env (log_path env (log_directory r)
           (if log_patch_cmd r then Suc (Suc (clock_reads w)) else Suc (clock_reads w))
           ''_package_versions_post-patch.log'')"
  shows "\<exists>w'. exec_recipe env r w = (outcome rc3 (package_version_cmd r), w')
          \<and> console w' = console w @ out1 @ out2 @ out3
          \<and> (\<exists>old. files w' (log_path env (log_directory r)
                   (if log_patch_cmd r then Suc (Suc (clock_reads w)) else Suc (clock_reads w))
                   ''_package_versions_post-patch.log'') = Some (old @ out3))
          \<and> trace w' = trace w @ Log INFO (''Executing recipe: '' @ name r) # Utcnow
               # logged_run (log_path env (log_directory r) (clock_reads w) ''_package_versions_pre-patch.log'')
                   (CHR ''a'') (package_version_cmd r) out1 0
               @ (if log_patch_cmd r
                  then Utcnow # logged_run (log_path env (log_directory r) (Suc (clock_reads w)) (''_'' @ name r @ ''.log''))
                                  (CHR ''a'') (patch_cmd r) out2 0
                  else console_run (patch_cmd r) out2 0)
               @ Utcnow
               # logged_run (log_path env (log_directory r)
                     (if log_patch_cmd r then Suc (Suc (clock_reads w)) else Suc (clock_reads w))
                     ''_package_versions_post-patch.log'')
                   (CHR ''a'') (package_version_cmd r) out3 rc3"
proof -
  let ?w0 = "logger_log INFO (''Executing recipe: '' @ name r) w"
  let ?k = "if log_patch_cmd r then Suc (Suc (clock_reads w)) else Suc (clock_reads w)"
  have w0: "sys ?w0 = sys w" "clock_reads ?w0 = clock_reads w" "console ?w0 = console w"
    "trace ?w0 = trace w @ [Log INFO (''Executing recipe: '' @ name r)]"
    by (simp_all add: logger_log_def emit_def)
  from logged_step_run [of env "package_version_cmd r" ?w0 out1 0 s1 "log_directory r"
      "''_package_versions_pre-patch.log''"] assms(2,3) w0
  obtain w1 where 1: "(case datetime_now_utc env ?w0 of (ts, w1) \<Rightarrow>
        execute env (package_version_cmd r)
          (path_join (log_directory r) (ts @ ''_package_versions_pre-patch.log'')) w1)
      = (Inr (), w1)"
    and f1: "sys w1 = s1" "clock_reads w1 = Suc (clock_reads w)" "console w1 = console w @ out1"
      "trace w1 = trace w @ Log INFO (''Executing recipe: '' @ name r) # Utcnow
               # logged_run (log_path env (log_directory r) (clock_reads w) ''_package_versions_pre-patch.log'')
                   (CHR ''a'') (package_version_cmd r) out1 0"
    by (auto simp: outcome_0)
  from patch_step_run [of env r w1 out2 0 s2] assms(4,5) f1
  obtain w2 where 2: "(if log_patch_cmd r then
                 (case datetime_now_utc env w1 of (ts, w1) \<Rightarrow>
                    execute env (patch_cmd r)
                      (path_join (log_directory r) (ts @ ''_'' @ name r @ ''.log'')) w1)
               else execute env (patch_cmd r) [] w1) = (Inr (), w2)"
    and f2: "sys w2 = s2" "clock_reads w2 = ?k" "console w2 = console w @ out1 @ out2"
      "trace w2 = trace w @ Log INFO (''Executing recipe: '' @ name r) # Utcnow
               # logged_run (log_path env (log_directory r) (clock_reads w) ''_package_versions_pre-patch.log'')
                   (CHR ''a'') (package_version_cmd r) out1 0
               @ (if log_patch_cmd r
                  then Utcnow # logged_run (log_path env (log_directory r) (Suc (clock_reads w)) (''_'' @ name r @ ''.log''))
                                  (CHR ''a'') (patch_cmd r) out2 0
                  else console_run (patch_cmd r) out2 0)"
    by (auto simp: outcome_0)
  from assms(6,7) f2 have s3: "shell env (package_version_cmd r) (sys w2) = (out3, rc3, s3)"
    and o3: "openable env (log_path env (log_directory r) (clock_reads w2) ''_package_versions_post-patch.log'')"
    by simp_all
  have ne: "''_package_versions_post-patch.log'' \<noteq> []"
    by simp
  from logged_step_run [OF s3 o3 ne]
  obtain w3 where 3: "(case datetime_now_utc env w2 of (ts, w1) \<Rightarrow>
        execute env (package_version_cmd r)
          (path_join (log_directory r) (ts @ ''_package_versions_post-patch.log'')) w1)
      = (outcome rc3 (package_version_cmd r), w3)"
    and g3: "console w3 = console w2 @ out3"
      "\<exists>old. files w3 (log_path env (log_directory r) (clock_reads w2) ''_package_versions_post-patch.log'')
                = Some (old @ out3)"
      "trace w3 = trace w2 @ Utcnow
         # logged_run (log_path env (log_directory r) (clock_reads w2) ''_package_versions_post-patch.log'')
             (CHR ''a'') (package_version_cmd r) out3 rc3"
    by blast
  have e: "exec_recipe env r w = (outcome rc3 (package_version_cmd r), w3)"
    unfolding exec_recipe_def Let_def using assms(1)
    by (simp only: 1 2 3 if_True and_then_Inr)
  from g3 f2 have f3: "console w3 = console w @ out1 @ out2 @ out3"
      "\<exists>old. files w3 (log_path env (log_directory r) ?k ''_package_versions_post-patch.log'')
                = Some (old @ out3)"
      "trace w3 = trace w @ Log INFO (''Executing recipe: '' @ name r) # Utcnow
               # logged_run (log_path env (log_directory r) (clock_reads w) ''_package_versions_pre-patch.log'')
                   (CHR ''a'') (package_version_cmd r) out1 0
               @ (if log_patch_cmd r
                  then Utcnow # logged_run (log_path env (log_directory r) (Suc (clock_reads w)) (''_'' @ name r @ ''.log''))
                                  (CHR ''a'') (patch_cmd r) out2 0
                  else console_run (patch_cmd r) out2 0)
               @ Utcnow
               # logged_run (log_path env (log_directory r) ?k ''_package_versions_post-patch.log'')
                   (CHR ''a'') (package_version_cmd r) out3 rc3"
    by simp_all
  from e f3 show ?thesis
    by blast
qed

lemma pkgptch_logged_step_run:
  assumes "shell env cmd (sys w) = (out, rc, s')"
    and "openable env (pkgptch_log_path env (clock_reads w) sfx)"
    and "sfx \<noteq> []"
  shows "\<exists>w'. (case pkgptch_datetime_now env w of (datetime_now, w1) \<Rightarrow>
                 pkgptch_execute env cmd (datetime_now @ sfx) w1) = (outcome rc cmd, w')
          \<and> sys w' = s' \<and> clock_reads w' = Suc (clock_reads w)
          \<and> console w' = console w @ out
          \<and> files w' (pkgptch_log_path env (clock_reads w) sfx) = Some out
          \<and> trace w' = trace w @ Now
                # logged_run (pkgptch_log_path env (clock_reads w) sfx) (CHR ''w'') cmd out rc"
proof -
  from pkgptch_logged_step [OF assms] obtain w' where
    "(case pkgptch_datetime_now env w of (datetime_now, w1) \<Rightarrow>
         pkgptch_execute env cmd (datetime_now @ sfx) w1) = (outcome rc cmd, w')"
    "sys w' = s'" "clock_reads w' = Suc (clock_reads w)" "console w' = console w @ out"
    "files w' = (files w)(pkgptch_log_path env (clock_reads w) sfx \<mapsto> out)"
    "trace w' = trace w @ Now # Open (pkgptch_log_path env (clock_reads w) sfx) (CHR ''w'') True
        # Popen cmd
        # concat (map (\<lambda>l. [Readline l, Print l, Write (pkgptch_log_path env (clock_reads w) sfx) l])
             (iter_readline out))
        @ [Readline [], StdoutClose, Wait rc, Close (pkgptch_log_path env (clock_reads w) sfx)]"
    by blast
  then show ?thesis
    by (intro exI [of _ w']) (simp add: logged_run_def)
qed

lemma pkgptch_patch_step_run:
  assumes "shell env (patch_cmd r) (sys w) = (out, rc, s')"
    and "log_patch_cmd r \<longrightarrow>
         openable env (pkgptch_log_path env (clock_reads w) (''_'' @ name r @ ''.log''))"
  shows "\<exists>w'. (if log_patch_cmd r then
                 (case pkgptch_datetime_now env w of (datetime_now, w1) \<Rightarrow>
                    pkgptch_execute env (patch_cmd r)
                      (datetime_now @ ''_'' @ name r @ ''.log'') w1)
               else pkgptch_execute env (patch_cmd r) [] w) = (outcome rc (patch_cmd r), w')
          \<and> sys w' = s'
          \<and> clock_reads w' = (if log_patch_cmd r then Suc (clock_reads w) else clock_reads w)
          \<and> console w' = console w @ out
          \<and> (log_patch_cmd r \<longrightarrow>
               files w' (pkgptch_log_path env (clock_reads w) (''_'' @ name r @ ''.log''))
                        = Some out)
          \<and> trace w' = trace w @
               (if log_patch_cmd r
                then Now # logged_run (pkgptch_log_path env (clock_reads w) (''_'' @ name r @ ''.log''))
                                (CHR ''w'') (patch_cmd r) out rc
                else console_run (patch_cmd r) out rc)"
proof (cases "log_patch_cmd r")
  case True
  with assms(2) have o: "openable env (pkgptch_log_path env (clock_reads w) (''_'' @ name r @ ''.log''))"
    by simp
  have ne: "''_'' @ name r @ ''.log'' \<noteq> []"
    by simp
  from pkgptch_logged_step_run [OF assms(1) o ne] True show ?thesis
    by auto
next
  case False
  then show ?thesis
    by (simp add: pkgptch_execute_console [OF assms(1)] console_run_def)
qed

lemma pkgptch_exec_recipe_pre_patch_run:
  assumes "log_package_version_cmd r"
    and "shell env (package_version_cmd r) (sys w) = (out1, rc1, s1)"
    and "rc1 \<noteq> 0"
    and "openable env (pkgptch_log_path env (clock_reads w) ''_package_versions_pre-patch.log'')"
  shows "\<exists>w'. pkgptch_exec_recipe env r w = (Inl (CalledProcessError rc1 (package_version_cmd r)), w')
          \<and> console w' = console w @ out1
          \<and> files w' (pkgptch_log_path env (clock_reads w) ''_package_versions_pre-patch.log'')
                 = Some out1
          \<and> trace w' = trace w @ Log INFO (''Executing recipe: '' @ name r) # Now
               # logged_run (pkgptch_log_path env (clock_reads w) ''_package_versions_pre-patch.log'')
                   (CHR ''w'') (package_version_cmd r) out1 rc1"
proof -
  let ?w0 = "logger_log INFO (''Executing recipe: '' @ name r) w"
  have w0: "sys ?w0 = sys w" "clock_reads ?w0 = clock_reads w" "console ?w0 = console w"
    "trace ?w0 = trace w @ [Log INFO (''Executing recipe: '' @ name r)]"
    by (simp_all add: logger_log_def emit_def)
  from pkgptch_logged_step_run [of env "package_version_cmd r" ?w0 out1 rc1 s1
      "''_package_versions_pre-patch.log''"] assms w0
  obtain w1 where 1: "(case pkgptch_datetime_now env ?w0 of (datetime_now, w1) \<Rightarrow>
        pkgptch_execute env (package_version_cmd r)
          (datetime_now @ ''_package_versions_pre-patch.log'') w1)
      = (Inl (CalledProcessError rc1 (package_version_cmd r)), w1)"
    and f1: "console w1 = console w @ out1"
      "files w1 (pkgptch_log_path env (clock_reads w) ''_package_versions_pre-patch.log'')
                 = Some out1"
      "trace w1 = trace w @ Log INFO (''Executing recipe: '' @ name r) # Now
               # logged_run (pkgptch_log_path env (clock_reads w) ''_package_versions_pre-patch.log'')
                   (CHR ''w'') (package_version_cmd r) out1 rc1"
    by (auto simp: outcome_fail)
  have "pkgptch_exec_recipe env r w = (Inl (CalledProcessError rc1 (package_version_cmd r)), w1)"
    unfolding pkgptch_exec_recipe_def Let_def using assms(1)
    by (simp only: 1 if_True and_then_Inl)
  with f1 show ?thesis
    by blast
qed

lemma pkgptch_exec_recipe_patch_run:
  assumes "log_package_version_cmd r"
    and "shell env (package_version_cmd r) (sys w) = (out1, 0, s1)"
    and "openable env (pkgptch_log_path env (clock_reads w) ''_package_versions_pre-patch.log'')"
    and "shell env (patch_cmd r) s1 = (out2, rc2, s2)"
    and "rc2 \<noteq> 0"
    and "log_patch_cmd r \<longrightarrow>
         openable env (pkgptch_log_path env (Suc (clock_reads w)) (''_'' @ name r @ ''.log''))"
  shows "\<exists>w'. pkgptch_exec_recipe env r w = (Inl (CalledProcessError rc2 (patch_cmd r)), w')
          \<and> console w' = console w @ out1 @ out2
          \<and> (log_patch_cmd r \<longrightarrow>
               files w' (pkgptch_log_path env (Suc (clock_reads w)) (''_'' @ name r @ ''.log''))
                        = Some out2)
          \<and> trace w' = trace w @ Log INFO (''Executing recipe: '' @ name r) # Now
               # logged_run (pkgptch_log_path env (clock_reads w) ''_package_versions_pre-patch.log'')
                   (CHR ''w'') (package_version_cmd r) out1 0
               @ (if log_patch_cmd r
                  then Now # logged_run (pkgptch_log_path env (Suc (clock_reads w)) (''_'' @ name r @ ''.log''))
                                  (CHR ''w'') (patch_cmd r) out2 rc2
                  else console_run (patch_cmd r) out2 rc2)"
proof -
  let ?w0 = "logger_log INFO (''Executing recipe: '' @ name r) w"
  have w0: "sys ?w0 = sys w" "clock_reads ?w0 = clock_reads w" "console ?w0 = console w"
    "trace ?w0 = trace w @ [Log INFO (''Executing recipe: '' @ name r)]"
    by (simp_all add: logger_log_def emit_def)
  from pkgptch_logged_step_run [of env "package_version_cmd r" ?w0 out1 0 s1
      "''_package_versions_pre-patch.log''"] assms(2,3) w0
  obtain w1 where 1: "(case pkgptch_datetime_now env ?w0 of (datetime_now, w1) \<Rightarrow>
        pkgptch_execute env (package_version_cmd r)
          (datetime_now @ ''_package_versions_pre-patch.log'') w1)
      = (Inr (), w1)"
    and f1: "sys w1 = s1" "clock_reads w1 = Suc (clock_reads w)" "console w1 = console w @ out1"
      "trace w1 = trace w @ Log INFO (''Executing recipe: '' @ name r) # Now
               # logged_run (pkgptch_log_path env (clock_reads w) ''_package_versions_pre-patch.log'')
                   (CHR ''w'') (package_version_cmd r) out1 0"
    by (auto simp: outcome_0)
  from pkgptch_patch_step_run [of env r w1 out2 rc2 s2] assms(4,5,6) f1
  obtain w2 where 2: "(if log_patch_cmd r then
                 (case pkgptch_datetime_now env w1 of (datetime_now, w1) \<Rightarrow>
                    pkgptch_execute env (patch_cmd r)
                      (datetime_now @ ''_'' @ name r @ ''.log'') w1)
               else pkgptch_execute env (patch_cmd r) [] w1) = (Inl (CalledProcessError rc2 (patch_cmd r)), w2)"
    and f2: "console w2 = console w @ out1 @ out2"
      "log_patch_cmd r \<longrightarrow>
         files w2 (pkgptch_log_path env (Suc (clock_reads w)) (''_'' @ name r @ ''.log''))
                  = Some out2"
      "trace w2 = trace w @ Log INFO (''Executing recipe: '' @ name r) # Now
               # logged_run (pkgptch_log_path env (clock_reads w) ''_package_versions_pre-patch.log'')
                   (CHR ''w'') (package_version_cmd r) out1 0
               @ (if log_patch_cmd r
                  then Now # logged_run (pkgptch_log_path env (Suc (clock_reads w)) (''_'' @ name r @ ''.log''))
                                  (CHR ''w'') (patch_cmd r) out2 rc2
                  else console_run (patch_cmd r) out2 rc2)"
    by (auto simp: outcome_fail)
  have "pkgptch_exec_recipe env r w = (Inl (CalledProcessError rc2 (patch_cmd r)), w2)"
    unfolding pkgptch_exec_recipe_def Let_def using assms(1)
    by (simp only: 1 2 if_True and_then_Inl and_then_Inr)
  with f2 show ?thesis
    by blast
qed

lemma pkgptch_exec_recipe_bare_patch_run:
  assumes "\<not> log_package_version_cmd r"
    and "shell env (patch_cmd r) (sys w) = (out, rc, s')"
    and "log_patch_cmd r \<longrightarrow>
         openable env (pkgptch_log_path env (clock_reads w) (''_'' @ name r @ ''.log''))"
  shows "\<exists>w'. pkgptch_exec_recipe env r w = (outcome rc (patch_cmd r), w')
          \<and> console w' = console w @ out
          \<and> (log_patch_cmd r \<longrightarrow>
               files w' (pkgptch_log_path env (clock_reads w) (''_'' @ name r @ ''.log''))
                        = Some out)
          \<and> trace w' = trace w @ Log INFO (''Executing recipe: '' @ name r)
               # (if log_patch_cmd r
                  then Now # logged_run (pkgptch_log_path env (clock_reads w) (''_'' @ name r @ ''.log''))
                                  (CHR ''w'') (patch_cmd r) out rc
                  else console_run (patch_cmd r) out rc)"
proof -
  let ?w0 = "logger_log INFO (''Executing recipe: '' @ name r) w"
  have w0: "sys ?w0 = sys w" "clock_reads ?w0 = clock_reads w" "console ?w0 = console w"
    "trace ?w0 = trace w @ [Log INFO (''Executing recipe: '' @ name r)]"
    by (simp_all add: logger_log_def emit_def)
  from pkgptch_patch_step_run [of env r ?w0 out rc s'] assms(2,3) w0
  obtain w1 where 1: "(if log_patch_cmd r then
                 (case pkgptch_datetime_now env ?w0 of (datetime_now, w1) \<Rightarrow>
                    pkgptch_execute env (patch_cmd r)
                      (datetime_now @ ''_'' @ name r @ ''.log'') w1)
               else pkgptch_execute env (patch_cmd r) [] ?w0) = (outcome rc (patch_cmd r), w1)"
    and f1: "console w1 = console w @ out"
      "log_patch_cmd r \<longrightarrow>
         files w1 (pkgptch_log_path env (clock_reads w) (''_'' @ name r @ ''.log''))
                  = Some out"
      "trace w1 = trace w @ Log INFO (''Executing recipe: '' @ name r)
               # (if log_patch_cmd r
                  then Now # logged_run (pkgptch_log_path env (clock_reads w) (''_'' @ name r @ ''.log''))
                                  (CHR ''w'') (patch_cmd r) out rc
                  else console_run (patch_cmd r) out rc)"
    by auto
  have "pkgptch_exec_recipe env r w = and_then (outcome rc (patch_cmd r), w1) (\<lambda>w. (Inr (), w))"
    unfolding pkgptch_exec_recipe_def Let_def using assms(1)
    by (simp only: 1 if_False and_then_Inr)
  then have "pkgptch_exec_recipe env r w = (outcome rc (patch_cmd r), w1)"
    by (cases "rc = 0") (simp_all add: outcome_def and_then_Inr and_then_Inl)
  with f1 show ?thesis
    by blast
qed

lemma pkgptch_exec_recipe_post_patch_run:
  assumes "log_package_version_cmd r"
    and "shell env (package_version_cmd r) (sys w) = (out1, 0, s1)"
    and "openable env (pkgptch_log_path env (clock_reads w) ''_package_versions_pre-patch.log'')"
    and "shell env (patch_cmd r) s1 = (out2, 0, s2)"
    and "log_patch_cmd r \<longrightarrow>
         openable env (pkgptch_log_path env (Suc (clock_reads w)) (''_'' @ name r @ ''.log''))"
    and "shell env (package_version_cmd r) s2 = (out3, rc3, s3)"
    and "openable env (pkgptch_log_path env
           (if log_patch_cmd r then Suc (Suc (clock_reads w)) else Suc (clock_reads w))
           ''_package_versions_post-patch.log'')"
  shows "\<exists>w'. pkgptch_exec_recipe env r w = (outcome rc3 (package_version_cmd r), w')
          \<and> console w' = console w @ out1 @ out2 @ out3
          \<and> files w' (pkgptch_log_path env
                   (if log_patch_cmd r then Suc (Suc (clock_reads w)) else Suc (clock_reads w))
                   ''_package_versions_post-patch.log'') = Some out3
          \<and> trace w' = trace w @ Log INFO (''Executing recipe: '' @ name r) # Now
               # logged_run (pkgptch_log_path env (clock_reads w) ''_package_versions_pre-patch.log'')
                   (CHR ''w'') (package_version_cmd r) out1 0
               @ (if log_patch_cmd r
                  then Now # logged_run (pkgptch_log_path env (Suc (clock_reads w)) (''_'' @ name r @ ''.log''))
                                  (CHR ''w'') (patch_cmd r) out2 0
                  else console_run (patch_cmd r) out2 0)
               @ Now
               # logged_run (pkgptch_log_path env
                     (if log_patch_cmd r then Suc (Suc (clock_reads w)) else Suc (clock_reads w))
                     ''_package_versions_post-patch.log'')
                   (CHR ''w'') (package_version_cmd r) out3 rc3"
proof -
  let ?w0 = "logger_log INFO (''Executing recipe: '' @ name r) w"
  let ?k = "if log_patch_cmd r then Suc (Suc (clock_reads w)) else Suc (clock_reads w)"
  have w0: "sys ?w0 = sys w" "clock_reads ?w0 = clock_reads w" "console ?w0 = console w"
    "trace ?w0 = trace w @ [Log INFO (''Executing recipe: '' @ name r)]"
    by (simp_all add: logger_log_def emit_def)
  from pkgptch_logged_step_run [of env "package_version_cmd r" ?w0 out1 0 s1
      "''_package_versions_pre-patch.log''"] assms(2,3) w0
  obtain w1 where 1: "(case pkgptch_datetime_now env ?w0 of (datetime_now, w1) \<Rightarrow>
        pkgptch_execute env (package_version_cmd r)
          (datetime_now @ ''_package_versions_pre-patch.log'') w1)
      = (Inr (), w1)"
    and f1: "sys w1 = s1" "clock_reads w1 = Suc (clock_reads w)" "console w1 = console w @ out1"
      "trace w1 = trace w @ Log INFO (''Executing recipe: '' @ name r) # Now
               # logged_run (pkgptch_log_path env (clock_reads w) ''_package_versions_pre-patch.log'')
                   (CHR ''w'') (package_version_cmd r) out1 0"
    by (auto simp: outcome_0)
  from pkgptch_patch_step_run [of env r w1 out2 0 s2] assms(4,5) f1
  obtain w2 where 2: "(if log_patch_cmd r then
                 (case pkgptch_datetime_now env w1 of (datetime_now, w1) \<Rightarrow>
                    pkgptch_execute env (patch_cmd r)
                      (datetime_now @ ''_'' @ name r @ ''.log'') w1)
               else pkgptch_execute env (patch_cmd r) [] w1) = (Inr (), w2)"
    and f2: "sys w2 = s2" "clock_reads w2 = ?k" "console w2 = console w @ out1 @ out2"
      "trace w2 = trace w @ Log INFO (''Executing recipe: '' @ name r) # Now
               # logged_run (pkgptch_log_path env (clock_reads w) ''_package_versions_pre-patch.log'')
                   (CHR ''w'') (package_version_cmd r) out1 0
               @ (if log_patch_cmd r
                  then Now # logged_run (pkgptch_log_path env (Suc (clock_reads w)) (''_'' @ name r @ ''.log''))
                                  (CHR ''w'') (patch_cmd r) out2 0
                  else console_run (patch_cmd r) out2 0)"
    by (auto simp: outcome_0)
  from assms(6,7) f2 have s3: "shell env (package_version_cmd r) (sys w2) = (out3, rc3, s3)"
    and o3: "openable env (pkgptch_log_path env (clock_reads w2) ''_package_versions_post-patch.log'')"
    by simp_all
  have ne: "''_package_versions_post-patch.log'' \<noteq> []"
    by simp
  from pkgptch_logged_step_run [OF s3 o3 ne]
  obtain w3 where 3: "(case pkgptch_datetime_now env w2 of (datetime_now, w1) \<Rightarrow>
        pkgptch_execute env (package_version_cmd r)
          (datetime_now @ ''_package_versions_post-patch.log'') w1)
      = (outcome rc3 (package_version_cmd r), w3)"
    and g3: "console w3 = console w2 @ out3"
      "files w3 (pkgptch_log_path env (clock_reads w2) ''_package_versions_post-patch.log'')
                = Some out3"
      "trace w3 = trace w2 @ Now
         # logged_run (pkgptch_log_path env (clock_reads w2) ''_package_versions_post-patch.log'')
             (CHR ''w'') (package_version_cmd r) out3 rc3"
    by blast
  have e: "pkgptch_exec_recipe env r w = (outcome rc3 (package_version_cmd r), w3)"
    unfolding pkgptch_exec_recipe_def Let_def using assms(1)
    by (simp only: 1 2 3 if_True and_then_Inr)
  from g3 f2 have f3: "console w3 = console w @ out1 @ out2 @ out3"
      "files w3 (pkgptch_log_path env ?k ''_package_versions_post-patch.log'')
                = Some out3"
      "trace w3 = trace w @ Log INFO (''Executing recipe: '' @ name r) # Now
               # logged_run (pkgptch_log_path env (clock_reads w) ''_package_versions_pre-patch.log'')
                   (CHR ''w'') (package_version_cmd r) out1 0
               @ (if log_patch_cmd r
                  then Now # logged_run (pkgptch_log_path env (Suc (clock_reads w)) (''_'' @ name r @ ''.log''))
                                  (CHR ''w'') (patch_cmd r) out2 0
                  else console_run (patch_cmd r) out2 0)
               @ Now
               # logged_run (pkgptch_log_path env ?k ''_package_versions_post-patch.log'')
                   (CHR ''w'') (package_version_cmd r) out3 rc3"
    by simp_all
  from e f3 show ?thesis
    by blast
qed

subsection \<open>The top level on a recipe\<close>

lemma main_run_outcome:
  assumes "conf selected_recipe = Some r" and "exec_recipe env r w = (outcome rc cmd, w')"
  shows "main_run env conf selected_recipe w
     = (SysExit 0, if rc = 0 then w' else emit (caught env rc cmd) w')"
  using assms by (simp add: main_run_def outcome_def caught_def logger_log_def)

lemma main_run_caught_run:
  assumes "conf selected_recipe = Some r"
    and "exec_recipe env r w = (Inl (CalledProcessError rc cmd), w')"
  shows "main_run env conf selected_recipe w = (SysExit 0, emit (caught env rc cmd) w')"
  using assms by (simp add: main_run_def caught_def logger_log_def)

lemma main_run_pre_patch_fails:
  assumes "conf selected_recipe = Some r"
    and "log_package_version_cmd r"
    and "shell env (package_version_cmd r) (sys w) = (out1, rc1, s1)"
    and "rc1 \<noteq> 0"
    and "openable env (log_path env (log_directory r) (clock_reads w) ''_package_versions_pre-patch.log'')"
  shows "fst (main_run env conf selected_recipe w) = SysExit 0
       \<and> console (snd (main_run env conf selected_recipe w)) = console w @ out1
       \<and> (\<exists>old. files (snd (main_run env conf selected_recipe w)) (log_path env (log_directory r) (clock_reads w) ''_package_versions_pre-patch.log'') = Some (old @ out1))
       \<and> trace (snd (main_run env conf selected_recipe w))
          = trace w @ Log INFO (''Executing recipe: '' @ name r)
            # Utcnow # logged_run (log_path env (log_directory r) (clock_reads w) ''_package_versions_pre-patch.log'') (CHR ''a'') (package_version_cmd r) out1 rc1
            @ [caught env rc1 (package_version_cmd r)]"
proof -
  from exec_recipe_pre_patch_run [OF assms(2-5)] obtain w' where
    e: "exec_recipe env r w = (Inl (CalledProcessError rc1 (package_version_cmd r)), w')"
    and f: "console w' = console w @ out1"
      "(\<exists>old. files w' (log_path env (log_directory r) (clock_reads w) ''_package_versions_pre-patch.log'') = Some (old @ out1))"
      "trace w' = trace w @ Log INFO (''Executing recipe: '' @ name r)
            # Utcnow # logged_run (log_path env (log_directory r) (clock_reads w) ''_package_versions_pre-patch.log'') (CHR ''a'') (package_version_cmd r) out1 rc1"
    by blast
  from main_run_caught_run [where conf = conf and selected_recipe = selected_recipe, OF assms(1) e]
  have "main_run env conf selected_recipe w
      = (SysExit 0, emit (caught env rc1 (package_version_cmd r)) w')" .
  with f show ?thesis
    by (simp add: emit_def)
qed

lemma main_run_patch_fails:
  assumes "conf selected_recipe = Some r"
    and "log_package_version_cmd r"
    and "shell env (package_version_cmd r) (sys w) = (out1, 0, s1)"
    and "openable env (log_path env (log_directory r) (clock_reads w) ''_package_versions_pre-patch.log'')"
    and "shell env (patch_cmd r) s1 = (out2, rc2, s2)"
    and "rc2 \<noteq> 0"
    and "log_patch_cmd r \<longrightarrow> openable env (log_path env (log_directory r) (Suc (clock_reads w)) (''_'' @ name r @ ''.log''))"
  shows "fst (main_run env conf selected_recipe w) = SysExit 0
       \<and> console (snd (main_run env conf selected_recipe w)) = console w @ out1 @ out2
       \<and> (log_patch_cmd r \<longrightarrow> (\<exists>old. files (snd (main_run env conf selected_recipe w)) (log_path env (log_directory r) (Suc (clock_reads w)) (''_'' @ name r @ ''.log'')) = Some (old @ out2)))
       \<and> trace (snd (main_run env conf selected_recipe w))
          = trace w @ Log INFO (''Executing recipe: '' @ name r)
            # Utcnow # logged_run (log_path env (log_directory r) (clock_reads w) ''_package_versions_pre-patch.log'') (CHR ''a'') (package_version_cmd r) out1 0
            @ (if log_patch_cmd r
              then Utcnow # logged_run (log_path env (log_directory r) (Suc (clock_reads w)) (''_'' @ name r @ ''.log'')) (CHR ''a'') (patch_cmd r) out2 rc2
              else console_run (patch_cmd r) out2 rc2)
            @ [caught env rc2 (patch_cmd r)]"
proof -
  from exec_recipe_patch_run [OF assms(2-7)] obtain w' where
    e: "exec_recipe env r w = (Inl (CalledProcessError rc2 (patch_cmd r)), w')"
    and f: "console w' = console w @ out1 @ out2"
      "log_patch_cmd r \<longrightarrow> (\<exists>old. files w' (log_path env (log_directory r) (Suc (clock_reads w)) (''_'' @ name r @ ''.log'')) = Some (old @ out2))"
      "trace w' = trace w @ Log INFO (''Executing recipe: '' @ name r)
            # Utcnow # logged_run (log_path env (log_directory r) (clock_reads w) ''_package_versions_pre-patch.log'') (CHR ''a'') (package_version_cmd r) out1 0
            @ (if log_patch_cmd r
              then Utcnow # logged_run (log_path env (log_directory r) (Suc (clock_reads w)) (''_'' @ name r @ ''.log'')) (CHR ''a'') (patch_cmd r) out2 rc2
              else console_run (patch_cmd r) out2 rc2)"
    by blast
  from main_run_caught_run [where conf = conf and selected_recipe = selected_recipe, OF assms(1) e]
  have "main_run env conf selected_recipe w
      = (SysExit 0, emit (caught env rc2 (patch_cmd r)) w')" .
  with f show ?thesis
    by (simp add: emit_def)
qed

lemma main_run_bare_patch:
  assumes "conf selected_recipe = Some r"
    and "\<not> log_package_version_cmd r"
    and "shell env (patch_cmd r) (sys w) = (out2, rc2, s2)"
    and "log_patch_cmd r \<longrightarrow> openable env (log_path env (log_directory r) (clock_reads w) (''_'' @ name r @ ''.log''))"
  shows "fst (main_run env conf selected_recipe w) = SysExit 0
       \<and> console (snd (main_run env conf selected_recipe w)) = console w @ out2
       \<and> (log_patch_cmd r \<longrightarrow> (\<exists>old. files (snd (main_run env conf selected_recipe w)) (log_path env (log_directory r) (clock_reads w) (''_'' @ name r @ ''.log'')) = Some (old @ out2)))
       \<and> trace (snd (main_run env conf selected_recipe w))
          = trace w @ Log INFO (''Executing recipe: '' @ name r)
            # (if log_patch_cmd r
              then Utcnow # logged_run (log_path env (log_directory r) (clock_reads w) (''_'' @ name r @ ''.log'')) (CHR ''a'') (patch_cmd r) out2 rc2
              else console_run (patch_cmd r) out2 rc2)
            @ (if rc2 = 0 then [] else [caught env rc2 (patch_cmd r)])"
proof -
  from exec_recipe_bare_patch_run [OF assms(2-4)] obtain w' where
    e: "exec_recipe env r w = (outcome rc2 (patch_cmd r), w')"
    and f: "console w' = console w @ out2"
      "log_patch_cmd r \<longrightarrow> (\<exists>old. files w' (log_path env (log_directory r) (clock_reads w) (''_'' @ name r @ ''.log'')) = Some (old @ out2))"
      "trace w' = trace w @ Log INFO (''Executing recipe: '' @ name r)
            # (if log_patch_cmd r
              then Utcnow # logged_run (log_path env (log_directory r) (clock_reads w) (''_'' @ name r @ ''.log'')) (CHR ''a'') (patch_cmd r) out2 rc2
              else console_run (patch_cmd r) out2 rc2)"
    by blast
  from main_run_outcome [where conf = conf and selected_recipe = selected_recipe, OF assms(1) e]
  have "main_run env conf selected_recipe w
      = (SysExit 0, if rc2 = 0 then w' else emit (caught env rc2 (patch_cmd r)) w')" .
  with f show ?thesis
    by (simp add: emit_def)
qed

lemma main_run_post_patch:
  assumes "conf selected_recipe = Some r"
    and "log_package_version_cmd r"
    and "shell env (package_version_cmd r) (sys w) = (out1, 0, s1)"
    and "openable env (log_path env (log_directory r) (clock_reads w) ''_package_versions_pre-patch.log'')"
    and "shell env (patch_cmd r) s1 = (out2, 0, s2)"
    and "log_patch_cmd r \<longrightarrow> openable env (log_path env (log_directory r) (Suc (clock_reads w)) (''_'' @ name r @ ''.log''))"
    and "shell env (package_version_cmd r) s2 = (out3, rc3, s3)"
    and "openable env (log_path env (log_directory r) (if log_patch_cmd r then Suc (Suc (clock_reads w)) else Suc (clock_reads w)) ''_package_versions_post-patch.log'')"
  shows "fst (main_run env conf selected_recipe w) = SysExit 0
       \<and> console (snd (main_run env conf selected_recipe w)) = console w @ out1 @ out2 @ out3
       \<and> (\<exists>old. files (snd (main_run env conf selected_recipe w)) (log_path env (log_directory r) (if log_patch_cmd r then Suc (Suc (clock_reads w)) else Suc (clock_reads w)) ''_package_versions_post-patch.log'') = Some (old @ out3))
       \<and> trace (snd (main_run env conf selected_recipe w))
          = trace w @ Log INFO (''Executing recipe: '' @ name r)
            # Utcnow # logged_run (log_path env (log_directory r) (clock_reads w) ''_package_versions_pre-patch.log'') (CHR ''a'') (package_version_cmd r) out1 0
            @ (if log_patch_cmd r
              then Utcnow # logged_run (log_path env (log_directory r) (Suc (clock_reads w)) (''_'' @ name r @ ''.log'')) (CHR ''a'') (patch_cmd r) out2 0
              else console_run (patch_cmd r) out2 0)
            @ Utcnow # logged_run (log_path env (log_directory r) (if log_patch_cmd r then Suc (Suc (clock_reads w)) else Suc (clock_reads w)) ''_package_versions_post-patch.log'') (CHR ''a'') (package_version_cmd r) out3 rc3
            @ (if rc3 = 0 then [] else [caught env rc3 (package_version_cmd r)])"
proof -
  from exec_recipe_post_patch_run [OF assms(2-8)] obtain w' where
    e: "exec_recipe env r w = (outcome rc3 (package_version_cmd r), w')"
    and f: "console w' = console w @ out1 @ out2 @ out3"
      "(\<exists>old. files w' (log_path env (log_directory r) (if log_patch_cmd r then Suc (Suc (clock_reads w)) else Suc (clock_reads w)) ''_package_versions_post-patch.log'') = Some (old @ out3))"
      "trace w' = trace w @ Log INFO (''Executing recipe: '' @ name r)
            # Utcnow # logged_run (log_path env (log_directory r) (clock_reads w) ''_package_versions_pre-patch.log'') (CHR ''a'') (package_version_cmd r) out1 0
            @ (if log_patch_cmd r
              then Utcnow # logged_run (log_path env (log_directory r) (Suc (clock_reads w)) (''_'' @ name r @ ''.log'')) (CHR ''a'') (patch_cmd r) out2 0
              else console_run (patch_cmd r) out2 0)
            @ Utcnow # logged_run (log_path env (log_directory r) (if log_patch_cmd r then Suc (Suc (clock_reads w)) else Suc (clock_reads w)) ''_package_versions_post-patch.log'') (CHR ''a'') (package_version_cmd r) out3 rc3"
    by blast
  from main_run_outcome [where conf = conf and selected_recipe = selected_recipe, OF assms(1) e]
  have "main_run env conf selected_recipe w
      = (SysExit 0, if rc3 = 0 then w' else emit (caught env rc3 (package_version_cmd r)) w')" .
  with f show ?thesis
    by (simp add: emit_def)
qed

lemma pkgptch_main_run_outcome:
  assumes "conf selected_recipe = Some r" and "pkgptch_exec_recipe env r w = (outcome rc cmd, w')"
  shows "pkgptch_main_run env conf selected_recipe w
     = (SysExit 0, if rc = 0 then w' else emit (caught env rc cmd) w')"
  using assms by (simp add: pkgptch_main_run_def outcome_def caught_def logger_log_def)

lemma pkgptch_main_run_caught_run:
  assumes "conf selected_recipe = Some r"
    and "pkgptch_exec_recipe env r w = (Inl (CalledProcessError rc cmd), w')"
  shows "pkgptch_main_run env conf selected_recipe w = (SysExit 0, emit (caught env rc cmd) w')"
  using assms by (simp add: pkgptch_main_run_def caught_def logger_log_def)

lemma pkgptch_main_run_pre_patch_fails:
  assumes "conf selected_recipe = Some r"
    and "log_package_version_cmd r"
    and "shell env (package_version_cmd r) (sys w) = (out1, rc1, s1)"
    and "rc1 \<noteq> 0"
    and "openable env (pkgptch_log_path env (clock_reads w) ''_package_versions_pre-patch.log'')"
  shows "fst (pkgptch_main_run env conf selected_recipe w) = SysExit 0
       \<and> console (snd (pkgptch_main_run env conf selected_recipe w)) = console w @ out1
       \<and> files (snd (pkgptch_main_run env conf selected_recipe w)) (pkgptch_log_path env (clock_reads w) ''_package_versions_pre-patch.log'') = Some out1
       \<and> trace (snd (pkgptch_main_run env conf selected_recipe w))
          = trace w @ Log INFO (''Executing recipe: '' @ name r)
            # Now # logged_run (pkgptch_log_path env (clock_reads w) ''_package_versions_pre-patch.log'') (CHR ''w'') (package_version_cmd r) out1 rc1
            @ [caught env rc1 (package_version_cmd r)]"
proof -
  from pkgptch_exec_recipe_pre_patch_run [OF assms(2-5)] obtain w' where
    e: "pkgptch_exec_recipe env r w = (Inl (CalledProcessError rc1 (package_version_cmd r)), w')"
    and f: "console w' = console w @ out1"
      "files w' (pkgptch_log_path env (clock_reads w) ''_package_versions_pre-patch.log'') = Some out1"
      "trace w' = trace w @ Log INFO (''Executing recipe: '' @ name r)
            # Now # logged_run (pkgptch_log_path env (clock_reads w) ''_package_versions_pre-patch.log'') (CHR ''w'') (package_version_cmd r) out1 rc1"
    by blast
  from pkgptch_main_run_caught_run [where conf = conf and selected_recipe = selected_recipe, OF assms(1) e]
  have "pkgptch_main_run env conf selected_recipe w
      = (SysExit 0, emit (caught env rc1 (package_version_cmd r)) w')" .
  with f show ?thesis
    by (simp add: emit_def)
qed

lemma pkgptch_main_run_patch_fails:
  assumes "conf selected_recipe = Some r"
    and "log_package_version_cmd r"
    and "shell env (package_version_cmd r) (sys w) = (out1, 0, s1)"
    and "openable env (pkgptch_log_path env (clock_reads w) ''_package_versions_pre-patch.log'')"
    and "shell env (patch_cmd r) s1 = (out2, rc2, s2)"
    and "rc2 \<noteq> 0"
    and "log_patch_cmd r \<longrightarrow> openable env (pkgptch_log_path env (Suc (clock_reads w)) (''_'' @ name r @ ''.log''))"
  shows "fst (pkgptch_main_run env conf selected_recipe w) = SysExit 0
       \<and> console (snd (pkgptch_main_run env conf selected_recipe w)) = console w @ out1 @ out2
       \<and> (log_patch_cmd r \<longrightarrow> files (snd (pkgptch_main_run env conf selected_recipe w)) (pkgptch_log_path env (Suc (clock_reads w)) (''_'' @ name r @ ''.log'')) = Some out2)
       \<and> trace (snd (pkgptch_main_run env conf selected_recipe w))
          = trace w @ Log INFO (''Executing recipe: '' @ name r)
            # Now # logged_run (pkgptch_log_path env (clock_reads w) ''_package_versions_pre-patch.log'') (CHR ''w'') (package_version_cmd r) out1 0
            @ (if log_patch_cmd r
              then Now # logged_run (pkgptch_log_path env (Suc (clock_reads w)) (''_'' @ name r @ ''.log'')) (CHR ''w'') (patch_cmd r) out2 rc2
              else console_run (patch_cmd r) out2 rc2)
            @ [caught env rc2 (patch_cmd r)]"
proof -
  from pkgptch_exec_recipe_patch_run [OF assms(2-7)] obtain w' where
    e: "pkgptch_exec_recipe env r w = (Inl (CalledProcessError rc2 (patch_cmd r)), w')"
    and f: "console w' = console w @ out1 @ out2"
      "log_patch_cmd r \<longrightarrow> files w' (pkgptch_log_path env (Suc (clock_reads w)) (''_'' @ name r @ ''.log'')) = Some out2"
      "trace w' = trace w @ Log INFO (''Executing recipe: '' @ name r)
            # Now # logged_run (pkgptch_log_path env (clock_reads w) ''_package_versions_pre-patch.log'') (CHR ''w'') (package_version_cmd r) out1 0
            @ (if log_patch_cmd r
              then Now # logged_run (pkgptch_log_path env (Suc (clock_reads w)) (''_'' @ name r @ ''.log'')) (CHR ''w'') (patch_cmd r) out2 rc2
              else console_run (patch_cmd r) out2 rc2)"
    by blast
  from pkgptch_main_run_caught_run [where conf = conf and selected_recipe = selected_recipe, OF assms(1) e]
  have "pkgptch_main_run env conf selected_recipe w
      = (SysExit 0, emit (caught env rc2 (patch_cmd r)) w')" .
  with f show ?thesis
    by (simp add: emit_def)
qed

lemma pkgptch_main_run_bare_patch:
  assumes "conf selected_recipe = Some r"
    and "\<not> log_package_version_cmd r"
    and "shell env (patch_cmd r) (sys w) = (out2, rc2, s2)"
    and "log_patch_cmd r \<longrightarrow> openable env (pkgptch_log_path env (clock_reads w) (''_'' @ name r @ ''.log''))"
  shows "fst (pkgptch_main_run env conf selected_recipe w) = SysExit 0
       \<and> console (snd (pkgptch_main_run env conf selected_recipe w)) = console w @ out2
       \<and> (log_patch_cmd r \<longrightarrow> files (snd (pkgptch_main_run env conf selected_recipe w)) (pkgptch_log_path env (clock_reads w) (''_'' @ name r @ ''.log'')) = Some out2)
       \<and> trace (snd (pkgptch_main_run env conf selected_recipe w))
          = trace w @ Log INFO (''Executing recipe: '' @ name r)
            # (if log_patch_cmd r
              then Now # logged_run (pkgptch_log_path env (clock_reads w) (''_'' @ name r @ ''.log'')) (CHR ''w'') (patch_cmd r) out2 rc2
              else console_run (patch_cmd r) out2 rc2)
            @ (if rc2 = 0 then [] else [caught env rc2 (patch_cmd r)])"
proof -
  from pkgptch_exec_recipe_bare_patch_run [OF assms(2-4)] obtain w' where
    e: "pkgptch_exec_recipe env r w = (outcome rc2 (patch_cmd r), w')"
    and f: "console w' = console w @ out2"
      "log_patch_cmd r \<longrightarrow> files w' (pkgptch_log_path env (clock_reads w) (''_'' @ name r @ ''.log'')) = Some out2"
      "trace w' = trace w @ Log INFO (''Executing recipe: '' @ name r)
            # (if log_patch_cmd r
              then Now # logged_run (pkgptch_log_path env (clock_reads w) (''_'' @ name r @ ''.log'')) (CHR ''w'') (patch_cmd r) out2 rc2
              else console_run (patch_cmd r) out2 rc2)"
    by blast
  from pkgptch_main_run_outcome [where conf = conf and selected_recipe = selected_recipe, OF assms(1) e]
  have "pkgptch_main_run env conf selected_recipe w
      = (SysExit 0, if rc2 = 0 then w' else emit (caught env rc2 (patch_cmd r)) w')" .
  with f show ?thesis
    by (simp add: emit_def)
qed

lemma pkgptch_main_run_post_patch:
  assumes "conf selected_recipe = Some r"
    and "log_package_version_cmd r"
    and "shell env (package_version_cmd r) (sys w) = (out1, 0, s1)"
    and "openable env (pkgptch_log_path env (clock_reads w) ''_package_versions_pre-patch.log'')"
    and "shell env (patch_cmd r) s1 = (out2, 0, s2)"
    and "log_patch_cmd r \<longrightarrow> openable env (pkgptch_log_path env (Suc (clock_reads w)) (''_'' @ name r @ ''.log''))"
    and "shell env (package_version_cmd r) s2 = (out3, rc3, s3)"
    and "openable env (pkgptch_log_path env (if log_patch_cmd r then Suc (Suc (clock_reads w)) else Suc (clock_reads w)) ''_package_versions_post-patch.log'')"
  shows "fst (pkgptch_main_run env conf selected_recipe w) = SysExit 0
       \<and> console (snd (pkgptch_main_run env conf selected_recipe w)) = console w @ out1 @ out2 @ out3
       \<and> files (snd (pkgptch_main_run env conf selected_recipe w)) (pkgptch_log_path env (if log_patch_cmd r then Suc (Suc (clock_reads w)) else Suc (clock_reads w)) ''_package_versions_post-patch.log'') = Some out3
       \<and> trace (snd (pkgptch_main_run env conf selected_recipe w))
          = trace w @ Log INFO (''Executing recipe: '' @ name r)
            # Now # logged_run (pkgptch_log_path env (clock_reads w) ''_package_versions_pre-patch.log'') (CHR ''w'') (package_version_cmd r) out1 0
            @ (if log_patch_cmd r
              then Now # logged_run (pkgptch_log_path env (Suc (clock_reads w)) (''_'' @ name r @ ''.log'')) (CHR ''w'') (patch_cmd r) out2 0
              else console_run (patch_cmd r) out2 0)
            @ Now # logged_run (pkgptch_log_path env (if log_patch_cmd r then Suc (Suc (clock_reads w)) else Suc (clock_reads w)) ''_package_versions_post-patch.log'') (CHR ''w'') (package_version_cmd r) out3 rc3
            @ (if rc3 = 0 then [] else [caught env rc3 (package_version_cmd r)])"
proof -
  from pkgptch_exec_recipe_post_patch_run [OF assms(2-8)] obtain w' where
    e: "pkgptch_exec_recipe env r w = (outcome rc3 (package_version_cmd r), w')"
    and f: "console w' = console w @ out1 @ out2 @ out3"
      "files w' (pkgptch_log_path env (if log_patch_cmd r then Suc (Suc (clock_reads w)) else Suc (clock_reads w)) ''_package_versions_post-patch.log'') = Some out3"
      "trace w' = trace w @ Log INFO (''Executing recipe: '' @ name r)
            # Now # logged_run (pkgptch_log_path env (clock_reads w) ''_package_versions_pre-patch.log'') (CHR ''w'') (package_version_cmd r) out1 0
            @ (if log_patch_cmd r
              then Now # logged_run (pkgptch_log_path env (Suc (clock_reads w)) (''_'' @ name r @ ''.log'')) (CHR ''w'') (patch_cmd r) out2 0
              else console_run (patch_cmd r) out2 0)
            @ Now # logged_run (pkgptch_log_path env (if log_patch_cmd r then Suc (Suc (clock_reads w)) else Suc (clock_reads w)) ''_package_versions_post-patch.log'') (CHR ''w'') (package_version_cmd r) out3 rc3"
    by blast
  from pkgptch_main_run_outcome [where conf = conf and selected_recipe = selected_recipe, OF assms(1) e]
  have "pkgptch_main_run env conf selected_recipe w
      = (SysExit 0, if rc3 = 0 then w' else emit (caught env rc3 (package_version_cmd r)) w')" .
  with f show ?thesis
    by (simp add: emit_def)
qed

subsection \<open>A failing command is caught at the top level\<close>

lemma last_logged_run: "last (logged_run p mode cmd out rc) = Close p"
  by (simp add: logged_run_def)

lemma last_console_run: "last (console_run cmd out rc) = Wait rc"
  by (simp add: console_run_def)

lemma read_nat_snoc: "read_nat (s @ [c]) = 10 * read_nat s + (of_char c - 48)"
  by (simp add: read_nat_def)

lemma read_nat_show_nat: "read_nat (show_nat n) = n"
proof (induction n rule: show_nat.induct)
  case (1 n)
  show ?case
  proof (cases "n < 10")
    case True
    then have "show_nat n = [''0123456789'' ! n]"
      by (simp add: show_nat.simps)
    with digit_value [OF True] show ?thesis
      by (simp add: read_nat_def)
  next
    case False
    then have s: "show_nat n = show_nat (n div 10) @ [''0123456789'' ! (n mod 10)]"
      by (simp add: show_nat.simps)
    have d: "n mod 10 < 10"
      by simp
    have "read_nat (show_nat n) = 10 * read_nat (show_nat (n div 10)) + n mod 10"
      unfolding s read_nat_snoc digit_value [OF d] ..
    also have "\<dots> = 10 * (n div 10) + n mod 10"
      by (simp only: 1 [OF False])
    also have "\<dots> = n"
      by simp
    finally show ?thesis .
  qed
qed

text \<open>
  C8. A command that exits with a non-zero code has had all its output printed (and
  written to its log file, which is closed) when \<^verbatim>\<open>execute\<close> raises
  \<^verbatim>\<open>CalledProcessError\<close>: the events of the call are the complete run of the command.
  Whichever command of the selected recipe exits with a non-zero code (the pre-patch
  inventory, the patch with or without the inventory, logged or not, or the post-patch
  inventory), the program ends with \<^verbatim>\<open>exit(0)\<close> and not with a traceback; the console
  holds the whole output of every command that ran, the log file of the failing
  command ends with its whole output, and the events of the program are the runs of
  the commands, each complete, followed by one error message made from the exception
  and nothing else. A \<^verbatim>\<open>CalledProcessError\<close> never leaves the program as a traceback.
  The message names the command and, for an exit code, the code as a decimal numeral;
  for a command killed by a signal it names the signal. All of this holds for
  \<^verbatim>\<open>logpatch.py\<close> and for \<^verbatim>\<open>pkgptch.py\<close>.
\<close>

theorem called_process_error_is_drained_and_caught:
  "(shell env cmd (sys w) = (out, rc, s') \<and> rc \<noteq> 0 \<longrightarrow>
       fst (execute env cmd [] w) = Inl (CalledProcessError rc cmd)
     \<and> console (snd (execute env cmd [] w)) = console w @ out
     \<and> trace (snd (execute env cmd [] w)) = trace w @ console_run cmd out rc
     \<and> fst (pkgptch_execute env cmd [] w) = Inl (CalledProcessError rc cmd)
     \<and> console (snd (pkgptch_execute env cmd [] w)) = console w @ out
     \<and> trace (snd (pkgptch_execute env cmd [] w)) = trace w @ console_run cmd out rc)
 \<and> (shell env cmd (sys w) = (out, rc, s') \<and> rc \<noteq> 0 \<and> log_file \<noteq> [] \<and> openable env log_file \<longrightarrow>
       fst (execute env cmd log_file w) = Inl (CalledProcessError rc cmd)
     \<and> console (snd (execute env cmd log_file w)) = console w @ out
     \<and> files (snd (execute env cmd log_file w)) log_file
         = Some ((case files w log_file of None \<Rightarrow> [] | Some old \<Rightarrow> old) @ out)
     \<and> last (trace (snd (execute env cmd log_file w))) = Close log_file
     \<and> trace (snd (execute env cmd log_file w)) = trace w @ logged_run log_file (CHR ''a'') cmd out rc
     \<and> fst (pkgptch_execute env cmd log_file w) = Inl (CalledProcessError rc cmd)
     \<and> console (snd (pkgptch_execute env cmd log_file w)) = console w @ out
     \<and> files (snd (pkgptch_execute env cmd log_file w)) log_file = Some out
     \<and> last (trace (snd (pkgptch_execute env cmd log_file w))) = Close log_file
     \<and> trace (snd (pkgptch_execute env cmd log_file w)) = trace w @ logged_run log_file (CHR ''w'') cmd out rc)
 \<and> (conf selected_recipe = Some r
    \<and> log_package_version_cmd r
    \<and> shell env (package_version_cmd r) (sys w) = (out1, rc1, s1)
    \<and> rc1 \<noteq> 0
    \<and> openable env (log_path env (log_directory r) (clock_reads w) ''_package_versions_pre-patch.log'')
  \<longrightarrow> fst (main_run env conf selected_recipe w) = SysExit 0
    \<and> console (snd (main_run env conf selected_recipe w)) = console w @ out1
    \<and> (\<exists>old. files (snd (main_run env conf selected_recipe w))
          (log_path env (log_directory r) (clock_reads w) ''_package_versions_pre-patch.log'')
          = Some (old @ out1))
    \<and> trace (snd (main_run env conf selected_recipe w))
          = trace w @ Log INFO (''Executing recipe: '' @ name r)
            # Utcnow # logged_run (log_path env (log_directory r) (clock_reads w) ''_package_versions_pre-patch.log'')
                (CHR ''a'') (package_version_cmd r) out1 rc1
            @ [caught env rc1 (package_version_cmd r)])
 \<and> (conf selected_recipe = Some r
    \<and> log_package_version_cmd r
    \<and> shell env (package_version_cmd r) (sys w) = (out1, 0, s1)
    \<and> openable env (log_path env (log_directory r) (clock_reads w) ''_package_versions_pre-patch.log'')
    \<and> shell env (patch_cmd r) s1 = (out2, rc2, s2)
    \<and> rc2 \<noteq> 0
    \<and> (log_patch_cmd r \<longrightarrow> openable env (log_path env (log_directory r) (Suc (clock_reads w)) (''_'' @ name r @ ''.log'')))
  \<longrightarrow> fst (main_run env conf selected_recipe w) = SysExit 0
    \<and> console (snd (main_run env conf selected_recipe w)) = console w @ out1 @ out2
    \<and> (log_patch_cmd r \<longrightarrow> (\<exists>old. files (snd (main_run env conf selected_recipe w))
          (log_path env (log_directory r) (Suc (clock_reads w)) (''_'' @ name r @ ''.log''))
          = Some (old @ out2)))
    \<and> trace (snd (main_run env conf selected_recipe w))
          = trace w @ Log INFO (''Executing recipe: '' @ name r)
            # Utcnow # logged_run (log_path env (log_directory r) (clock_reads w) ''_package_versions_pre-patch.log'')
                (CHR ''a'') (package_version_cmd r) out1 0
            @ (if log_patch_cmd r
              then Utcnow # logged_run (log_path env (log_directory r) (Suc (clock_reads w)) (''_'' @ name r @ ''.log''))
                (CHR ''a'') (patch_cmd r) out2 rc2
              else console_run (patch_cmd r) out2 rc2)
            @ [caught env rc2 (patch_cmd r)])
 \<and> (conf selected_recipe = Some r
    \<and> \<not> log_package_version_cmd r
    \<and> shell env (patch_cmd r) (sys w) = (out2, rc2, s2)
    \<and> rc2 \<noteq> 0
    \<and> (log_patch_cmd r \<longrightarrow> openable env (log_path env (log_directory r) (clock_reads w) (''_'' @ name r @ ''.log'')))
  \<longrightarrow> fst (main_run env conf selected_recipe w) = SysExit 0
    \<and> console (snd (main_run env conf selected_recipe w)) = console w @ out2
    \<and> (log_patch_cmd r \<longrightarrow> (\<exists>old. files (snd (main_run env conf selected_recipe w))
          (log_path env (log_directory r) (clock_reads w) (''_'' @ name r @ ''.log''))
          = Some (old @ out2)))
    \<and> trace (snd (main_run env conf selected_recipe w))
          = trace w @ Log INFO (''Executing recipe: '' @ name r)
            # (if log_patch_cmd r
              then Utcnow # logged_run (log_path env (log_directory r) (clock_reads w) (''_'' @ name r @ ''.log''))
                (CHR ''a'') (patch_cmd r) out2 rc2
              else console_run (patch_cmd r) out2 rc2)
            @ [caught env rc2 (patch_cmd r)])
 \<and> (conf selected_recipe = Some r
    \<and> log_package_version_cmd r
    \<and> shell env (package_version_cmd r) (sys w) = (out1, 0, s1)
    \<and> openable env (log_path env (log_directory r) (clock_reads w) ''_package_versions_pre-patch.log'')
    \<and> shell env (patch_cmd r) s1 = (out2, 0, s2)
    \<and> (log_patch_cmd r \<longrightarrow> openable env (log_path env (log_directory r) (Suc (clock_reads w)) (''_'' @ name r @ ''.log'')))
    \<and> shell env (package_version_cmd r) s2 = (out3, rc3, s3)
    \<and> rc3 \<noteq> 0
    \<and> openable env (log_path env (log_directory r)
              (if log_patch_cmd r then Suc (Suc (clock_reads w)) else Suc (clock_reads w))
              ''_package_versions_post-patch.log'')
  \<longrightarrow> fst (main_run env conf selected_recipe w) = SysExit 0
    \<and> console (snd (main_run env conf selected_recipe w)) = console w @ out1 @ out2 @ out3
    \<and> (\<exists>old. files (snd (main_run env conf selected_recipe w))
          (log_path env (log_directory r)
              (if log_patch_cmd r then Suc (Suc (clock_reads w)) else Suc (clock_reads w))
              ''_package_versions_post-patch.log'')
          = Some (old @ out3))
    \<and> trace (snd (main_run env conf selected_recipe w))
          = trace w @ Log INFO (''Executing recipe: '' @ name r)
            # Utcnow # logged_run (log_path env (log_directory r) (clock_reads w) ''_package_versions_pre-patch.log'')
                (CHR ''a'') (package_version_cmd r) out1 0
            @ (if log_patch_cmd r
              then Utcnow # logged_run (log_path env (log_directory r) (Suc (clock_reads w)) (''_'' @ name r @ ''.log''))
                (CHR ''a'') (patch_cmd r) out2 0
              else console_run (patch_cmd r) out2 0)
            @ Utcnow # logged_run (log_path env (log_directory r)
              (if log_patch_cmd r then Suc (Suc (clock_reads w)) else Suc (clock_reads w))
              ''_package_versions_post-patch.log'')
                (CHR ''a'') (package_version_cmd r) out3 rc3
            @ [caught env rc3 (package_version_cmd r)])
 \<and> (conf selected_recipe = Some r
    \<and> log_package_version_cmd r
    \<and> shell env (package_version_cmd r) (sys w) = (out1, rc1, s1)
    \<and> rc1 \<noteq> 0
    \<and> openable env (pkgptch_log_path env (clock_reads w) ''_package_versions_pre-patch.log'')
  \<longrightarrow> fst (pkgptch_main_run env conf selected_recipe w) = SysExit 0
    \<and> console (snd (pkgptch_main_run env conf selected_recipe w)) = console w @ out1
    \<and> files (snd (pkgptch_main_run env conf selected_recipe w))
          (pkgptch_log_path env (clock_reads w) ''_package_versions_pre-patch.log'')
          = Some out1
    \<and> trace (snd (pkgptch_main_run env conf selected_recipe w))
          = trace w @ Log INFO (''Executing recipe: '' @ name r)
            # Now # logged_run (pkgptch_log_path env (clock_reads w) ''_package_versions_pre-patch.log'')
                (CHR ''w'') (package_version_cmd r) out1 rc1
            @ [caught env rc1 (package_version_cmd r)])
 \<and> (conf selected_recipe = Some r
    \<and> log_package_version_cmd r
    \<and> shell env (package_version_cmd r) (sys w) = (out1, 0, s1)
    \<and> openable env (pkgptch_log_path env (clock_reads w) ''_package_versions_pre-patch.log'')
    \<and> shell env (patch_cmd r) s1 = (out2, rc2, s2)
    \<and> rc2 \<noteq> 0
    \<and> (log_patch_cmd r \<longrightarrow> openable env (pkgptch_log_path env (Suc (clock_reads w)) (''_'' @ name r @ ''.log'')))
  \<longrightarrow> fst (pkgptch_main_run env conf selected_recipe w) = SysExit 0
    \<and> console (snd (pkgptch_main_run env conf selected_recipe w)) = console w @ out1 @ out2
    \<and> (log_patch_cmd r \<longrightarrow> files (snd (pkgptch_main_run env conf selected_recipe w))
          (pkgptch_log_path env (Suc (clock_reads w)) (''_'' @ name r @ ''.log''))
          = Some out2)
    \<and> trace (snd (pkgptch_main_run env conf selected_recipe w))
          = trace w @ Log INFO (''Executing recipe: '' @ name r)
            # Now # logged_run (pkgptch_log_path env (clock_reads w) ''_package_versions_pre-patch.log'')
                (CHR ''w'') (package_version_cmd r) out1 0
            @ (if log_patch_cmd r
              then Now # logged_run (pkgptch_log_path env (Suc (clock_reads w)) (''_'' @ name r @ ''.log''))
                (CHR ''w'') (patch_cmd r) out2 rc2
              else console_run (patch_cmd r) out2 rc2)
            @ [caught env rc2 (patch_cmd r)])
 \<and> (conf selected_recipe = Some r
    \<and> \<not> log_package_version_cmd r
    \<and> shell env (patch_cmd r) (sys w) = (out2, rc2, s2)
    \<and> rc2 \<noteq> 0
    \<and> (log_patch_cmd r \<longrightarrow> openable env (pkgptch_log_path env (clock_reads w) (''_'' @ name r @ ''.log'')))
  \<longrightarrow> fst (pkgptch_main_run env conf selected_recipe w) = SysExit 0
    \<and> console (snd (pkgptch_main_run env conf selected_recipe w)) = console w @ out2
    \<and> (log_patch_cmd r \<longrightarrow> files (snd (pkgptch_main_run env conf selected_recipe w))
          (pkgptch_log_path env (clock_reads w) (''_'' @ name r @ ''.log''))
          = Some out2)
    \<and> trace (snd (pkgptch_main_run env conf selected_recipe w))
          = trace w @ Log INFO (''Executing recipe: '' @ name r)
            # (if log_patch_cmd r
              then Now # logged_run (pkgptch_log_path env (clock_reads w) (''_'' @ name r @ ''.log''))
                (CHR ''w'') (patch_cmd r) out2 rc2
              else console_run (patch_cmd r) out2 rc2)
            @ [caught env rc2 (patch_cmd r)])
 \<and> (conf selected_recipe = Some r
    \<and> log_package_version_cmd r
    \<and> shell env (package_version_cmd r) (sys w) = (out1, 0, s1)
    \<and> openable env (pkgptch_log_path env (clock_reads w) ''_package_versions_pre-patch.log'')
    \<and> shell env (patch_cmd r) s1 = (out2, 0, s2)
    \<and> (log_patch_cmd r \<longrightarrow> openable env (pkgptch_log_path env (Suc (clock_reads w)) (''_'' @ name r @ ''.log'')))
    \<and> shell env (package_version_cmd r) s2 = (out3, rc3, s3)
    \<and> rc3 \<noteq> 0
    \<and> openable env (pkgptch_log_path env
              (if log_patch_cmd r then Suc (Suc (clock_reads w)) else Suc (clock_reads w))
              ''_package_versions_post-patch.log'')
  \<longrightarrow> fst (pkgptch_main_run env conf selected_recipe w) = SysExit 0
    \<and> console (snd (pkgptch_main_run env conf selected_recipe w)) = console w @ out1 @ out2 @ out3
    \<and> files (snd (pkgptch_main_run env conf selected_recipe w))
          (pkgptch_log_path env
              (if log_patch_cmd r then Suc (Suc (clock_reads w)) else Suc (clock_reads w))
              ''_package_versions_post-patch.log'')
          = Some out3
    \<and> trace (snd (pkgptch_main_run env conf selected_recipe w))
          = trace w @ Log INFO (''Executing recipe: '' @ name r)
            # Now # logged_run (pkgptch_log_path env (clock_reads w) ''_package_versions_pre-patch.log'')
                (CHR ''w'') (package_version_cmd r) out1 0
            @ (if log_patch_cmd r
              then Now # logged_run (pkgptch_log_path env (Suc (clock_reads w)) (''_'' @ name r @ ''.log''))
                (CHR ''w'') (patch_cmd r) out2 0
              else console_run (patch_cmd r) out2 0)
            @ Now # logged_run (pkgptch_log_path env
              (if log_patch_cmd r then Suc (Suc (clock_reads w)) else Suc (clock_reads w))
              ''_package_versions_post-patch.log'')
                (CHR ''w'') (package_version_cmd r) out3 rc3
            @ [caught env rc3 (package_version_cmd r)])
 \<and> fst (main_run env conf selected_recipe w) \<noteq> Traceback (CalledProcessError rc cmd)
 \<and> fst (pkgptch_main_run env conf selected_recipe w) \<noteq> Traceback (CalledProcessError rc cmd)
 \<and> (0 < rc \<longrightarrow>
       str_CalledProcessError env rc cmd
         = ''Command '' @ [CHR 0x27] @ cmd @ [CHR 0x27] @ '' returned non-zero exit status ''
           @ show_nat (nat rc) @ ''.''
     \<and> read_nat (show_nat (nat rc)) = nat rc)
 \<and> (rc < 0 \<longrightarrow>
       str_CalledProcessError env rc cmd
         = ''Command '' @ [CHR 0x27] @ cmd @ [CHR 0x27] @ '' died with ''
           @ (case signal_repr env (nat (- rc)) of
                Some signal \<Rightarrow> signal
              | None \<Rightarrow> ''unknown signal '' @ show_nat (nat (- rc)))
           @ ''.'')"
proof -
  have e1: "(shell env cmd (sys w) = (out, rc, s') \<and> rc \<noteq> 0 \<longrightarrow>
       fst (execute env cmd [] w) = Inl (CalledProcessError rc cmd)
     \<and> console (snd (execute env cmd [] w)) = console w @ out
     \<and> trace (snd (execute env cmd [] w)) = trace w @ console_run cmd out rc
     \<and> fst (pkgptch_execute env cmd [] w) = Inl (CalledProcessError rc cmd)
     \<and> console (snd (pkgptch_execute env cmd [] w)) = console w @ out
     \<and> trace (snd (pkgptch_execute env cmd [] w)) = trace w @ console_run cmd out rc)"
  proof (intro impI, elim conjE)
    assume s: "shell env cmd (sys w) = (out, rc, s')" and rc: "rc \<noteq> 0"
    from rc show "fst (execute env cmd [] w) = Inl (CalledProcessError rc cmd)
     \<and> console (snd (execute env cmd [] w)) = console w @ out
     \<and> trace (snd (execute env cmd [] w)) = trace w @ console_run cmd out rc
     \<and> fst (pkgptch_execute env cmd [] w) = Inl (CalledProcessError rc cmd)
     \<and> console (snd (pkgptch_execute env cmd [] w)) = console w @ out
     \<and> trace (snd (pkgptch_execute env cmd [] w)) = trace w @ console_run cmd out rc"
      by (simp add: execute_console [OF s] pkgptch_execute_console [OF s] outcome_fail console_run_def)
  qed
  have e2: "(shell env cmd (sys w) = (out, rc, s') \<and> rc \<noteq> 0 \<and> log_file \<noteq> [] \<and> openable env log_file \<longrightarrow>
       fst (execute env cmd log_file w) = Inl (CalledProcessError rc cmd)
     \<and> console (snd (execute env cmd log_file w)) = console w @ out
     \<and> files (snd (execute env cmd log_file w)) log_file
         = Some ((case files w log_file of None \<Rightarrow> [] | Some old \<Rightarrow> old) @ out)
     \<and> last (trace (snd (execute env cmd log_file w))) = Close log_file
     \<and> trace (snd (execute env cmd log_file w)) = trace w @ logged_run log_file (CHR ''a'') cmd out rc
     \<and> fst (pkgptch_execute env cmd log_file w) = Inl (CalledProcessError rc cmd)
     \<and> console (snd (pkgptch_execute env cmd log_file w)) = console w @ out
     \<and> files (snd (pkgptch_execute env cmd log_file w)) log_file = Some out
     \<and> last (trace (snd (pkgptch_execute env cmd log_file w))) = Close log_file
     \<and> trace (snd (pkgptch_execute env cmd log_file w)) = trace w @ logged_run log_file (CHR ''w'') cmd out rc)"
  proof (intro impI, elim conjE)
    assume s: "shell env cmd (sys w) = (out, rc, s')" and rc: "rc \<noteq> 0"
      and l: "log_file \<noteq> []" and o: "openable env log_file"
    from rc show "fst (execute env cmd log_file w) = Inl (CalledProcessError rc cmd)
     \<and> console (snd (execute env cmd log_file w)) = console w @ out
     \<and> files (snd (execute env cmd log_file w)) log_file
         = Some ((case files w log_file of None \<Rightarrow> [] | Some old \<Rightarrow> old) @ out)
     \<and> last (trace (snd (execute env cmd log_file w))) = Close log_file
     \<and> trace (snd (execute env cmd log_file w)) = trace w @ logged_run log_file (CHR ''a'') cmd out rc
     \<and> fst (pkgptch_execute env cmd log_file w) = Inl (CalledProcessError rc cmd)
     \<and> console (snd (pkgptch_execute env cmd log_file w)) = console w @ out
     \<and> files (snd (pkgptch_execute env cmd log_file w)) log_file = Some out
     \<and> last (trace (snd (pkgptch_execute env cmd log_file w))) = Close log_file
     \<and> trace (snd (pkgptch_execute env cmd log_file w)) = trace w @ logged_run log_file (CHR ''w'') cmd out rc"
      by (simp add: execute_file [OF s l o] pkgptch_execute_file [OF s l o] outcome_fail logged_run_def)
  qed
  have ma': "fst (main_run env conf selected_recipe w) = SysExit 0
       \<and> console (snd (main_run env conf selected_recipe w)) = console w @ out1
       \<and> (\<exists>old. files (snd (main_run env conf selected_recipe w))
          (log_path env (log_directory r) (clock_reads w) ''_package_versions_pre-patch.log'')
          = Some (old @ out1))
       \<and> trace (snd (main_run env conf selected_recipe w))
          = trace w @ Log INFO (''Executing recipe: '' @ name r)
            # Utcnow # logged_run (log_path env (log_directory r) (clock_reads w) ''_package_versions_pre-patch.log'')
                (CHR ''a'') (package_version_cmd r) out1 rc1
            @ [caught env rc1 (package_version_cmd r)]"
    if "conf selected_recipe = Some r"
      "log_package_version_cmd r"
      "shell env (package_version_cmd r) (sys w) = (out1, rc1, s1)"
      "rc1 \<noteq> 0"
      "openable env (log_path env (log_directory r) (clock_reads w) ''_package_versions_pre-patch.log'')"
    using main_run_pre_patch_fails [where conf = conf and selected_recipe = selected_recipe,
        OF that]
    by simp
  have ma: "(conf selected_recipe = Some r
    \<and> log_package_version_cmd r
    \<and> shell env (package_version_cmd r) (sys w) = (out1, rc1, s1)
    \<and> rc1 \<noteq> 0
    \<and> openable env (log_path env (log_directory r) (clock_reads w) ''_package_versions_pre-patch.log'')
  \<longrightarrow> fst (main_run env conf selected_recipe w) = SysExit 0
    \<and> console (snd (main_run env conf selected_recipe w)) = console w @ out1
    \<and> (\<exists>old. files (snd (main_run env conf selected_recipe w))
          (log_path env (log_directory r) (clock_reads w) ''_package_versions_pre-patch.log'')
          = Some (old @ out1))
    \<and> trace (snd (main_run env conf selected_recipe w))
          = trace w @ Log INFO (''Executing recipe: '' @ name r)
            # Utcnow # logged_run (log_path env (log_directory r) (clock_reads w) ''_package_versions_pre-patch.log'')
                (CHR ''a'') (package_version_cmd r) out1 rc1
            @ [caught env rc1 (package_version_cmd r)])"
    using ma' by blast
  have mb1': "fst (main_run env conf selected_recipe w) = SysExit 0
       \<and> console (snd (main_run env conf selected_recipe w)) = console w @ out1 @ out2
       \<and> (log_patch_cmd r \<longrightarrow> (\<exists>old. files (snd (main_run env conf selected_recipe w))
          (log_path env (log_directory r) (Suc (clock_reads w)) (''_'' @ name r @ ''.log''))
          = Some (old @ out2)))
       \<and> trace (snd (main_run env conf selected_recipe w))
          = trace w @ Log INFO (''Executing recipe: '' @ name r)
            # Utcnow # logged_run (log_path env (log_directory r) (clock_reads w) ''_package_versions_pre-patch.log'')
                (CHR ''a'') (package_version_cmd r) out1 0
            @ (if log_patch_cmd r
              then Utcnow # logged_run (log_path env (log_directory r) (Suc (clock_reads w)) (''_'' @ name r @ ''.log''))
                (CHR ''a'') (patch_cmd r) out2 rc2
              else console_run (patch_cmd r) out2 rc2)
            @ [caught env rc2 (patch_cmd r)]"
    if "conf selected_recipe = Some r"
      "log_package_version_cmd r"
      "shell env (package_version_cmd r) (sys w) = (out1, 0, s1)"
      "openable env (log_path env (log_directory r) (clock_reads w) ''_package_versions_pre-patch.log'')"
      "shell env (patch_cmd r) s1 = (out2, rc2, s2)"
      "rc2 \<noteq> 0"
      "log_patch_cmd r \<longrightarrow> openable env (log_path env (log_directory r) (Suc (clock_reads w)) (''_'' @ name r @ ''.log''))"
    using main_run_patch_fails [where conf = conf and selected_recipe = selected_recipe,
        OF that]
    by simp
  have mb1: "(conf selected_recipe = Some r
    \<and> log_package_version_cmd r
    \<and> shell env (package_version_cmd r) (sys w) = (out1, 0, s1)
    \<and> openable env (log_path env (log_directory r) (clock_reads w) ''_package_versions_pre-patch.log'')
    \<and> shell env (patch_cmd r) s1 = (out2, rc2, s2)
    \<and> rc2 \<noteq> 0
    \<and> (log_patch_cmd r \<longrightarrow> openable env (log_path env (log_directory r) (Suc (clock_reads w)) (''_'' @ name r @ ''.log'')))
  \<longrightarrow> fst (main_run env conf selected_recipe w) = SysExit 0
    \<and> console (snd (main_run env conf selected_recipe w)) = console w @ out1 @ out2
    \<and> (log_patch_cmd r \<longrightarrow> (\<exists>old. files (snd (main_run env conf selected_recipe w))
          (log_path env (log_directory r) (Suc (clock_reads w)) (''_'' @ name r @ ''.log''))
          = Some (old @ out2)))
    \<and> trace (snd (main_run env conf selected_recipe w))
          = trace w @ Log INFO (''Executing recipe: '' @ name r)
            # Utcnow # logged_run (log_path env (log_directory r) (clock_reads w) ''_package_versions_pre-patch.log'')
                (CHR ''a'') (package_version_cmd r) out1 0
            @ (if log_patch_cmd r
              then Utcnow # logged_run (log_path env (log_directory r) (Suc (clock_reads w)) (''_'' @ name r @ ''.log''))
                (CHR ''a'') (patch_cmd r) out2 rc2
              else console_run (patch_cmd r) out2 rc2)
            @ [caught env rc2 (patch_cmd r)])"
    using mb1' by blast
  have mb2': "fst (main_run env conf selected_recipe w) = SysExit 0
       \<and> console (snd (main_run env conf selected_recipe w)) = console w @ out2
       \<and> (log_patch_cmd r \<longrightarrow> (\<exists>old. files (snd (main_run env conf selected_recipe w))
          (log_path env (log_directory r) (clock_reads w) (''_'' @ name r @ ''.log''))
          = Some (old @ out2)))
       \<and> trace (snd (main_run env conf selected_recipe w))
          = trace w @ Log INFO (''Executing recipe: '' @ name r)
            # (if log_patch_cmd r
              then Utcnow # logged_run (log_path env (log_directory r) (clock_reads w) (''_'' @ name r @ ''.log''))
                (CHR ''a'') (patch_cmd r) out2 rc2
              else console_run (patch_cmd r) out2 rc2)
            @ [caught env rc2 (patch_cmd r)]"
    if "conf selected_recipe = Some r"
      "\<not> log_package_version_cmd r"
      "shell env (patch_cmd r) (sys w) = (out2, rc2, s2)"
      "rc2 \<noteq> 0"
      "log_patch_cmd r \<longrightarrow> openable env (log_path env (log_directory r) (clock_reads w) (''_'' @ name r @ ''.log''))"
    using main_run_bare_patch [where conf = conf and selected_recipe = selected_recipe,
        OF that(1,2,3,5)] that(4)
    by simp
  have mb2: "(conf selected_recipe = Some r
    \<and> \<not> log_package_version_cmd r
    \<and> shell env (patch_cmd r) (sys w) = (out2, rc2, s2)
    \<and> rc2 \<noteq> 0
    \<and> (log_patch_cmd r \<longrightarrow> openable env (log_path env (log_directory r) (clock_reads w) (''_'' @ name r @ ''.log'')))
  \<longrightarrow> fst (main_run env conf selected_recipe w) = SysExit 0
    \<and> console (snd (main_run env conf selected_recipe w)) = console w @ out2
    \<and> (log_patch_cmd r \<longrightarrow> (\<exists>old. files (snd (main_run env conf selected_recipe w))
          (log_path env (log_directory r) (clock_reads w) (''_'' @ name r @ ''.log''))
          = Some (old @ out2)))
    \<and> trace (snd (main_run env conf selected_recipe w))
          = trace w @ Log INFO (''Executing recipe: '' @ name r)
            # (if log_patch_cmd r
              then Utcnow # logged_run (log_path env (log_directory r) (clock_reads w) (''_'' @ name r @ ''.log''))
                (CHR ''a'') (patch_cmd r) out2 rc2
              else console_run (patch_cmd r) out2 rc2)
            @ [caught env rc2 (patch_cmd r)])"
    using mb2' by blast
  have mc': "fst (main_run env conf selected_recipe w) = SysExit 0
       \<and> console (snd (main_run env conf selected_recipe w)) = console w @ out1 @ out2 @ out3
       \<and> (\<exists>old. files (snd (main_run env conf selected_recipe w))
          (log_path env (log_directory r)
              (if log_patch_cmd r then Suc (Suc (clock_reads w)) else Suc (clock_reads w))
              ''_package_versions_post-patch.log'')
          = Some (old @ out3))
       \<and> trace (snd (main_run env conf selected_recipe w))
          = trace w @ Log INFO (''Executing recipe: '' @ name r)
            # Utcnow # logged_run (log_path env (log_directory r) (clock_reads w) ''_package_versions_pre-patch.log'')
                (CHR ''a'') (package_version_cmd r) out1 0
            @ (if log_patch_cmd r
              then Utcnow # logged_run (log_path env (log_directory r) (Suc (clock_reads w)) (''_'' @ name r @ ''.log''))
                (CHR ''a'') (patch_cmd r) out2 0
              else console_run (patch_cmd r) out2 0)
            @ Utcnow # logged_run (log_path env (log_directory r)
              (if log_patch_cmd r then Suc (Suc (clock_reads w)) else Suc (clock_reads w))
              ''_package_versions_post-patch.log'')
                (CHR ''a'') (package_version_cmd r) out3 rc3
            @ [caught env rc3 (package_version_cmd r)]"
    if "conf selected_recipe = Some r"
      "log_package_version_cmd r"
      "shell env (package_version_cmd r) (sys w) = (out1, 0, s1)"
      "openable env (log_path env (log_directory r) (clock_reads w) ''_package_versions_pre-patch.log'')"
      "shell env (patch_cmd r) s1 = (out2, 0, s2)"
      "log_patch_cmd r \<longrightarrow> openable env (log_path env (log_directory r) (Suc (clock_reads w)) (''_'' @ name r @ ''.log''))"
      "shell env (package_version_cmd r) s2 = (out3, rc3, s3)"
      "rc3 \<noteq> 0"
      "openable env (log_path env (log_directory r)
              (if log_patch_cmd r then Suc (Suc (clock_reads w)) else Suc (clock_reads w))
              ''_package_versions_post-patch.log'')"
    using main_run_post_patch [where conf = conf and selected_recipe = selected_recipe,
        OF that(1,2,3,4,5,6,7,9)] that(8)
    by simp
  have mc: "(conf selected_recipe = Some r
    \<and> log_package_version_cmd r
    \<and> shell env (package_version_cmd r) (sys w) = (out1, 0, s1)
    \<and> openable env (log_path env (log_directory r) (clock_reads w) ''_package_versions_pre-patch.log'')
    \<and> shell env (patch_cmd r) s1 = (out2, 0, s2)
    \<and> (log_patch_cmd r \<longrightarrow> openable env (log_path env (log_directory r) (Suc (clock_reads w)) (''_'' @ name r @ ''.log'')))
    \<and> shell env (package_version_cmd r) s2 = (out3, rc3, s3)
    \<and> rc3 \<noteq> 0
    \<and> openable env (log_path env (log_directory r)
              (if log_patch_cmd r then Suc (Suc (clock_reads w)) else Suc (clock_reads w))
              ''_package_versions_post-patch.log'')
  \<longrightarrow> fst (main_run env conf selected_recipe w) = SysExit 0
    \<and> console (snd (main_run env conf selected_recipe w)) = console w @ out1 @ out2 @ out3
    \<and> (\<exists>old. files (snd (main_run env conf selected_recipe w))
          (log_path env (log_directory r)
              (if log_patch_cmd r then Suc (Suc (clock_reads w)) else Suc (clock_reads w))
              ''_package_versions_post-patch.log'')
          = Some (old @ out3))
    \<and> trace (snd (main_run env conf selected_recipe w))
          = trace w @ Log INFO (''Executing recipe: '' @ name r)
            # Utcnow # logged_run (log_path env (log_directory r) (clock_reads w) ''_package_versions_pre-patch.log'')
                (CHR ''a'') (package_version_cmd r) out1 0
            @ (if log_patch_cmd r
              then Utcnow # logged_run (log_path env (log_directory r) (Suc (clock_reads w)) (''_'' @ name r @ ''.log''))
                (CHR ''a'') (patch_cmd r) out2 0
              else console_run (patch_cmd r) out2 0)
            @ Utcnow # logged_run (log_path env (log_directory r)
              (if log_patch_cmd r then Suc (Suc (clock_reads w)) else Suc (clock_reads w))
              ''_package_versions_post-patch.log'')
                (CHR ''a'') (package_version_cmd r) out3 rc3
            @ [caught env rc3 (package_version_cmd r)])"
    using mc' by blast
  have pa': "fst (pkgptch_main_run env conf selected_recipe w) = SysExit 0
       \<and> console (snd (pkgptch_main_run env conf selected_recipe w)) = console w @ out1
       \<and> files (snd (pkgptch_main_run env conf selected_recipe w))
          (pkgptch_log_path env (clock_reads w) ''_package_versions_pre-patch.log'')
          = Some out1
       \<and> trace (snd (pkgptch_main_run env conf selected_recipe w))
          = trace w @ Log INFO (''Executing recipe: '' @ name r)
            # Now # logged_run (pkgptch_log_path env (clock_reads w) ''_package_versions_pre-patch.log'')
                (CHR ''w'') (package_version_cmd r) out1 rc1
            @ [caught env rc1 (package_version_cmd r)]"
    if "conf selected_recipe = Some r"
      "log_package_version_cmd r"
      "shell env (package_version_cmd r) (sys w) = (out1, rc1, s1)"
      "rc1 \<noteq> 0"
      "openable env (pkgptch_log_path env (clock_reads w) ''_package_versions_pre-patch.log'')"
    using pkgptch_main_run_pre_patch_fails [where conf = conf and selected_recipe = selected_recipe,
        OF that]
    by simp
  have pa: "(conf selected_recipe = Some r
    \<and> log_package_version_cmd r
    \<and> shell env (package_version_cmd r) (sys w) = (out1, rc1, s1)
    \<and> rc1 \<noteq> 0
    \<and> openable env (pkgptch_log_path env (clock_reads w) ''_package_versions_pre-patch.log'')
  \<longrightarrow> fst (pkgptch_main_run env conf selected_recipe w) = SysExit 0
    \<and> console (snd (pkgptch_main_run env conf selected_recipe w)) = console w @ out1
    \<and> files (snd (pkgptch_main_run env conf selected_recipe w))
          (pkgptch_log_path env (clock_reads w) ''_package_versions_pre-patch.log'')
          = Some out1
    \<and> trace (snd (pkgptch_main_run env conf selected_recipe w))
          = trace w @ Log INFO (''Executing recipe: '' @ name r)
            # Now # logged_run (pkgptch_log_path env (clock_reads w) ''_package_versions_pre-patch.log'')
                (CHR ''w'') (package_version_cmd r) out1 rc1
            @ [caught env rc1 (package_version_cmd r)])"
    using pa' by blast
  have pb1': "fst (pkgptch_main_run env conf selected_recipe w) = SysExit 0
       \<and> console (snd (pkgptch_main_run env conf selected_recipe w)) = console w @ out1 @ out2
       \<and> (log_patch_cmd r \<longrightarrow> files (snd (pkgptch_main_run env conf selected_recipe w))
          (pkgptch_log_path env (Suc (clock_reads w)) (''_'' @ name r @ ''.log''))
          = Some out2)
       \<and> trace (snd (pkgptch_main_run env conf selected_recipe w))
          = trace w @ Log INFO (''Executing recipe: '' @ name r)
            # Now # logged_run (pkgptch_log_path env (clock_reads w) ''_package_versions_pre-patch.log'')
                (CHR ''w'') (package_version_cmd r) out1 0
            @ (if log_patch_cmd r
              then Now # logged_run (pkgptch_log_path env (Suc (clock_reads w)) (''_'' @ name r @ ''.log''))
                (CHR ''w'') (patch_cmd r) out2 rc2
              else console_run (patch_cmd r) out2 rc2)
            @ [caught env rc2 (patch_cmd r)]"
    if "conf selected_recipe = Some r"
      "log_package_version_cmd r"
      "shell env (package_version_cmd r) (sys w) = (out1, 0, s1)"
      "openable env (pkgptch_log_path env (clock_reads w) ''_package_versions_pre-patch.log'')"
      "shell env (patch_cmd r) s1 = (out2, rc2, s2)"
      "rc2 \<noteq> 0"
      "log_patch_cmd r \<longrightarrow> openable env (pkgptch_log_path env (Suc (clock_reads w)) (''_'' @ name r @ ''.log''))"
    using pkgptch_main_run_patch_fails [where conf = conf and selected_recipe = selected_recipe,
        OF that]
    by simp
  have pb1: "(conf selected_recipe = Some r
    \<and> log_package_version_cmd r
    \<and> shell env (package_version_cmd r) (sys w) = (out1, 0, s1)
    \<and> openable env (pkgptch_log_path env (clock_reads w) ''_package_versions_pre-patch.log'')
    \<and> shell env (patch_cmd r) s1 = (out2, rc2, s2)
    \<and> rc2 \<noteq> 0
    \<and> (log_patch_cmd r \<longrightarrow> openable env (pkgptch_log_path env (Suc (clock_reads w)) (''_'' @ name r @ ''.log'')))
  \<longrightarrow> fst (pkgptch_main_run env conf selected_recipe w) = SysExit 0
    \<and> console (snd (pkgptch_main_run env conf selected_recipe w)) = console w @ out1 @ out2
    \<and> (log_patch_cmd r \<longrightarrow> files (snd (pkgptch_main_run env conf selected_recipe w))
          (pkgptch_log_path env (Suc (clock_reads w)) (''_'' @ name r @ ''.log''))
          = Some out2)
    \<and> trace (snd (pkgptch_main_run env conf selected_recipe w))
          = trace w @ Log INFO (''Executing recipe: '' @ name r)
            # Now # logged_run (pkgptch_log_path env (clock_reads w) ''_package_versions_pre-patch.log'')
                (CHR ''w'') (package_version_cmd r) out1 0
            @ (if log_patch_cmd r
              then Now # logged_run (pkgptch_log_path env (Suc (clock_reads w)) (''_'' @ name r @ ''.log''))
                (CHR ''w'') (patch_cmd r) out2 rc2
              else console_run (patch_cmd r) out2 rc2)
            @ [caught env rc2 (patch_cmd r)])"
    using pb1' by blast
  have pb2': "fst (pkgptch_main_run env conf selected_recipe w) = SysExit 0
       \<and> console (snd (pkgptch_main_run env conf selected_recipe w)) = console w @ out2
       \<and> (log_patch_cmd r \<longrightarrow> files (snd (pkgptch_main_run env conf selected_recipe w))
          (pkgptch_log_path env (clock_reads w) (''_'' @ name r @ ''.log''))
          = Some out2)
       \<and> trace (snd (pkgptch_main_run env conf selected_recipe w))
          = trace w @ Log INFO (''Executing recipe: '' @ name r)
            # (if log_patch_cmd r
              then Now # logged_run (pkgptch_log_path env (clock_reads w) (''_'' @ name r @ ''.log''))
                (CHR ''w'') (patch_cmd r) out2 rc2
              else console_run (patch_cmd r) out2 rc2)
            @ [caught env rc2 (patch_cmd r)]"
    if "conf selected_recipe = Some r"
      "\<not> log_package_version_cmd r"
      "shell env (patch_cmd r) (sys w) = (out2, rc2, s2)"
      "rc2 \<noteq> 0"
      "log_patch_cmd r \<longrightarrow> openable env (pkgptch_log_path env (clock_reads w) (''_'' @ name r @ ''.log''))"
    using pkgptch_main_run_bare_patch [where conf = conf and selected_recipe = selected_recipe,
        OF that(1,2,3,5)] that(4)
    by simp
  have pb2: "(conf selected_recipe = Some r
    \<and> \<not> log_package_version_cmd r
    \<and> shell env (patch_cmd r) (sys w) = (out2, rc2, s2)
    \<and> rc2 \<noteq> 0
    \<and> (log_patch_cmd r \<longrightarrow> openable env (pkgptch_log_path env (clock_reads w) (''_'' @ name r @ ''.log'')))
  \<longrightarrow> fst (pkgptch_main_run env conf selected_recipe w) = SysExit 0
    \<and> console (snd (pkgptch_main_run env conf selected_recipe w)) = console w @ out2
    \<and> (log_patch_cmd r \<longrightarrow> files (snd (pkgptch_main_run env conf selected_recipe w))
          (pkgptch_log_path env (clock_reads w) (''_'' @ name r @ ''.log''))
          = Some out2)
    \<and> trace (snd (pkgptch_main_run env conf selected_recipe w))
          = trace w @ Log INFO (''Executing recipe: '' @ name r)
            # (if log_patch_cmd r
              then Now # logged_run (pkgptch_log_path env (clock_reads w) (''_'' @ name r @ ''.log''))
                (CHR ''w'') (patch_cmd r) out2 rc2
              else console_run (patch_cmd r) out2 rc2)
            @ [caught env rc2 (patch_cmd r)])"
    using pb2' by blast
  have pc': "fst (pkgptch_main_run env conf selected_recipe w) = SysExit 0
       \<and> console (snd (pkgptch_main_run env conf selected_recipe w)) = console w @ out1 @ out2 @ out3
       \<and> files (snd (pkgptch_main_run env conf selected_recipe w))
          (pkgptch_log_path env
              (if log_patch_cmd r then Suc (Suc (clock_reads w)) else Suc (clock_reads w))
              ''_package_versions_post-patch.log'')
          = Some out3
       \<and> trace (snd (pkgptch_main_run env conf selected_recipe w))
          = trace w @ Log INFO (''Executing recipe: '' @ name r)
            # Now # logged_run (pkgptch_log_path env (clock_reads w) ''_package_versions_pre-patch.log'')
                (CHR ''w'') (package_version_cmd r) out1 0
            @ (if log_patch_cmd r
              then Now # logged_run (pkgptch_log_path env (Suc (clock_reads w)) (''_'' @ name r @ ''.log''))
                (CHR ''w'') (patch_cmd r) out2 0
              else console_run (patch_cmd r) out2 0)
            @ Now # logged_run (pkgptch_log_path env
              (if log_patch_cmd r then Suc (Suc (clock_reads w)) else Suc (clock_reads w))
              ''_package_versions_post-patch.log'')
                (CHR ''w'') (package_version_cmd r) out3 rc3
            @ [caught env rc3 (package_version_cmd r)]"
    if "conf selected_recipe = Some r"
      "log_package_version_cmd r"
      "shell env (package_version_cmd r) (sys w) = (out1, 0, s1)"
      "openable env (pkgptch_log_path env (clock_reads w) ''_package_versions_pre-patch.log'')"
      "shell env (patch_cmd r) s1 = (out2, 0, s2)"
      "log_patch_cmd r \<longrightarrow> openable env (pkgptch_log_path env (Suc (clock_reads w)) (''_'' @ name r @ ''.log''))"
      "shell env (package_version_cmd r) s2 = (out3, rc3, s3)"
      "rc3 \<noteq> 0"
      "openable env (pkgptch_log_path env
              (if log_patch_cmd r then Suc (Suc (clock_reads w)) else Suc (clock_reads w))
              ''_package_versions_post-patch.log'')"
    using pkgptch_main_run_post_patch [where conf = conf and selected_recipe = selected_recipe,
        OF that(1,2,3,4,5,6,7,9)] that(8)
    by simp
  have pc: "(conf selected_recipe = Some r
    \<and> log_package_version_cmd r
    \<and> shell env (package_version_cmd r) (sys w) = (out1, 0, s1)
    \<and> openable env (pkgptch_log_path env (clock_reads w) ''_package_versions_pre-patch.log'')
    \<and> shell env (patch_cmd r) s1 = (out2, 0, s2)
    \<and> (log_patch_cmd r \<longrightarrow> openable env (pkgptch_log_path env (Suc (clock_reads w)) (''_'' @ name r @ ''.log'')))
    \<and> shell env (package_version_cmd r) s2 = (out3, rc3, s3)
    \<and> rc3 \<noteq> 0
    \<and> openable env (pkgptch_log_path env
              (if log_patch_cmd r then Suc (Suc (clock_reads w)) else Suc (clock_reads w))
              ''_package_versions_post-patch.log'')
  \<longrightarrow> fst (pkgptch_main_run env conf selected_recipe w) = SysExit 0
    \<and> console (snd (pkgptch_main_run env conf selected_recipe w)) = console w @ out1 @ out2 @ out3
    \<and> files (snd (pkgptch_main_run env conf selected_recipe w))
          (pkgptch_log_path env
              (if log_patch_cmd r then Suc (Suc (clock_reads w)) else Suc (clock_reads w))
              ''_package_versions_post-patch.log'')
          = Some out3
    \<and> trace (snd (pkgptch_main_run env conf selected_recipe w))
          = trace w @ Log INFO (''Executing recipe: '' @ name r)
            # Now # logged_run (pkgptch_log_path env (clock_reads w) ''_package_versions_pre-patch.log'')
                (CHR ''w'') (package_version_cmd r) out1 0
            @ (if log_patch_cmd r
              then Now # logged_run (pkgptch_log_path env (Suc (clock_reads w)) (''_'' @ name r @ ''.log''))
                (CHR ''w'') (patch_cmd r) out2 0
              else console_run (patch_cmd r) out2 0)
            @ Now # logged_run (pkgptch_log_path env
              (if log_patch_cmd r then Suc (Suc (clock_reads w)) else Suc (clock_reads w))
              ''_package_versions_post-patch.log'')
                (CHR ''w'') (package_version_cmd r) out3 rc3
            @ [caught env rc3 (package_version_cmd r)])"
    using pc' by blast
  have n1: "fst (main_run env conf selected_recipe w) \<noteq> Traceback (CalledProcessError rc cmd)"
    by (simp add: main_run_def split: option.splits prod.splits sum.splits py_error.splits)
  have n2: "fst (pkgptch_main_run env conf selected_recipe w) \<noteq> Traceback (CalledProcessError rc cmd)"
    by (simp add: pkgptch_main_run_def split: option.splits prod.splits sum.splits py_error.splits)
  have f1: "(0 < rc \<longrightarrow>
       str_CalledProcessError env rc cmd
         = ''Command '' @ [CHR 0x27] @ cmd @ [CHR 0x27] @ '' returned non-zero exit status ''
           @ show_nat (nat rc) @ ''.''
     \<and> read_nat (show_nat (nat rc)) = nat rc)"
    by (simp add: str_CalledProcessError_def read_nat_show_nat)
  have f2: "(rc < 0 \<longrightarrow>
       str_CalledProcessError env rc cmd
         = ''Command '' @ [CHR 0x27] @ cmd @ [CHR 0x27] @ '' died with ''
           @ (case signal_repr env (nat (- rc)) of
                Some signal \<Rightarrow> signal
              | None \<Rightarrow> ''unknown signal '' @ show_nat (nat (- rc)))
           @ ''.'')"
    by (simp add: str_CalledProcessError_def split: option.splits)
  note all = e1 e2 ma mb1 mb2 mc pa pb1 pb2 pc n1 n2 f1 f2
  show ?thesis
    by (intro conjI) (fact all)+
qed

theorem called_process_error_is_drained_and_caught_witness:
  "fst (execute demo_env ''ls /nonexistent'' [] demo_world)
     = Inl (CalledProcessError 2 ''ls /nonexistent'')
   \<and> console (snd (execute demo_env ''ls /nonexistent'' [] demo_world))
     = ''ls: cannot access'' @ [newline] @ ''No such file'' @ [newline]
   \<and> files (snd (execute demo_env ''ls /nonexistent'' ''run.log'' demo_world)) ''run.log''
     = Some (''ls: cannot access'' @ [newline] @ ''No such file'' @ [newline])
   \<and> last (trace (snd (pkgptch_execute demo_env ''ls /nonexistent'' ''run.log'' demo_world)))
     = Close ''run.log''
   \<and> fst (main_run demo_env [''demo'' \<mapsto> demo_recipe\<lparr>package_version_cmd := ''ls /nonexistent''\<rparr>] ''demo'' demo_world) = SysExit 0
   \<and> console (snd (main_run demo_env [''demo'' \<mapsto> demo_recipe\<lparr>package_version_cmd := ''ls /nonexistent''\<rparr>] ''demo'' demo_world))
       = ''ls: cannot access'' @ [newline] @ ''No such file'' @ [newline]
   \<and> last (trace (snd (main_run demo_env [''demo'' \<mapsto> demo_recipe\<lparr>package_version_cmd := ''ls /nonexistent''\<rparr>] ''demo'' demo_world)))
       = Log ERROR (''Caught subprocess.CalledProcessError:'' @ [newline]
          @ ''Command '' @ [CHR 0x27] @ ''ls /nonexistent'' @ [CHR 0x27] @ '' returned non-zero exit status 2.'')
   \<and> fst (main_run demo_env [''demo'' \<mapsto> demo_recipe\<lparr>patch_cmd := ''ls /nonexistent''\<rparr>] ''demo'' demo_world) = SysExit 0
   \<and> console (snd (main_run demo_env [''demo'' \<mapsto> demo_recipe\<lparr>patch_cmd := ''ls /nonexistent''\<rparr>] ''demo'' demo_world))
       = ''v1'' @ [newline] @ ''ls: cannot access'' @ [newline] @ ''No such file'' @ [newline]
   \<and> last (trace (snd (main_run demo_env [''demo'' \<mapsto> demo_recipe\<lparr>patch_cmd := ''ls /nonexistent''\<rparr>] ''demo'' demo_world)))
       = Log ERROR (''Caught subprocess.CalledProcessError:'' @ [newline]
          @ ''Command '' @ [CHR 0x27] @ ''ls /nonexistent'' @ [CHR 0x27] @ '' returned non-zero exit status 2.'')
   \<and> fst (main_run demo_env [''demo'' \<mapsto> demo_recipe\<lparr>log_package_version_cmd := False, patch_cmd := ''ls /nonexistent''\<rparr>] ''demo'' demo_world) = SysExit 0
   \<and> console (snd (main_run demo_env [''demo'' \<mapsto> demo_recipe\<lparr>log_package_version_cmd := False, patch_cmd := ''ls /nonexistent''\<rparr>] ''demo'' demo_world))
       = ''ls: cannot access'' @ [newline] @ ''No such file'' @ [newline]
   \<and> last (trace (snd (main_run demo_env [''demo'' \<mapsto> demo_recipe\<lparr>log_package_version_cmd := False, patch_cmd := ''ls /nonexistent''\<rparr>] ''demo'' demo_world)))
       = Log ERROR (''Caught subprocess.CalledProcessError:'' @ [newline]
          @ ''Command '' @ [CHR 0x27] @ ''ls /nonexistent'' @ [CHR 0x27] @ '' returned non-zero exit status 2.'')
   \<and> fst (main_run flaky_env [''demo'' \<mapsto> demo_recipe\<lparr>package_version_cmd := ''apt list''\<rparr>] ''demo'' demo_world) = SysExit 0
   \<and> console (snd (main_run flaky_env [''demo'' \<mapsto> demo_recipe\<lparr>package_version_cmd := ''apt list''\<rparr>] ''demo'' demo_world))
       = ''pkg 1.0'' @ [newline] @ ''patched'' @ [newline] @ ''E: database locked'' @ [newline]
   \<and> last (trace (snd (main_run flaky_env [''demo'' \<mapsto> demo_recipe\<lparr>package_version_cmd := ''apt list''\<rparr>] ''demo'' demo_world)))
       = Log ERROR (''Caught subprocess.CalledProcessError:'' @ [newline]
          @ ''Command '' @ [CHR 0x27] @ ''apt list'' @ [CHR 0x27] @ '' returned non-zero exit status 100.'')
   \<and> fst (pkgptch_main_run demo_env [''demo'' \<mapsto> demo_recipe\<lparr>package_version_cmd := ''ls /nonexistent''\<rparr>] ''demo'' demo_world) = SysExit 0
   \<and> console (snd (pkgptch_main_run demo_env [''demo'' \<mapsto> demo_recipe\<lparr>package_version_cmd := ''ls /nonexistent''\<rparr>] ''demo'' demo_world))
       = ''ls: cannot access'' @ [newline] @ ''No such file'' @ [newline]
   \<and> last (trace (snd (pkgptch_main_run demo_env [''demo'' \<mapsto> demo_recipe\<lparr>package_version_cmd := ''ls /nonexistent''\<rparr>] ''demo'' demo_world)))
       = Log ERROR (''Caught subprocess.CalledProcessError:'' @ [newline]
          @ ''Command '' @ [CHR 0x27] @ ''ls /nonexistent'' @ [CHR 0x27] @ '' returned non-zero exit status 2.'')
   \<and> fst (pkgptch_main_run demo_env [''demo'' \<mapsto> demo_recipe\<lparr>patch_cmd := ''ls /nonexistent''\<rparr>] ''demo'' demo_world) = SysExit 0
   \<and> console (snd (pkgptch_main_run demo_env [''demo'' \<mapsto> demo_recipe\<lparr>patch_cmd := ''ls /nonexistent''\<rparr>] ''demo'' demo_world))
       = ''v1'' @ [newline] @ ''ls: cannot access'' @ [newline] @ ''No such file'' @ [newline]
   \<and> last (trace (snd (pkgptch_main_run demo_env [''demo'' \<mapsto> demo_recipe\<lparr>patch_cmd := ''ls /nonexistent''\<rparr>] ''demo'' demo_world)))
       = Log ERROR (''Caught subprocess.CalledProcessError:'' @ [newline]
          @ ''Command '' @ [CHR 0x27] @ ''ls /nonexistent'' @ [CHR 0x27] @ '' returned non-zero exit status 2.'')
   \<and> fst (pkgptch_main_run flaky_env [''demo'' \<mapsto> demo_recipe\<lparr>log_package_version_cmd := False, log_patch_cmd := False, patch_cmd := ''sleep 60''\<rparr>] ''demo'' demo_world) = SysExit 0
   \<and> console (snd (pkgptch_main_run flaky_env [''demo'' \<mapsto> demo_recipe\<lparr>log_package_version_cmd := False, log_patch_cmd := False, patch_cmd := ''sleep 60''\<rparr>] ''demo'' demo_world))
       = []
   \<and> last (trace (snd (pkgptch_main_run flaky_env [''demo'' \<mapsto> demo_recipe\<lparr>log_package_version_cmd := False, log_patch_cmd := False, patch_cmd := ''sleep 60''\<rparr>] ''demo'' demo_world)))
       = Log ERROR (''Caught subprocess.CalledProcessError:'' @ [newline]
          @ ''Command '' @ [CHR 0x27] @ ''sleep 60'' @ [CHR 0x27] @ '' died with <Signals.SIGKILL: 9>.'')
   \<and> fst (pkgptch_main_run flaky_env [''demo'' \<mapsto> demo_recipe\<lparr>package_version_cmd := ''apt list'', log_patch_cmd := False\<rparr>] ''demo'' demo_world) = SysExit 0
   \<and> console (snd (pkgptch_main_run flaky_env [''demo'' \<mapsto> demo_recipe\<lparr>package_version_cmd := ''apt list'', log_patch_cmd := False\<rparr>] ''demo'' demo_world))
       = ''pkg 1.0'' @ [newline] @ ''patched'' @ [newline] @ ''E: database locked'' @ [newline]
   \<and> last (trace (snd (pkgptch_main_run flaky_env [''demo'' \<mapsto> demo_recipe\<lparr>package_version_cmd := ''apt list'', log_patch_cmd := False\<rparr>] ''demo'' demo_world)))
       = Log ERROR (''Caught subprocess.CalledProcessError:'' @ [newline]
          @ ''Command '' @ [CHR 0x27] @ ''apt list'' @ [CHR 0x27] @ '' returned non-zero exit status 100.'')
   \<and> str_CalledProcessError demo_env 2 ''ls /nonexistent''
     = ''Command '' @ [CHR 0x27] @ ''ls /nonexistent'' @ [CHR 0x27]
       @ '' returned non-zero exit status 2.''
   \<and> str_CalledProcessError flaky_env (- 9) ''sleep 60''
     = ''Command '' @ [CHR 0x27] @ ''sleep 60'' @ [CHR 0x27] @ '' died with <Signals.SIGKILL: 9>.''"
proof -
  have w: "sys demo_world = 0" "clock_reads demo_world = 0" "console demo_world = []"
    "trace demo_world = []" "files demo_world ''run.log'' = None"
    by (simp_all add: demo_world_def)
  have sh: "shell demo_env ''ls /nonexistent'' 0 = (concat [''ls: cannot access'' @ [newline], ''No such file'' @ [newline]], 2, 0)"
    "shell demo_env ''echo v1'' 0 = (concat [''v1'' @ [newline]], 0, 0)"
    "shell flaky_env ''apt list'' 0 = (concat [''pkg 1.0'' @ [newline]], 0, 0)"
    "shell flaky_env ''echo patched'' 0 = (concat [''patched'' @ [newline]], 0, Suc 0)"
    "shell flaky_env ''apt list'' (Suc 0) = (concat [''E: database locked'' @ [newline]], 100, Suc 0)"
    "shell flaky_env ''sleep 60'' 0 = ([], - 9, 0)"
    by (simp_all add: demo_env_def demo_shell_def flaky_env_def flaky_shell_def)
  have fl: "log_path flaky_env = log_path demo_env" "openable flaky_env = openable demo_env"
    "pkgptch_log_path flaky_env = pkgptch_log_path demo_env"
    by (simp_all add: flaky_env_def demo_env_def log_path_def pkgptch_log_path_def fun_eq_iff)
  have od: "openable demo_env (log_path demo_env ''/tmp/logs'' 0 ''_package_versions_pre-patch.log'')"
    "openable demo_env (log_path demo_env ''/tmp/logs'' 0 (''_'' @ ''demo'' @ ''.log''))"
    "openable demo_env (log_path demo_env ''/tmp/logs'' (Suc 0) (''_'' @ ''demo'' @ ''.log''))"
    "openable demo_env (log_path demo_env ''/tmp/logs'' (Suc (Suc 0)) ''_package_versions_post-patch.log'')"
    "openable demo_env (pkgptch_log_path demo_env 0 ''_package_versions_pre-patch.log'')"
    "openable demo_env (pkgptch_log_path demo_env (Suc 0) (''_'' @ ''demo'' @ ''.log''))"
    "openable demo_env (pkgptch_log_path demo_env (Suc 0) ''_package_versions_post-patch.log'')"
    "openable demo_env ''run.log''"
    unfolding demo_log_path demo_pkgptch_log_path by (simp_all add: demo_env_def)
  have n: "show_nat 2 = ''2''" "show_nat 9 = ''9''" "show_nat 100 = ''100''"
    by (simp_all add: show_nat.simps)
  have sg: "signal_repr flaky_env 9 = Some ''<Signals.SIGKILL: 9>''"
    by (simp add: flaky_env_def)
  note t = called_process_error_is_drained_and_caught
  note e = t [where env = demo_env and cmd = "''ls /nonexistent''" and w = demo_world
      and out = "concat [''ls: cannot access'' @ [newline], ''No such file'' @ [newline]]" and rc = 2 and s' = 0 and log_file = "''run.log''"]
  have e1: "fst (execute demo_env ''ls /nonexistent'' [] demo_world)
       = Inl (CalledProcessError 2 ''ls /nonexistent'')
     \<and> console (snd (execute demo_env ''ls /nonexistent'' [] demo_world))
       = ''ls: cannot access'' @ [newline] @ ''No such file'' @ [newline]"
    using e [THEN conjunct1] sh w by simp
  have e2: "files (snd (execute demo_env ''ls /nonexistent'' ''run.log'' demo_world)) ''run.log''
       = Some (''ls: cannot access'' @ [newline] @ ''No such file'' @ [newline])
     \<and> last (trace (snd (pkgptch_execute demo_env ''ls /nonexistent'' ''run.log'' demo_world)))
       = Close ''run.log''"
    using e [THEN conjunct2, THEN conjunct1] sh od w by (simp add: last_logged_run)
  have f: "str_CalledProcessError demo_env 2 ''ls /nonexistent''
     = ''Command '' @ [CHR 0x27] @ ''ls /nonexistent'' @ [CHR 0x27]
       @ '' returned non-zero exit status 2.''
   \<and> str_CalledProcessError flaky_env (- 9) ''sleep 60''
     = ''Command '' @ [CHR 0x27] @ ''sleep 60'' @ [CHR 0x27] @ '' died with <Signals.SIGKILL: 9>.''"
    using t [where env = demo_env and rc = 2 and cmd = "''ls /nonexistent''", THEN conjunct2, THEN conjunct2, THEN conjunct2, THEN conjunct2, THEN conjunct2, THEN conjunct2, THEN conjunct2, THEN conjunct2, THEN conjunct2, THEN conjunct2, THEN conjunct2, THEN conjunct2, THEN conjunct1]
      t [where env = flaky_env and rc = "- 9" and cmd = "''sleep 60''", THEN conjunct2, THEN conjunct2, THEN conjunct2, THEN conjunct2, THEN conjunct2, THEN conjunct2, THEN conjunct2, THEN conjunct2, THEN conjunct2, THEN conjunct2, THEN conjunct2, THEN conjunct2, THEN conjunct2] n sg
    by simp
  have ma_r: "log_package_version_cmd (demo_recipe\<lparr>package_version_cmd := ''ls /nonexistent''\<rparr>) = True"
    "log_patch_cmd (demo_recipe\<lparr>package_version_cmd := ''ls /nonexistent''\<rparr>) = True"
    "package_version_cmd (demo_recipe\<lparr>package_version_cmd := ''ls /nonexistent''\<rparr>) = ''ls /nonexistent''"
    "patch_cmd (demo_recipe\<lparr>package_version_cmd := ''ls /nonexistent''\<rparr>) = ''echo patched''"
    "log_directory (demo_recipe\<lparr>package_version_cmd := ''ls /nonexistent''\<rparr>) = ''/tmp/logs''" "name (demo_recipe\<lparr>package_version_cmd := ''ls /nonexistent''\<rparr>) = ''demo''"
    by (simp_all add: demo_recipe_def)
  have ma: "fst (main_run demo_env [''demo'' \<mapsto> demo_recipe\<lparr>package_version_cmd := ''ls /nonexistent''\<rparr>] ''demo'' demo_world) = SysExit 0
     \<and> console (snd (main_run demo_env [''demo'' \<mapsto> demo_recipe\<lparr>package_version_cmd := ''ls /nonexistent''\<rparr>] ''demo'' demo_world))
         = ''ls: cannot access'' @ [newline] @ ''No such file'' @ [newline]
     \<and> last (trace (snd (main_run demo_env [''demo'' \<mapsto> demo_recipe\<lparr>package_version_cmd := ''ls /nonexistent''\<rparr>] ''demo'' demo_world)))
         = Log ERROR (''Caught subprocess.CalledProcessError:'' @ [newline]
          @ ''Command '' @ [CHR 0x27] @ ''ls /nonexistent'' @ [CHR 0x27] @ '' returned non-zero exit status 2.'')"
    using t [of demo_env _ demo_world _ _ _ _ "[''demo'' \<mapsto> demo_recipe\<lparr>package_version_cmd := ''ls /nonexistent''\<rparr>]"
        "''demo''" "demo_recipe\<lparr>package_version_cmd := ''ls /nonexistent''\<rparr>"
        "concat [''ls: cannot access'' @ [newline], ''No such file'' @ [newline]]" "2" "0" _ _ _ _ _ _,
        THEN conjunct2, THEN conjunct2, THEN conjunct1]
      ma_r sh od w n sg fl
    by (simp add: caught_def str_CalledProcessError_def last_logged_run last_console_run)
  have mb1_r: "log_package_version_cmd (demo_recipe\<lparr>patch_cmd := ''ls /nonexistent''\<rparr>) = True"
    "log_patch_cmd (demo_recipe\<lparr>patch_cmd := ''ls /nonexistent''\<rparr>) = True"
    "package_version_cmd (demo_recipe\<lparr>patch_cmd := ''ls /nonexistent''\<rparr>) = ''echo v1''"
    "patch_cmd (demo_recipe\<lparr>patch_cmd := ''ls /nonexistent''\<rparr>) = ''ls /nonexistent''"
    "log_directory (demo_recipe\<lparr>patch_cmd := ''ls /nonexistent''\<rparr>) = ''/tmp/logs''" "name (demo_recipe\<lparr>patch_cmd := ''ls /nonexistent''\<rparr>) = ''demo''"
    by (simp_all add: demo_recipe_def)
  have mb1: "fst (main_run demo_env [''demo'' \<mapsto> demo_recipe\<lparr>patch_cmd := ''ls /nonexistent''\<rparr>] ''demo'' demo_world) = SysExit 0
     \<and> console (snd (main_run demo_env [''demo'' \<mapsto> demo_recipe\<lparr>patch_cmd := ''ls /nonexistent''\<rparr>] ''demo'' demo_world))
         = ''v1'' @ [newline] @ ''ls: cannot access'' @ [newline] @ ''No such file'' @ [newline]
     \<and> last (trace (snd (main_run demo_env [''demo'' \<mapsto> demo_recipe\<lparr>patch_cmd := ''ls /nonexistent''\<rparr>] ''demo'' demo_world)))
         = Log ERROR (''Caught subprocess.CalledProcessError:'' @ [newline]
          @ ''Command '' @ [CHR 0x27] @ ''ls /nonexistent'' @ [CHR 0x27] @ '' returned non-zero exit status 2.'')"
    using t [of demo_env _ demo_world _ _ _ _ "[''demo'' \<mapsto> demo_recipe\<lparr>patch_cmd := ''ls /nonexistent''\<rparr>]"
        "''demo''" "demo_recipe\<lparr>patch_cmd := ''ls /nonexistent''\<rparr>"
        "concat [''v1'' @ [newline]]" _ "0" "concat [''ls: cannot access'' @ [newline], ''No such file'' @ [newline]]" "2" "0" _ _ _,
        THEN conjunct2, THEN conjunct2, THEN conjunct2, THEN conjunct1]
      mb1_r sh od w n sg fl
    by (simp add: caught_def str_CalledProcessError_def last_logged_run last_console_run)
  have mb2_r: "log_package_version_cmd (demo_recipe\<lparr>log_package_version_cmd := False, patch_cmd := ''ls /nonexistent''\<rparr>) = False"
    "log_patch_cmd (demo_recipe\<lparr>log_package_version_cmd := False, patch_cmd := ''ls /nonexistent''\<rparr>) = True"
    "package_version_cmd (demo_recipe\<lparr>log_package_version_cmd := False, patch_cmd := ''ls /nonexistent''\<rparr>) = ''echo v1''"
    "patch_cmd (demo_recipe\<lparr>log_package_version_cmd := False, patch_cmd := ''ls /nonexistent''\<rparr>) = ''ls /nonexistent''"
    "log_directory (demo_recipe\<lparr>log_package_version_cmd := False, patch_cmd := ''ls /nonexistent''\<rparr>) = ''/tmp/logs''" "name (demo_recipe\<lparr>log_package_version_cmd := False, patch_cmd := ''ls /nonexistent''\<rparr>) = ''demo''"
    by (simp_all add: demo_recipe_def)
  have mb2: "fst (main_run demo_env [''demo'' \<mapsto> demo_recipe\<lparr>log_package_version_cmd := False, patch_cmd := ''ls /nonexistent''\<rparr>] ''demo'' demo_world) = SysExit 0
     \<and> console (snd (main_run demo_env [''demo'' \<mapsto> demo_recipe\<lparr>log_package_version_cmd := False, patch_cmd := ''ls /nonexistent''\<rparr>] ''demo'' demo_world))
         = ''ls: cannot access'' @ [newline] @ ''No such file'' @ [newline]
     \<and> last (trace (snd (main_run demo_env [''demo'' \<mapsto> demo_recipe\<lparr>log_package_version_cmd := False, patch_cmd := ''ls /nonexistent''\<rparr>] ''demo'' demo_world)))
         = Log ERROR (''Caught subprocess.CalledProcessError:'' @ [newline]
          @ ''Command '' @ [CHR 0x27] @ ''ls /nonexistent'' @ [CHR 0x27] @ '' returned non-zero exit status 2.'')"
    using t [of demo_env _ demo_world _ _ _ _ "[''demo'' \<mapsto> demo_recipe\<lparr>log_package_version_cmd := False, patch_cmd := ''ls /nonexistent''\<rparr>]"
        "''demo''" "demo_recipe\<lparr>log_package_version_cmd := False, patch_cmd := ''ls /nonexistent''\<rparr>"
        _ _ _ "concat [''ls: cannot access'' @ [newline], ''No such file'' @ [newline]]" "2" "0" _ _ _,
        THEN conjunct2, THEN conjunct2, THEN conjunct2, THEN conjunct2, THEN conjunct1]
      mb2_r sh od w n sg fl
    by (simp add: caught_def str_CalledProcessError_def last_logged_run last_console_run)
  have mc_r: "log_package_version_cmd (demo_recipe\<lparr>package_version_cmd := ''apt list''\<rparr>) = True"
    "log_patch_cmd (demo_recipe\<lparr>package_version_cmd := ''apt list''\<rparr>) = True"
    "package_version_cmd (demo_recipe\<lparr>package_version_cmd := ''apt list''\<rparr>) = ''apt list''"
    "patch_cmd (demo_recipe\<lparr>package_version_cmd := ''apt list''\<rparr>) = ''echo patched''"
    "log_directory (demo_recipe\<lparr>package_version_cmd := ''apt list''\<rparr>) = ''/tmp/logs''" "name (demo_recipe\<lparr>package_version_cmd := ''apt list''\<rparr>) = ''demo''"
    by (simp_all add: demo_recipe_def)
  have mc: "fst (main_run flaky_env [''demo'' \<mapsto> demo_recipe\<lparr>package_version_cmd := ''apt list''\<rparr>] ''demo'' demo_world) = SysExit 0
     \<and> console (snd (main_run flaky_env [''demo'' \<mapsto> demo_recipe\<lparr>package_version_cmd := ''apt list''\<rparr>] ''demo'' demo_world))
         = ''pkg 1.0'' @ [newline] @ ''patched'' @ [newline] @ ''E: database locked'' @ [newline]
     \<and> last (trace (snd (main_run flaky_env [''demo'' \<mapsto> demo_recipe\<lparr>package_version_cmd := ''apt list''\<rparr>] ''demo'' demo_world)))
         = Log ERROR (''Caught subprocess.CalledProcessError:'' @ [newline]
          @ ''Command '' @ [CHR 0x27] @ ''apt list'' @ [CHR 0x27] @ '' returned non-zero exit status 100.'')"
    using t [of flaky_env _ demo_world _ _ _ _ "[''demo'' \<mapsto> demo_recipe\<lparr>package_version_cmd := ''apt list''\<rparr>]"
        "''demo''" "demo_recipe\<lparr>package_version_cmd := ''apt list''\<rparr>"
        "concat [''pkg 1.0'' @ [newline]]" _ "0" "concat [''patched'' @ [newline]]" _ "Suc 0" "concat [''E: database locked'' @ [newline]]" "100" "Suc 0",
        THEN conjunct2, THEN conjunct2, THEN conjunct2, THEN conjunct2, THEN conjunct2, THEN conjunct1]
      mc_r sh od w n sg fl
    by (simp add: caught_def str_CalledProcessError_def last_logged_run last_console_run)
  have pa_r: "log_package_version_cmd (demo_recipe\<lparr>package_version_cmd := ''ls /nonexistent''\<rparr>) = True"
    "log_patch_cmd (demo_recipe\<lparr>package_version_cmd := ''ls /nonexistent''\<rparr>) = True"
    "package_version_cmd (demo_recipe\<lparr>package_version_cmd := ''ls /nonexistent''\<rparr>) = ''ls /nonexistent''"
    "patch_cmd (demo_recipe\<lparr>package_version_cmd := ''ls /nonexistent''\<rparr>) = ''echo patched''"
    "log_directory (demo_recipe\<lparr>package_version_cmd := ''ls /nonexistent''\<rparr>) = ''/tmp/logs''" "name (demo_recipe\<lparr>package_version_cmd := ''ls /nonexistent''\<rparr>) = ''demo''"
    by (simp_all add: demo_recipe_def)
  have pa: "fst (pkgptch_main_run demo_env [''demo'' \<mapsto> demo_recipe\<lparr>package_version_cmd := ''ls /nonexistent''\<rparr>] ''demo'' demo_world) = SysExit 0
     \<and> console (snd (pkgptch_main_run demo_env [''demo'' \<mapsto> demo_recipe\<lparr>package_version_cmd := ''ls /nonexistent''\<rparr>] ''demo'' demo_world))
         = ''ls: cannot access'' @ [newline] @ ''No such file'' @ [newline]
     \<and> last (trace (snd (pkgptch_main_run demo_env [''demo'' \<mapsto> demo_recipe\<lparr>package_version_cmd := ''ls /nonexistent''\<rparr>] ''demo'' demo_world)))
         = Log ERROR (''Caught subprocess.CalledProcessError:'' @ [newline]
          @ ''Command '' @ [CHR 0x27] @ ''ls /nonexistent'' @ [CHR 0x27] @ '' returned non-zero exit status 2.'')"
    using t [of demo_env _ demo_world _ _ _ _ "[''demo'' \<mapsto> demo_recipe\<lparr>package_version_cmd := ''ls /nonexistent''\<rparr>]"
        "''demo''" "demo_recipe\<lparr>package_version_cmd := ''ls /nonexistent''\<rparr>"
        "concat [''ls: cannot access'' @ [newline], ''No such file'' @ [newline]]" "2" "0" _ _ _ _ _ _,
        THEN conjunct2, THEN conjunct2, THEN conjunct2, THEN conjunct2, THEN conjunct2, THEN conjunct2, THEN conjunct1]
      pa_r sh od w n sg fl
    by (simp add: caught_def str_CalledProcessError_def last_logged_run last_console_run)
  have pb1_r: "log_package_version_cmd (demo_recipe\<lparr>patch_cmd := ''ls /nonexistent''\<rparr>) = True"
    "log_patch_cmd (demo_recipe\<lparr>patch_cmd := ''ls /nonexistent''\<rparr>) = True"
    "package_version_cmd (demo_recipe\<lparr>patch_cmd := ''ls /nonexistent''\<rparr>) = ''echo v1''"
    "patch_cmd (demo_recipe\<lparr>patch_cmd := ''ls /nonexistent''\<rparr>) = ''ls /nonexistent''"
    "log_directory (demo_recipe\<lparr>patch_cmd := ''ls /nonexistent''\<rparr>) = ''/tmp/logs''" "name (demo_recipe\<lparr>patch_cmd := ''ls /nonexistent''\<rparr>) = ''demo''"
    by (simp_all add: demo_recipe_def)
  have pb1: "fst (pkgptch_main_run demo_env [''demo'' \<mapsto> demo_recipe\<lparr>patch_cmd := ''ls /nonexistent''\<rparr>] ''demo'' demo_world) = SysExit 0
     \<and> console (snd (pkgptch_main_run demo_env [''demo'' \<mapsto> demo_recipe\<lparr>patch_cmd := ''ls /nonexistent''\<rparr>] ''demo'' demo_world))
         = ''v1'' @ [newline] @ ''ls: cannot access'' @ [newline] @ ''No such file'' @ [newline]
     \<and> last (trace (snd (pkgptch_main_run demo_env [''demo'' \<mapsto> demo_recipe\<lparr>patch_cmd := ''ls /nonexistent''\<rparr>] ''demo'' demo_world)))
         = Log ERROR (''Caught subprocess.CalledProcessError:'' @ [newline]
          @ ''Command '' @ [CHR 0x27] @ ''ls /nonexistent'' @ [CHR 0x27] @ '' returned non-zero exit status 2.'')"
    using t [of demo_env _ demo_world _ _ _ _ "[''demo'' \<mapsto> demo_recipe\<lparr>patch_cmd := ''ls /nonexistent''\<rparr>]"
        "''demo''" "demo_recipe\<lparr>patch_cmd := ''ls /nonexistent''\<rparr>"
        "concat [''v1'' @ [newline]]" _ "0" "concat [''ls: cannot access'' @ [newline], ''No such file'' @ [newline]]" "2" "0" _ _ _,
        THEN conjunct2, THEN conjunct2, THEN conjunct2, THEN conjunct2, THEN conjunct2, THEN conjunct2, THEN conjunct2, THEN conjunct1]
      pb1_r sh od w n sg fl
    by (simp add: caught_def str_CalledProcessError_def last_logged_run last_console_run)
  have pb2_r: "log_package_version_cmd (demo_recipe\<lparr>log_package_version_cmd := False, log_patch_cmd := False, patch_cmd := ''sleep 60''\<rparr>) = False"
    "log_patch_cmd (demo_recipe\<lparr>log_package_version_cmd := False, log_patch_cmd := False, patch_cmd := ''sleep 60''\<rparr>) = False"
    "package_version_cmd (demo_recipe\<lparr>log_package_version_cmd := False, log_patch_cmd := False, patch_cmd := ''sleep 60''\<rparr>) = ''echo v1''"
    "patch_cmd (demo_recipe\<lparr>log_package_version_cmd := False, log_patch_cmd := False, patch_cmd := ''sleep 60''\<rparr>) = ''sleep 60''"
    "log_directory (demo_recipe\<lparr>log_package_version_cmd := False, log_patch_cmd := False, patch_cmd := ''sleep 60''\<rparr>) = ''/tmp/logs''" "name (demo_recipe\<lparr>log_package_version_cmd := False, log_patch_cmd := False, patch_cmd := ''sleep 60''\<rparr>) = ''demo''"
    by (simp_all add: demo_recipe_def)
  have pb2: "fst (pkgptch_main_run flaky_env [''demo'' \<mapsto> demo_recipe\<lparr>log_package_version_cmd := False, log_patch_cmd := False, patch_cmd := ''sleep 60''\<rparr>] ''demo'' demo_world) = SysExit 0
     \<and> console (snd (pkgptch_main_run flaky_env [''demo'' \<mapsto> demo_recipe\<lparr>log_package_version_cmd := False, log_patch_cmd := False, patch_cmd := ''sleep 60''\<rparr>] ''demo'' demo_world))
         = []
     \<and> last (trace (snd (pkgptch_main_run flaky_env [''demo'' \<mapsto> demo_recipe\<lparr>log_package_version_cmd := False, log_patch_cmd := False, patch_cmd := ''sleep 60''\<rparr>] ''demo'' demo_world)))
         = Log ERROR (''Caught subprocess.CalledProcessError:'' @ [newline]
          @ ''Command '' @ [CHR 0x27] @ ''sleep 60'' @ [CHR 0x27] @ '' died with <Signals.SIGKILL: 9>.'')"
    using t [of flaky_env _ demo_world _ _ _ _ "[''demo'' \<mapsto> demo_recipe\<lparr>log_package_version_cmd := False, log_patch_cmd := False, patch_cmd := ''sleep 60''\<rparr>]"
        "''demo''" "demo_recipe\<lparr>log_package_version_cmd := False, log_patch_cmd := False, patch_cmd := ''sleep 60''\<rparr>"
        _ _ _ "[]" "- 9" "0" _ _ _,
        THEN conjunct2, THEN conjunct2, THEN conjunct2, THEN conjunct2, THEN conjunct2, THEN conjunct2, THEN conjunct2, THEN conjunct2, THEN conjunct1]
      pb2_r sh od w n sg fl
    by (simp add: caught_def str_CalledProcessError_def last_logged_run last_console_run)
  have pc_r: "log_package_version_cmd (demo_recipe\<lparr>package_version_cmd := ''apt list'', log_patch_cmd := False\<rparr>) = True"
    "log_patch_cmd (demo_recipe\<lparr>package_version_cmd := ''apt list'', log_patch_cmd := False\<rparr>) = False"
    "package_version_cmd (demo_recipe\<lparr>package_version_cmd := ''apt list'', log_patch_cmd := False\<rparr>) = ''apt list''"
    "patch_cmd (demo_recipe\<lparr>package_version_cmd := ''apt list'', log_patch_cmd := False\<rparr>) = ''echo patched''"
    "log_directory (demo_recipe\<lparr>package_version_cmd := ''apt list'', log_patch_cmd := False\<rparr>) = ''/tmp/logs''" "name (demo_recipe\<lparr>package_version_cmd := ''apt list'', log_patch_cmd := False\<rparr>) = ''demo''"
    by (simp_all add: demo_recipe_def)
  have pc: "fst (pkgptch_main_run flaky_env [''demo'' \<mapsto> demo_recipe\<lparr>package_version_cmd := ''apt list'', log_patch_cmd := False\<rparr>] ''demo'' demo_world) = SysExit 0
     \<and> console (snd (pkgptch_main_run flaky_env [''demo'' \<mapsto> demo_recipe\<lparr>package_version_cmd := ''apt list'', log_patch_cmd := False\<rparr>] ''demo'' demo_world))
         = ''pkg 1.0'' @ [newline] @ ''patched'' @ [newline] @ ''E: database locked'' @ [newline]
     \<and> last (trace (snd (pkgptch_main_run flaky_env [''demo'' \<mapsto> demo_recipe\<lparr>package_version_cmd := ''apt list'', log_patch_cmd := False\<rparr>] ''demo'' demo_world)))
         = Log ERROR (''Caught subprocess.CalledProcessError:'' @ [newline]
          @ ''Command '' @ [CHR 0x27] @ ''apt list'' @ [CHR 0x27] @ '' returned non-zero exit status 100.'')"
    using t [of flaky_env _ demo_world _ _ _ _ "[''demo'' \<mapsto> demo_recipe\<lparr>package_version_cmd := ''apt list'', log_patch_cmd := False\<rparr>]"
        "''demo''" "demo_recipe\<lparr>package_version_cmd := ''apt list'', log_patch_cmd := False\<rparr>"
        "concat [''pkg 1.0'' @ [newline]]" _ "0" "concat [''patched'' @ [newline]]" _ "Suc 0" "concat [''E: database locked'' @ [newline]]" "100" "Suc 0",
        THEN conjunct2, THEN conjunct2, THEN conjunct2, THEN conjunct2, THEN conjunct2, THEN conjunct2, THEN conjunct2, THEN conjunct2, THEN conjunct2, THEN conjunct1]
      pc_r sh od w n sg fl
    by (simp add: caught_def str_CalledProcessError_def last_logged_run last_console_run)
  from e1 e2 ma mb1 mb2 mc pa pb1 pb2 pc f show ?thesis
    by (intro conjI) blast+
qed

subsection \<open>The exit status after a failing command\<close>

lemma logged_run_not_Nil: "logged_run p mode cmd out rc \<noteq> []"
  by (simp add: logged_run_def)

lemma console_run_not_Nil: "console_run cmd out rc \<noteq> []"
  by (simp add: console_run_def)

lemma log_notin_logged_run: "Log lvl msg \<notin> set (logged_run p mode cmd out rc)"
  by (auto simp: logged_run_def)

lemma log_notin_console_run: "Log lvl msg \<notin> set (console_run cmd out rc)"
  by (auto simp: console_run_def)

lemma main_run_inventoried_exit:
  assumes "conf selected_recipe = Some r"
    and "log_package_version_cmd r"
    and "shell env (package_version_cmd r) (sys w) = (out_pre, rc_pre, s_pre)"
    and "openable env (log_path env (log_directory r) (clock_reads w) ''_package_versions_pre-patch.log'')"
    and "shell env (patch_cmd r) s_pre = (out_patch, rc_patch, s_patch)"
    and "rc_pre = 0 \<and> log_patch_cmd r \<longrightarrow>
         openable env (log_path env (log_directory r) (Suc (clock_reads w)) (''_'' @ name r @ ''.log''))"
    and "shell env (package_version_cmd r) s_patch = (out_post, rc_post, s_post)"
    and "rc_pre = 0 \<and> rc_patch = 0 \<longrightarrow>
         openable env (log_path env (log_directory r)
              (if log_patch_cmd r then Suc (Suc (clock_reads w)) else Suc (clock_reads w))
              ''_package_versions_post-patch.log'')"
  shows "exit_status (fst (main_run env conf selected_recipe w)) = 0
     \<and> (rc_pre \<noteq> 0 \<longrightarrow>
         last (trace (snd (main_run env conf selected_recipe w)))
           = caught env rc_pre (package_version_cmd r))
     \<and> (rc_pre = 0 \<and> rc_patch \<noteq> 0 \<longrightarrow>
         last (trace (snd (main_run env conf selected_recipe w)))
           = caught env rc_patch (patch_cmd r))
     \<and> (rc_pre = 0 \<and> rc_patch = 0 \<and> rc_post \<noteq> 0 \<longrightarrow>
         last (trace (snd (main_run env conf selected_recipe w)))
           = caught env rc_post (package_version_cmd r))
     \<and> (rc_pre = 0 \<and> rc_patch = 0 \<and> rc_post = 0 \<longrightarrow>
         last (trace (snd (main_run env conf selected_recipe w)))
           = Close (log_path env (log_directory r)
              (if log_patch_cmd r then Suc (Suc (clock_reads w)) else Suc (clock_reads w))
              ''_package_versions_post-patch.log'')
       \<and> Log ERROR msg \<notin> set (drop (length (trace w)) (trace (snd (main_run env conf selected_recipe w)))))"
proof -
  consider (a) "rc_pre \<noteq> 0" | (b) "rc_pre = 0" "rc_patch \<noteq> 0" | (c) "rc_pre = 0" "rc_patch = 0"
    by blast
  then show ?thesis
  proof cases
    case a
    from main_run_pre_patch_fails [where conf = conf and selected_recipe = selected_recipe, OF assms(1,2,3) a assms(4)]
    show ?thesis
      using a by simp
  next
    case b
    from assms(3) b(1) have s1: "shell env (package_version_cmd r) (sys w) = (out_pre, 0, s_pre)"
      by simp
    from assms(6) b(1) have o2: "log_patch_cmd r \<longrightarrow>
        openable env (log_path env (log_directory r) (Suc (clock_reads w)) (''_'' @ name r @ ''.log''))"
      by simp
    from main_run_patch_fails [where conf = conf and selected_recipe = selected_recipe, OF assms(1,2) s1 assms(4,5) b(2) o2]
    show ?thesis
      using b by simp
  next
    case c
    from assms(3) c(1) have s1: "shell env (package_version_cmd r) (sys w) = (out_pre, 0, s_pre)"
      by simp
    from assms(5) c(2) have s2: "shell env (patch_cmd r) s_pre = (out_patch, 0, s_patch)"
      by simp
    from assms(6) c(1) have o2: "log_patch_cmd r \<longrightarrow>
        openable env (log_path env (log_directory r) (Suc (clock_reads w)) (''_'' @ name r @ ''.log''))"
      by simp
    from assms(8) c have o3: "openable env (log_path env (log_directory r)
              (if log_patch_cmd r then Suc (Suc (clock_reads w)) else Suc (clock_reads w))
              ''_package_versions_post-patch.log'')"
      by simp
    from main_run_post_patch [where conf = conf and selected_recipe = selected_recipe, OF assms(1,2) s1 assms(4) s2 o2 assms(7) o3]
    show ?thesis
      using c by (simp add: last_logged_run logged_run_not_Nil console_run_not_Nil
          log_notin_logged_run log_notin_console_run)
  qed
qed

lemma main_run_bare_exit:
  assumes "conf selected_recipe = Some r"
    and "\<not> log_package_version_cmd r"
    and "shell env (patch_cmd r) (sys w) = (out_patch, rc_patch, s_patch)"
    and "log_patch_cmd r \<longrightarrow>
         openable env (log_path env (log_directory r) (clock_reads w) (''_'' @ name r @ ''.log''))"
  shows "exit_status (fst (main_run env conf selected_recipe w)) = 0
     \<and> (rc_patch \<noteq> 0 \<longrightarrow>
         last (trace (snd (main_run env conf selected_recipe w)))
           = caught env rc_patch (patch_cmd r))
     \<and> (rc_patch = 0 \<longrightarrow>
         last (trace (snd (main_run env conf selected_recipe w)))
           = (if log_patch_cmd r then Close (log_path env (log_directory r) (clock_reads w) (''_'' @ name r @ ''.log'')) else Wait 0)
       \<and> Log ERROR msg \<notin> set (drop (length (trace w)) (trace (snd (main_run env conf selected_recipe w)))))"
  using main_run_bare_patch [where conf = conf and selected_recipe = selected_recipe, OF assms]
  by (simp add: last_logged_run last_console_run logged_run_not_Nil console_run_not_Nil
      log_notin_logged_run log_notin_console_run)

lemma pkgptch_main_run_inventoried_exit:
  assumes "conf selected_recipe = Some r"
    and "log_package_version_cmd r"
    and "shell env (package_version_cmd r) (sys w) = (out_pre, rc_pre, s_pre)"
    and "openable env (pkgptch_log_path env (clock_reads w) ''_package_versions_pre-patch.log'')"
    and "shell env (patch_cmd r) s_pre = (out_patch, rc_patch, s_patch)"
    and "rc_pre = 0 \<and> log_patch_cmd r \<longrightarrow>
         openable env (pkgptch_log_path env (Suc (clock_reads w)) (''_'' @ name r @ ''.log''))"
    and "shell env (package_version_cmd r) s_patch = (out_post, rc_post, s_post)"
    and "rc_pre = 0 \<and> rc_patch = 0 \<longrightarrow>
         openable env (pkgptch_log_path env
              (if log_patch_cmd r then Suc (Suc (clock_reads w)) else Suc (clock_reads w))
              ''_package_versions_post-patch.log'')"
  shows "exit_status (fst (pkgptch_main_run env conf selected_recipe w)) = 0
     \<and> (rc_pre \<noteq> 0 \<longrightarrow>
         last (trace (snd (pkgptch_main_run env conf selected_recipe w)))
           = caught env rc_pre (package_version_cmd r))
     \<and> (rc_pre = 0 \<and> rc_patch \<noteq> 0 \<longrightarrow>
         last (trace (snd (pkgptch_main_run env conf selected_recipe w)))
           = caught env rc_patch (patch_cmd r))
     \<and> (rc_pre = 0 \<and> rc_patch = 0 \<and> rc_post \<noteq> 0 \<longrightarrow>
         last (trace (snd (pkgptch_main_run env conf selected_recipe w)))
           = caught env rc_post (package_version_cmd r))
     \<and> (rc_pre = 0 \<and> rc_patch = 0 \<and> rc_post = 0 \<longrightarrow>
         last (trace (snd (pkgptch_main_run env conf selected_recipe w)))
           = Close (pkgptch_log_path env
              (if log_patch_cmd r then Suc (Suc (clock_reads w)) else Suc (clock_reads w))
              ''_package_versions_post-patch.log'')
       \<and> Log ERROR msg \<notin> set (drop (length (trace w)) (trace (snd (pkgptch_main_run env conf selected_recipe w)))))"
proof -
  consider (a) "rc_pre \<noteq> 0" | (b) "rc_pre = 0" "rc_patch \<noteq> 0" | (c) "rc_pre = 0" "rc_patch = 0"
    by blast
  then show ?thesis
  proof cases
    case a
    from pkgptch_main_run_pre_patch_fails [where conf = conf and selected_recipe = selected_recipe, OF assms(1,2,3) a assms(4)]
    show ?thesis
      using a by simp
  next
    case b
    from assms(3) b(1) have s1: "shell env (package_version_cmd r) (sys w) = (out_pre, 0, s_pre)"
      by simp
    from assms(6) b(1) have o2: "log_patch_cmd r \<longrightarrow>
        openable env (pkgptch_log_path env (Suc (clock_reads w)) (''_'' @ name r @ ''.log''))"
      by simp
    from pkgptch_main_run_patch_fails [where conf = conf and selected_recipe = selected_recipe, OF assms(1,2) s1 assms(4,5) b(2) o2]
    show ?thesis
      using b by simp
  next
    case c
    from assms(3) c(1) have s1: "shell env (package_version_cmd r) (sys w) = (out_pre, 0, s_pre)"
      by simp
    from assms(5) c(2) have s2: "shell env (patch_cmd r) s_pre = (out_patch, 0, s_patch)"
      by simp
    from assms(6) c(1) have o2: "log_patch_cmd r \<longrightarrow>
        openable env (pkgptch_log_path env (Suc (clock_reads w)) (''_'' @ name r @ ''.log''))"
      by simp
    from assms(8) c have o3: "openable env (pkgptch_log_path env
              (if log_patch_cmd r then Suc (Suc (clock_reads w)) else Suc (clock_reads w))
              ''_package_versions_post-patch.log'')"
      by simp
    from pkgptch_main_run_post_patch [where conf = conf and selected_recipe = selected_recipe, OF assms(1,2) s1 assms(4) s2 o2 assms(7) o3]
    show ?thesis
      using c by (simp add: last_logged_run logged_run_not_Nil console_run_not_Nil
          log_notin_logged_run log_notin_console_run)
  qed
qed

lemma pkgptch_main_run_bare_exit:
  assumes "conf selected_recipe = Some r"
    and "\<not> log_package_version_cmd r"
    and "shell env (patch_cmd r) (sys w) = (out_patch, rc_patch, s_patch)"
    and "log_patch_cmd r \<longrightarrow>
         openable env (pkgptch_log_path env (clock_reads w) (''_'' @ name r @ ''.log''))"
  shows "exit_status (fst (pkgptch_main_run env conf selected_recipe w)) = 0
     \<and> (rc_patch \<noteq> 0 \<longrightarrow>
         last (trace (snd (pkgptch_main_run env conf selected_recipe w)))
           = caught env rc_patch (patch_cmd r))
     \<and> (rc_patch = 0 \<longrightarrow>
         last (trace (snd (pkgptch_main_run env conf selected_recipe w)))
           = (if log_patch_cmd r then Close (pkgptch_log_path env (clock_reads w) (''_'' @ name r @ ''.log'')) else Wait 0)
       \<and> Log ERROR msg \<notin> set (drop (length (trace w)) (trace (snd (pkgptch_main_run env conf selected_recipe w)))))"
  using pkgptch_main_run_bare_patch [where conf = conf and selected_recipe = selected_recipe, OF assms]
  by (simp add: last_logged_run last_console_run logged_run_not_Nil console_run_not_Nil
      log_notin_logged_run log_notin_console_run)

text \<open>
  C9. The exit status does not tell a failed run from a successful one. Take a valid
  document and a recipe of it; name what the shell returns for its commands, where the
  log files that are reached can be opened. Whatever the three return codes are,
  \<^verbatim>\<open>logpatch.py\<close> ends with exit status 0. When the first command that exits with a
  non-zero code is the pre-patch inventory, the patch or the post-patch inventory, the
  last action of the program is to log the \<^verbatim>\<open>CalledProcessError\<close> of that command; when
  all three exit with 0, the last action is closing the last log file and no error is
  logged during the run. The same holds for a recipe without inventory, whose only
  command is the patch, and for lines 105 to 110 of \<^verbatim>\<open>pkgptch.py\<close> on both kinds of
  recipe. An entry of a valid document always reads as a recipe.
\<close>

theorem failed_run_exits_with_status_zero:
  "(spec_document_ok conf
    \<and> getitem conf selected_recipe = Some entry
    \<and> recipe_of entry = Some r
    \<and> log_package_version_cmd r
    \<and> shell env (package_version_cmd r) (sys w) = (out_pre, rc_pre, s_pre)
    \<and> openable env (log_path env (log_directory r) (clock_reads w) ''_package_versions_pre-patch.log'')
    \<and> shell env (patch_cmd r) s_pre = (out_patch, rc_patch, s_patch)
    \<and> (rc_pre = 0 \<and> log_patch_cmd r \<longrightarrow>
         openable env (log_path env (log_directory r) (Suc (clock_reads w)) (''_'' @ name r @ ''.log'')))
    \<and> shell env (package_version_cmd r) s_patch = (out_post, rc_post, s_post)
    \<and> (rc_pre = 0 \<and> rc_patch = 0 \<longrightarrow>
         openable env (log_path env (log_directory r)
              (if log_patch_cmd r then Suc (Suc (clock_reads w)) else Suc (clock_reads w))
              ''_package_versions_post-patch.log''))
  \<longrightarrow> exit_status (fst (main env config_path selected_recipe (Document conf) w)) = 0
     \<and> (rc_pre \<noteq> 0 \<longrightarrow>
         last (trace (snd (main env config_path selected_recipe (Document conf) w)))
           = caught env rc_pre (package_version_cmd r))
     \<and> (rc_pre = 0 \<and> rc_patch \<noteq> 0 \<longrightarrow>
         last (trace (snd (main env config_path selected_recipe (Document conf) w)))
           = caught env rc_patch (patch_cmd r))
     \<and> (rc_pre = 0 \<and> rc_patch = 0 \<and> rc_post \<noteq> 0 \<longrightarrow>
         last (trace (snd (main env config_path selected_recipe (Document conf) w)))
           = caught env rc_post (package_version_cmd r))
     \<and> (rc_pre = 0 \<and> rc_patch = 0 \<and> rc_post = 0 \<longrightarrow>
         last (trace (snd (main env config_path selected_recipe (Document conf) w)))
           = Close (log_path env (log_directory r)
              (if log_patch_cmd r then Suc (Suc (clock_reads w)) else Suc (clock_reads w))
              ''_package_versions_post-patch.log'')
       \<and> Log ERROR msg \<notin> set (drop (length (trace w)) (trace (snd (main env config_path selected_recipe (Document conf) w))))))
 \<and> (spec_document_ok conf
    \<and> getitem conf selected_recipe = Some entry
    \<and> recipe_of entry = Some r
    \<and> \<not> log_package_version_cmd r
    \<and> shell env (patch_cmd r) (sys w) = (out_patch, rc_patch, s_patch)
    \<and> (log_patch_cmd r \<longrightarrow>
         openable env (log_path env (log_directory r) (clock_reads w) (''_'' @ name r @ ''.log'')))
  \<longrightarrow> exit_status (fst (main env config_path selected_recipe (Document conf) w)) = 0
     \<and> (rc_patch \<noteq> 0 \<longrightarrow>
         last (trace (snd (main env config_path selected_recipe (Document conf) w)))
           = caught env rc_patch (patch_cmd r))
     \<and> (rc_patch = 0 \<longrightarrow>
         last (trace (snd (main env config_path selected_recipe (Document conf) w)))
           = (if log_patch_cmd r then Close (log_path env (log_directory r) (clock_reads w) (''_'' @ name r @ ''.log'')) else Wait 0)
       \<and> Log ERROR msg \<notin> set (drop (length (trace w)) (trace (snd (main env config_path selected_recipe (Document conf) w))))))
 \<and> (recipes selected_recipe = Some r
    \<and> log_package_version_cmd r
    \<and> shell env (package_version_cmd r) (sys w) = (out_pre, rc_pre, s_pre)
    \<and> openable env (pkgptch_log_path env (clock_reads w) ''_package_versions_pre-patch.log'')
    \<and> shell env (patch_cmd r) s_pre = (out_patch, rc_patch, s_patch)
    \<and> (rc_pre = 0 \<and> log_patch_cmd r \<longrightarrow>
         openable env (pkgptch_log_path env (Suc (clock_reads w)) (''_'' @ name r @ ''.log'')))
    \<and> shell env (package_version_cmd r) s_patch = (out_post, rc_post, s_post)
    \<and> (rc_pre = 0 \<and> rc_patch = 0 \<longrightarrow>
         openable env (pkgptch_log_path env
              (if log_patch_cmd r then Suc (Suc (clock_reads w)) else Suc (clock_reads w))
              ''_package_versions_post-patch.log''))
  \<longrightarrow> exit_status (fst (pkgptch_main_run env recipes selected_recipe w)) = 0
     \<and> (rc_pre \<noteq> 0 \<longrightarrow>
         last (trace (snd (pkgptch_main_run env recipes selected_recipe w)))
           = caught env rc_pre (package_version_cmd r))
     \<and> (rc_pre = 0 \<and> rc_patch \<noteq> 0 \<longrightarrow>
         last (trace (snd (pkgptch_main_run env recipes selected_recipe w)))
           = caught env rc_patch (patch_cmd r))
     \<and> (rc_pre = 0 \<and> rc_patch = 0 \<and> rc_post \<noteq> 0 \<longrightarrow>
         last (trace (snd (pkgptch_main_run env recipes selected_recipe w)))
           = caught env rc_post (package_version_cmd r))
     \<and> (rc_pre = 0 \<and> rc_patch = 0 \<and> rc_post = 0 \<longrightarrow>
         last (trace (snd (pkgptch_main_run env recipes selected_recipe w)))
           = Close (pkgptch_log_path env
              (if log_patch_cmd r then Suc (Suc (clock_reads w)) else Suc (clock_reads w))
              ''_package_versions_post-patch.log'')
       \<and> Log ERROR msg \<notin> set (drop (length (trace w)) (trace (snd (pkgptch_main_run env recipes selected_recipe w))))))
 \<and> (recipes selected_recipe = Some r
    \<and> \<not> log_package_version_cmd r
    \<and> shell env (patch_cmd r) (sys w) = (out_patch, rc_patch, s_patch)
    \<and> (log_patch_cmd r \<longrightarrow>
         openable env (pkgptch_log_path env (clock_reads w) (''_'' @ name r @ ''.log'')))
  \<longrightarrow> exit_status (fst (pkgptch_main_run env recipes selected_recipe w)) = 0
     \<and> (rc_patch \<noteq> 0 \<longrightarrow>
         last (trace (snd (pkgptch_main_run env recipes selected_recipe w)))
           = caught env rc_patch (patch_cmd r))
     \<and> (rc_patch = 0 \<longrightarrow>
         last (trace (snd (pkgptch_main_run env recipes selected_recipe w)))
           = (if log_patch_cmd r then Close (pkgptch_log_path env (clock_reads w) (''_'' @ name r @ ''.log'')) else Wait 0)
       \<and> Log ERROR msg \<notin> set (drop (length (trace w)) (trace (snd (pkgptch_main_run env recipes selected_recipe w))))))
 \<and> (spec_document_ok conf \<and> getitem conf selected_recipe = Some entry
  \<longrightarrow> (\<exists>r. recipe_of entry = Some r))"
proof -
  let ?typed = "\<lambda>k. case getitem conf k of None \<Rightarrow> None | Some entry \<Rightarrow> recipe_of entry"
  have l1': "exit_status (fst (main env config_path selected_recipe (Document conf) w)) = 0
     \<and> (rc_pre \<noteq> 0 \<longrightarrow>
         last (trace (snd (main env config_path selected_recipe (Document conf) w)))
           = caught env rc_pre (package_version_cmd r))
     \<and> (rc_pre = 0 \<and> rc_patch \<noteq> 0 \<longrightarrow>
         last (trace (snd (main env config_path selected_recipe (Document conf) w)))
           = caught env rc_patch (patch_cmd r))
     \<and> (rc_pre = 0 \<and> rc_patch = 0 \<and> rc_post \<noteq> 0 \<longrightarrow>
         last (trace (snd (main env config_path selected_recipe (Document conf) w)))
           = caught env rc_post (package_version_cmd r))
     \<and> (rc_pre = 0 \<and> rc_patch = 0 \<and> rc_post = 0 \<longrightarrow>
         last (trace (snd (main env config_path selected_recipe (Document conf) w)))
           = Close (log_path env (log_directory r)
              (if log_patch_cmd r then Suc (Suc (clock_reads w)) else Suc (clock_reads w))
              ''_package_versions_post-patch.log'')
       \<and> Log ERROR msg \<notin> set (drop (length (trace w)) (trace (snd (main env config_path selected_recipe (Document conf) w)))))"
    if "spec_document_ok conf"
      "getitem conf selected_recipe = Some entry"
      "recipe_of entry = Some r"
      "log_package_version_cmd r"
      "shell env (package_version_cmd r) (sys w) = (out_pre, rc_pre, s_pre)"
      "openable env (log_path env (log_directory r) (clock_reads w) ''_package_versions_pre-patch.log'')"
      "shell env (patch_cmd r) s_pre = (out_patch, rc_patch, s_patch)"
      "rc_pre = 0 \<and> log_patch_cmd r \<longrightarrow>
         openable env (log_path env (log_directory r) (Suc (clock_reads w)) (''_'' @ name r @ ''.log''))"
      "shell env (package_version_cmd r) s_patch = (out_post, rc_post, s_post)"
      "rc_pre = 0 \<and> rc_patch = 0 \<longrightarrow>
         openable env (log_path env (log_directory r)
              (if log_patch_cmd r then Suc (Suc (clock_reads w)) else Suc (clock_reads w))
              ''_package_versions_post-patch.log'')"
  proof -
    from that(2,3) have t: "?typed selected_recipe = Some r"
      by simp
    show ?thesis
      unfolding main_validated [OF that(1)]
      by (rule main_run_inventoried_exit [where conf = ?typed and selected_recipe = selected_recipe,
            OF t that(4-10)])
  qed
  have l1: "(spec_document_ok conf
    \<and> getitem conf selected_recipe = Some entry
    \<and> recipe_of entry = Some r
    \<and> log_package_version_cmd r
    \<and> shell env (package_version_cmd r) (sys w) = (out_pre, rc_pre, s_pre)
    \<and> openable env (log_path env (log_directory r) (clock_reads w) ''_package_versions_pre-patch.log'')
    \<and> shell env (patch_cmd r) s_pre = (out_patch, rc_patch, s_patch)
    \<and> (rc_pre = 0 \<and> log_patch_cmd r \<longrightarrow>
         openable env (log_path env (log_directory r) (Suc (clock_reads w)) (''_'' @ name r @ ''.log'')))
    \<and> shell env (package_version_cmd r) s_patch = (out_post, rc_post, s_post)
    \<and> (rc_pre = 0 \<and> rc_patch = 0 \<longrightarrow>
         openable env (log_path env (log_directory r)
              (if log_patch_cmd r then Suc (Suc (clock_reads w)) else Suc (clock_reads w))
              ''_package_versions_post-patch.log''))
  \<longrightarrow> exit_status (fst (main env config_path selected_recipe (Document conf) w)) = 0
     \<and> (rc_pre \<noteq> 0 \<longrightarrow>
         last (trace (snd (main env config_path selected_recipe (Document conf) w)))
           = caught env rc_pre (package_version_cmd r))
     \<and> (rc_pre = 0 \<and> rc_patch \<noteq> 0 \<longrightarrow>
         last (trace (snd (main env config_path selected_recipe (Document conf) w)))
           = caught env rc_patch (patch_cmd r))
     \<and> (rc_pre = 0 \<and> rc_patch = 0 \<and> rc_post \<noteq> 0 \<longrightarrow>
         last (trace (snd (main env config_path selected_recipe (Document conf) w)))
           = caught env rc_post (package_version_cmd r))
     \<and> (rc_pre = 0 \<and> rc_patch = 0 \<and> rc_post = 0 \<longrightarrow>
         last (trace (snd (main env config_path selected_recipe (Document conf) w)))
           = Close (log_path env (log_directory r)
              (if log_patch_cmd r then Suc (Suc (clock_reads w)) else Suc (clock_reads w))
              ''_package_versions_post-patch.log'')
       \<and> Log ERROR msg \<notin> set (drop (length (trace w)) (trace (snd (main env config_path selected_recipe (Document conf) w))))))"
    using l1' by blast
  have l2': "exit_status (fst (main env config_path selected_recipe (Document conf) w)) = 0
     \<and> (rc_patch \<noteq> 0 \<longrightarrow>
         last (trace (snd (main env config_path selected_recipe (Document conf) w)))
           = caught env rc_patch (patch_cmd r))
     \<and> (rc_patch = 0 \<longrightarrow>
         last (trace (snd (main env config_path selected_recipe (Document conf) w)))
           = (if log_patch_cmd r then Close (log_path env (log_directory r) (clock_reads w) (''_'' @ name r @ ''.log'')) else Wait 0)
       \<and> Log ERROR msg \<notin> set (drop (length (trace w)) (trace (snd (main env config_path selected_recipe (Document conf) w)))))"
    if "spec_document_ok conf"
      "getitem conf selected_recipe = Some entry"
      "recipe_of entry = Some r"
      "\<not> log_package_version_cmd r"
      "shell env (patch_cmd r) (sys w) = (out_patch, rc_patch, s_patch)"
      "log_patch_cmd r \<longrightarrow>
         openable env (log_path env (log_directory r) (clock_reads w) (''_'' @ name r @ ''.log''))"
  proof -
    from that(2,3) have t: "?typed selected_recipe = Some r"
      by simp
    show ?thesis
      unfolding main_validated [OF that(1)]
      by (rule main_run_bare_exit [where conf = ?typed and selected_recipe = selected_recipe,
            OF t that(4-6)])
  qed
  have l2: "(spec_document_ok conf
    \<and> getitem conf selected_recipe = Some entry
    \<and> recipe_of entry = Some r
    \<and> \<not> log_package_version_cmd r
    \<and> shell env (patch_cmd r) (sys w) = (out_patch, rc_patch, s_patch)
    \<and> (log_patch_cmd r \<longrightarrow>
         openable env (log_path env (log_directory r) (clock_reads w) (''_'' @ name r @ ''.log'')))
  \<longrightarrow> exit_status (fst (main env config_path selected_recipe (Document conf) w)) = 0
     \<and> (rc_patch \<noteq> 0 \<longrightarrow>
         last (trace (snd (main env config_path selected_recipe (Document conf) w)))
           = caught env rc_patch (patch_cmd r))
     \<and> (rc_patch = 0 \<longrightarrow>
         last (trace (snd (main env config_path selected_recipe (Document conf) w)))
           = (if log_patch_cmd r then Close (log_path env (log_directory r) (clock_reads w) (''_'' @ name r @ ''.log'')) else Wait 0)
       \<and> Log ERROR msg \<notin> set (drop (length (trace w)) (trace (snd (main env config_path selected_recipe (Document conf) w))))))"
    using l2' by blast
  have p1': "exit_status (fst (pkgptch_main_run env recipes selected_recipe w)) = 0
     \<and> (rc_pre \<noteq> 0 \<longrightarrow>
         last (trace (snd (pkgptch_main_run env recipes selected_recipe w)))
           = caught env rc_pre (package_version_cmd r))
     \<and> (rc_pre = 0 \<and> rc_patch \<noteq> 0 \<longrightarrow>
         last (trace (snd (pkgptch_main_run env recipes selected_recipe w)))
           = caught env rc_patch (patch_cmd r))
     \<and> (rc_pre = 0 \<and> rc_patch = 0 \<and> rc_post \<noteq> 0 \<longrightarrow>
         last (trace (snd (pkgptch_main_run env recipes selected_recipe w)))
           = caught env rc_post (package_version_cmd r))
     \<and> (rc_pre = 0 \<and> rc_patch = 0 \<and> rc_post = 0 \<longrightarrow>
         last (trace (snd (pkgptch_main_run env recipes selected_recipe w)))
           = Close (pkgptch_log_path env
              (if log_patch_cmd r then Suc (Suc (clock_reads w)) else Suc (clock_reads w))
              ''_package_versions_post-patch.log'')
       \<and> Log ERROR msg \<notin> set (drop (length (trace w)) (trace (snd (pkgptch_main_run env recipes selected_recipe w)))))"
    if "recipes selected_recipe = Some r"
      "log_package_version_cmd r"
      "shell env (package_version_cmd r) (sys w) = (out_pre, rc_pre, s_pre)"
      "openable env (pkgptch_log_path env (clock_reads w) ''_package_versions_pre-patch.log'')"
      "shell env (patch_cmd r) s_pre = (out_patch, rc_patch, s_patch)"
      "rc_pre = 0 \<and> log_patch_cmd r \<longrightarrow>
         openable env (pkgptch_log_path env (Suc (clock_reads w)) (''_'' @ name r @ ''.log''))"
      "shell env (package_version_cmd r) s_patch = (out_post, rc_post, s_post)"
      "rc_pre = 0 \<and> rc_patch = 0 \<longrightarrow>
         openable env (pkgptch_log_path env
              (if log_patch_cmd r then Suc (Suc (clock_reads w)) else Suc (clock_reads w))
              ''_package_versions_post-patch.log'')"
    by (rule pkgptch_main_run_inventoried_exit [where conf = recipes and selected_recipe = selected_recipe, OF that])
  have p1: "(recipes selected_recipe = Some r
    \<and> log_package_version_cmd r
    \<and> shell env (package_version_cmd r) (sys w) = (out_pre, rc_pre, s_pre)
    \<and> openable env (pkgptch_log_path env (clock_reads w) ''_package_versions_pre-patch.log'')
    \<and> shell env (patch_cmd r) s_pre = (out_patch, rc_patch, s_patch)
    \<and> (rc_pre = 0 \<and> log_patch_cmd r \<longrightarrow>
         openable env (pkgptch_log_path env (Suc (clock_reads w)) (''_'' @ name r @ ''.log'')))
    \<and> shell env (package_version_cmd r) s_patch = (out_post, rc_post, s_post)
    \<and> (rc_pre = 0 \<and> rc_patch = 0 \<longrightarrow>
         openable env (pkgptch_log_path env
              (if log_patch_cmd r then Suc (Suc (clock_reads w)) else Suc (clock_reads w))
              ''_package_versions_post-patch.log''))
  \<longrightarrow> exit_status (fst (pkgptch_main_run env recipes selected_recipe w)) = 0
     \<and> (rc_pre \<noteq> 0 \<longrightarrow>
         last (trace (snd (pkgptch_main_run env recipes selected_recipe w)))
           = caught env rc_pre (package_version_cmd r))
     \<and> (rc_pre = 0 \<and> rc_patch \<noteq> 0 \<longrightarrow>
         last (trace (snd (pkgptch_main_run env recipes selected_recipe w)))
           = caught env rc_patch (patch_cmd r))
     \<and> (rc_pre = 0 \<and> rc_patch = 0 \<and> rc_post \<noteq> 0 \<longrightarrow>
         last (trace (snd (pkgptch_main_run env recipes selected_recipe w)))
           = caught env rc_post (package_version_cmd r))
     \<and> (rc_pre = 0 \<and> rc_patch = 0 \<and> rc_post = 0 \<longrightarrow>
         last (trace (snd (pkgptch_main_run env recipes selected_recipe w)))
           = Close (pkgptch_log_path env
              (if log_patch_cmd r then Suc (Suc (clock_reads w)) else Suc (clock_reads w))
              ''_package_versions_post-patch.log'')
       \<and> Log ERROR msg \<notin> set (drop (length (trace w)) (trace (snd (pkgptch_main_run env recipes selected_recipe w))))))"
    using p1' by blast
  have p2': "exit_status (fst (pkgptch_main_run env recipes selected_recipe w)) = 0
     \<and> (rc_patch \<noteq> 0 \<longrightarrow>
         last (trace (snd (pkgptch_main_run env recipes selected_recipe w)))
           = caught env rc_patch (patch_cmd r))
     \<and> (rc_patch = 0 \<longrightarrow>
         last (trace (snd (pkgptch_main_run env recipes selected_recipe w)))
           = (if log_patch_cmd r then Close (pkgptch_log_path env (clock_reads w) (''_'' @ name r @ ''.log'')) else Wait 0)
       \<and> Log ERROR msg \<notin> set (drop (length (trace w)) (trace (snd (pkgptch_main_run env recipes selected_recipe w)))))"
    if "recipes selected_recipe = Some r"
      "\<not> log_package_version_cmd r"
      "shell env (patch_cmd r) (sys w) = (out_patch, rc_patch, s_patch)"
      "log_patch_cmd r \<longrightarrow>
         openable env (pkgptch_log_path env (clock_reads w) (''_'' @ name r @ ''.log''))"
    by (rule pkgptch_main_run_bare_exit [where conf = recipes and selected_recipe = selected_recipe, OF that])
  have p2: "(recipes selected_recipe = Some r
    \<and> \<not> log_package_version_cmd r
    \<and> shell env (patch_cmd r) (sys w) = (out_patch, rc_patch, s_patch)
    \<and> (log_patch_cmd r \<longrightarrow>
         openable env (pkgptch_log_path env (clock_reads w) (''_'' @ name r @ ''.log'')))
  \<longrightarrow> exit_status (fst (pkgptch_main_run env recipes selected_recipe w)) = 0
     \<and> (rc_patch \<noteq> 0 \<longrightarrow>
         last (trace (snd (pkgptch_main_run env recipes selected_recipe w)))
           = caught env rc_patch (patch_cmd r))
     \<and> (rc_patch = 0 \<longrightarrow>
         last (trace (snd (pkgptch_main_run env recipes selected_recipe w)))
           = (if log_patch_cmd r then Close (pkgptch_log_path env (clock_reads w) (''_'' @ name r @ ''.log'')) else Wait 0)
       \<and> Log ERROR msg \<notin> set (drop (length (trace w)) (trace (snd (pkgptch_main_run env recipes selected_recipe w))))))"
    using p2' by blast
  have v: "(spec_document_ok conf \<and> getitem conf selected_recipe = Some entry
  \<longrightarrow> (\<exists>r. recipe_of entry = Some r))"
    using validated_entry_is_recipe [OF validated_document_entries] by blast
  note all = l1 l2 p1 p2 v
  show ?thesis
    by (intro conjI) (fact all)+
qed

theorem failed_run_exits_with_status_zero_witness:
  "exit_status (fst (main flaky_env ''conf.yaml'' ''demo'' (Document (JDict [(''demo'',
       JDict [(''name'', JString ''demo''),
              (''log_directory'', JString ''/tmp/logs''),
              (''log_package_version_cmd'', JBool True),
              (''log_patch_cmd'', JBool True),
              (''patch_cmd'', JString ''echo patched''),
              (''package_version_cmd'', JString ''apt list'')])])) demo_world)) = 0
   \<and> last (trace (snd (main flaky_env ''conf.yaml'' ''demo'' (Document (JDict [(''demo'',
       JDict [(''name'', JString ''demo''),
              (''log_directory'', JString ''/tmp/logs''),
              (''log_package_version_cmd'', JBool True),
              (''log_patch_cmd'', JBool True),
              (''patch_cmd'', JString ''echo patched''),
              (''package_version_cmd'', JString ''apt list'')])])) demo_world)))
       = Log ERROR (''Caught subprocess.CalledProcessError:'' @ [newline]
          @ ''Command '' @ [CHR 0x27] @ ''apt list'' @ [CHR 0x27] @ '' returned non-zero exit status 100.'')
   \<and> exit_status (fst (main demo_env ''conf.yaml'' ''demo'' (Document demo_conf) demo_world)) = 0
   \<and> last (trace (snd (main demo_env ''conf.yaml'' ''demo'' (Document demo_conf) demo_world)))
       = Close ''/tmp/logs/20221231T235958.000102Z_package_versions_post-patch.log''
   \<and> exit_status (fst (main demo_env ''conf.yaml'' ''broken'' (Document demo_failing_conf) demo_world)) = 0
   \<and> last (trace (snd (main demo_env ''conf.yaml'' ''broken'' (Document demo_failing_conf) demo_world)))
       = Log ERROR (''Caught subprocess.CalledProcessError:'' @ [newline]
          @ ''Command '' @ [CHR 0x27] @ ''ls /nonexistent'' @ [CHR 0x27] @ '' returned non-zero exit status 2.'')
   \<and> exit_status (fst (pkgptch_main_run demo_env [''demo'' \<mapsto> demo_recipe\<lparr>patch_cmd := ''ls /nonexistent''\<rparr>] ''demo'' demo_world)) = 0
   \<and> last (trace (snd (pkgptch_main_run demo_env [''demo'' \<mapsto> demo_recipe\<lparr>patch_cmd := ''ls /nonexistent''\<rparr>] ''demo'' demo_world)))
       = Log ERROR (''Caught subprocess.CalledProcessError:'' @ [newline]
          @ ''Command '' @ [CHR 0x27] @ ''ls /nonexistent'' @ [CHR 0x27] @ '' returned non-zero exit status 2.'')
   \<and> exit_status (fst (pkgptch_main_run demo_env [''demo'' \<mapsto> demo_recipe] ''demo'' demo_world)) = 0
   \<and> last (trace (snd (pkgptch_main_run demo_env [''demo'' \<mapsto> demo_recipe] ''demo'' demo_world)))
       = Close ''20230101T125958Z_package_versions_post-patch.log''
   \<and> exit_status (fst (pkgptch_main_run flaky_env [''demo'' \<mapsto> demo_recipe\<lparr>log_package_version_cmd := False, patch_cmd := ''sleep 60''\<rparr>] ''demo'' demo_world)) = 0
   \<and> last (trace (snd (pkgptch_main_run flaky_env [''demo'' \<mapsto> demo_recipe\<lparr>log_package_version_cmd := False, patch_cmd := ''sleep 60''\<rparr>] ''demo'' demo_world)))
       = Log ERROR (''Caught subprocess.CalledProcessError:'' @ [newline]
          @ ''Command '' @ [CHR 0x27] @ ''sleep 60'' @ [CHR 0x27] @ '' died with <Signals.SIGKILL: 9>.'')"
proof -
  let ?apt_entry = "JDict [(''name'', JString ''demo''),
              (''log_directory'', JString ''/tmp/logs''),
              (''log_package_version_cmd'', JBool True),
              (''log_patch_cmd'', JBool True),
              (''patch_cmd'', JString ''echo patched''),
              (''package_version_cmd'', JString ''apt list'')]"
  let ?apt = "JDict [(''demo'', ?apt_entry)]"
  let ?apt_r = "\<lparr>log_directory = ''/tmp/logs'', log_package_version_cmd = True, log_patch_cmd = True,
         name = ''demo'', patch_cmd = ''echo patched'', package_version_cmd = ''apt list''\<rparr>"
  let ?demo_entry = "JDict [(''name'', JString ''demo''),
              (''log_directory'', JString ''/tmp/logs''),
              (''log_package_version_cmd'', JBool True),
              (''log_patch_cmd'', JBool True),
              (''patch_cmd'', JString ''echo patched''),
              (''package_version_cmd'', JString ''echo v1'')]"
  let ?broken_entry = "JDict [(''name'', JString ''broken''),
              (''log_directory'', JString ''/tmp/logs''),
              (''log_package_version_cmd'', JBool False),
              (''log_patch_cmd'', JBool False),
              (''patch_cmd'', JString ''ls /nonexistent''),
              (''package_version_cmd'', JString ''echo v1'')]"
  let ?broken_r = "\<lparr>log_directory = ''/tmp/logs'', log_package_version_cmd = False, log_patch_cmd = False,
         name = ''broken'', patch_cmd = ''ls /nonexistent'', package_version_cmd = ''echo v1''\<rparr>"
  let ?r_patch = "demo_recipe\<lparr>patch_cmd := ''ls /nonexistent''\<rparr>"
  let ?r_sleep = "demo_recipe\<lparr>log_package_version_cmd := False, patch_cmd := ''sleep 60''\<rparr>"
  have ok: "spec_document_ok ?apt" "spec_document_ok demo_conf" "spec_document_ok demo_failing_conf"
    by (simp_all add: demo_failing_conf_def demo_conf_def spec_document_ok_def spec_entry_ok_def
        has_string_def has_bool_def)
  have g: "getitem ?apt ''demo'' = Some ?apt_entry" "getitem demo_conf ''demo'' = Some ?demo_entry"
    "getitem demo_failing_conf ''broken'' = Some ?broken_entry"
    by (simp_all add: demo_failing_conf_def demo_conf_def)
  have ro: "recipe_of ?apt_entry = Some ?apt_r" "recipe_of ?demo_entry = Some demo_recipe"
    "recipe_of ?broken_entry = Some ?broken_r"
    by (simp_all add: recipe_of_def as_string_def as_bool_def demo_recipe_def)
  have r: "log_package_version_cmd demo_recipe" "log_patch_cmd demo_recipe"
    "package_version_cmd demo_recipe = ''echo v1''" "patch_cmd demo_recipe = ''echo patched''"
    "log_directory demo_recipe = ''/tmp/logs''" "name demo_recipe = ''demo''"
    by (simp_all add: demo_recipe_def)
  have rp: "log_package_version_cmd ?r_patch" "log_patch_cmd ?r_patch"
    "package_version_cmd ?r_patch = ''echo v1''" "patch_cmd ?r_patch = ''ls /nonexistent''"
    "name ?r_patch = ''demo''"
    by (simp_all add: demo_recipe_def)
  have rs: "\<not> log_package_version_cmd ?r_sleep" "log_patch_cmd ?r_sleep"
    "patch_cmd ?r_sleep = ''sleep 60''" "name ?r_sleep = ''demo''"
    by (simp_all add: demo_recipe_def)
  have w: "sys demo_world = 0" "clock_reads demo_world = 0" "trace demo_world = []"
    by (simp_all add: demo_world_def)
  have sh: "shell demo_env ''ls /nonexistent'' 0 = (concat [''ls: cannot access'' @ [newline], ''No such file'' @ [newline]], 2, 0)"
    "shell demo_env ''echo v1'' 0 = (concat [''v1'' @ [newline]], 0, 0)"
    "shell demo_env ''echo patched'' 0 = (concat [''patched'' @ [newline]], 0, Suc 0)"
    "shell demo_env ''echo v1'' (Suc 0) = (concat [''v1'' @ [newline]], 0, Suc 0)"
    "shell flaky_env ''apt list'' 0 = (concat [''pkg 1.0'' @ [newline]], 0, 0)"
    "shell flaky_env ''echo patched'' 0 = (concat [''patched'' @ [newline]], 0, Suc 0)"
    "shell flaky_env ''apt list'' (Suc 0) = (concat [''E: database locked'' @ [newline]], 100, Suc 0)"
    "shell flaky_env ''sleep 60'' 0 = ([], - 9, 0)"
    by (simp_all add: demo_env_def demo_shell_def flaky_env_def flaky_shell_def)
  have fl: "log_path flaky_env = log_path demo_env" "openable flaky_env = openable demo_env"
    "pkgptch_log_path flaky_env = pkgptch_log_path demo_env"
    by (simp_all add: flaky_env_def demo_env_def log_path_def pkgptch_log_path_def fun_eq_iff)
  have od: "openable demo_env (log_path demo_env ''/tmp/logs'' 0 ''_package_versions_pre-patch.log'')"
    "openable demo_env (log_path demo_env ''/tmp/logs'' (Suc 0) (''_'' @ ''demo'' @ ''.log''))"
    "openable demo_env (log_path demo_env ''/tmp/logs'' (Suc (Suc 0)) ''_package_versions_post-patch.log'')"
    "openable demo_env (pkgptch_log_path demo_env 0 ''_package_versions_pre-patch.log'')"
    "openable demo_env (pkgptch_log_path demo_env 0 (''_'' @ ''demo'' @ ''.log''))"
    "openable demo_env (pkgptch_log_path demo_env (Suc 0) (''_'' @ ''demo'' @ ''.log''))"
    "openable demo_env (pkgptch_log_path demo_env (Suc (Suc 0)) ''_package_versions_post-patch.log'')"
    unfolding demo_log_path demo_pkgptch_log_path by (simp_all add: demo_env_def)
  have n: "show_nat 2 = ''2''" "show_nat 9 = ''9''" "show_nat 100 = ''100''"
    by (simp_all add: show_nat.simps)
  have sg: "signal_repr flaky_env 9 = Some ''<Signals.SIGKILL: 9>''"
    by (simp add: flaky_env_def)
  note t = failed_run_exits_with_status_zero
  have i1: "exit_status (fst (main flaky_env ''conf.yaml'' ''demo'' (Document ?apt) demo_world)) = 0
     \<and> last (trace (snd (main flaky_env ''conf.yaml'' ''demo'' (Document ?apt) demo_world)))
         = Log ERROR (''Caught subprocess.CalledProcessError:'' @ [newline]
          @ ''Command '' @ [CHR 0x27] @ ''apt list'' @ [CHR 0x27] @ '' returned non-zero exit status 100.'')"
    using t [where conf = ?apt and selected_recipe = "''demo''" and entry = ?apt_entry and r = ?apt_r
        and env = flaky_env and w = demo_world and config_path = "''conf.yaml''" and msg = "[]"
        and out_pre = "concat [''pkg 1.0'' @ [newline]]" and rc_pre = 0 and s_pre = 0
        and out_patch = "concat [''patched'' @ [newline]]" and rc_patch = 0 and s_patch = "Suc 0"
        and out_post = "concat [''E: database locked'' @ [newline]]" and rc_post = 100 and s_post = "Suc 0",
        THEN conjunct1]
      ok g ro sh od fl w n sg
    by (simp add: caught_def str_CalledProcessError_def)
  have i2: "exit_status (fst (main demo_env ''conf.yaml'' ''demo'' (Document demo_conf) demo_world)) = 0
     \<and> last (trace (snd (main demo_env ''conf.yaml'' ''demo'' (Document demo_conf) demo_world)))
         = Close ''/tmp/logs/20221231T235958.000102Z_package_versions_post-patch.log''"
    using t [where conf = demo_conf and selected_recipe = "''demo''" and entry = ?demo_entry and r = demo_recipe
        and env = demo_env and w = demo_world and config_path = "''conf.yaml''" and msg = "[]"
        and out_pre = "concat [''v1'' @ [newline]]" and rc_pre = 0 and s_pre = 0
        and out_patch = "concat [''patched'' @ [newline]]" and rc_patch = 0 and s_patch = "Suc 0"
        and out_post = "concat [''v1'' @ [newline]]" and rc_post = 0 and s_post = "Suc 0",
        THEN conjunct1]
      ok g ro r sh od w n sg demo_log_path
    by (simp add: caught_def str_CalledProcessError_def)
  have i3: "exit_status (fst (main demo_env ''conf.yaml'' ''broken'' (Document demo_failing_conf) demo_world)) = 0
     \<and> last (trace (snd (main demo_env ''conf.yaml'' ''broken'' (Document demo_failing_conf) demo_world)))
         = Log ERROR (''Caught subprocess.CalledProcessError:'' @ [newline]
          @ ''Command '' @ [CHR 0x27] @ ''ls /nonexistent'' @ [CHR 0x27] @ '' returned non-zero exit status 2.'')"
    using t [where conf = demo_failing_conf and selected_recipe = "''broken''" and entry = ?broken_entry
        and r = ?broken_r and env = demo_env and w = demo_world and config_path = "''conf.yaml''"
        and msg = "[]" and out_patch = "concat [''ls: cannot access'' @ [newline], ''No such file'' @ [newline]]" and rc_patch = 2 and s_patch = 0,
        THEN conjunct2, THEN conjunct1]
      ok g ro sh od w n sg
    by (simp add: caught_def str_CalledProcessError_def)
  have i4: "exit_status (fst (pkgptch_main_run demo_env [''demo'' \<mapsto> ?r_patch] ''demo'' demo_world)) = 0
     \<and> last (trace (snd (pkgptch_main_run demo_env [''demo'' \<mapsto> ?r_patch] ''demo'' demo_world)))
         = Log ERROR (''Caught subprocess.CalledProcessError:'' @ [newline]
          @ ''Command '' @ [CHR 0x27] @ ''ls /nonexistent'' @ [CHR 0x27] @ '' returned non-zero exit status 2.'')"
    using t [where recipes = "[''demo'' \<mapsto> ?r_patch]" and selected_recipe = "''demo''" and r = ?r_patch
        and env = demo_env and w = demo_world and msg = "[]"
        and out_pre = "concat [''v1'' @ [newline]]" and rc_pre = 0 and s_pre = 0
        and out_patch = "concat [''ls: cannot access'' @ [newline], ''No such file'' @ [newline]]" and rc_patch = 2 and s_patch = 0
        and out_post = "concat [''v1'' @ [newline]]" and rc_post = 0 and s_post = 0,
        THEN conjunct2, THEN conjunct2, THEN conjunct1]
      rp sh od w n sg
    by (simp add: caught_def str_CalledProcessError_def)
  have i5: "exit_status (fst (pkgptch_main_run demo_env [''demo'' \<mapsto> demo_recipe] ''demo'' demo_world)) = 0
     \<and> last (trace (snd (pkgptch_main_run demo_env [''demo'' \<mapsto> demo_recipe] ''demo'' demo_world)))
         = Close ''20230101T125958Z_package_versions_post-patch.log''"
    using t [where recipes = "[''demo'' \<mapsto> demo_recipe]" and selected_recipe = "''demo''" and r = demo_recipe
        and env = demo_env and w = demo_world and msg = "[]"
        and out_pre = "concat [''v1'' @ [newline]]" and rc_pre = 0 and s_pre = 0
        and out_patch = "concat [''patched'' @ [newline]]" and rc_patch = 0 and s_patch = "Suc 0"
        and out_post = "concat [''v1'' @ [newline]]" and rc_post = 0 and s_post = "Suc 0",
        THEN conjunct2, THEN conjunct2, THEN conjunct1]
      r sh od w n sg demo_pkgptch_log_path
    by (simp add: caught_def str_CalledProcessError_def)
  have i6: "exit_status (fst (pkgptch_main_run flaky_env [''demo'' \<mapsto> ?r_sleep] ''demo'' demo_world)) = 0
     \<and> last (trace (snd (pkgptch_main_run flaky_env [''demo'' \<mapsto> ?r_sleep] ''demo'' demo_world)))
         = Log ERROR (''Caught subprocess.CalledProcessError:'' @ [newline]
          @ ''Command '' @ [CHR 0x27] @ ''sleep 60'' @ [CHR 0x27] @ '' died with <Signals.SIGKILL: 9>.'')"
    using t [where recipes = "[''demo'' \<mapsto> ?r_sleep]" and selected_recipe = "''demo''" and r = ?r_sleep
        and env = flaky_env and w = demo_world and msg = "[]"
        and out_patch = "[]" and rc_patch = "- 9" and s_patch = 0,
        THEN conjunct2, THEN conjunct2, THEN conjunct2, THEN conjunct1]
      rs sh od fl w n sg
    by (simp add: caught_def str_CalledProcessError_def)
  from i1 i2 i3 i4 i5 i6 show ?thesis
    by (intro conjI) blast+
qed

end
